theory Spec2Isabelle
  imports Complex_Main "HOL-Library.Sublist"
begin

section \<open>Numbers, strings and optional fields\<close>

text \<open>
  The floor-plan engine is TypeScript. Its documents (the floor plan and the estimate
  configuration) are JSON, so every number the engine reads is a finite IEEE 754 double:
  such a number is a \<^typ>\<open>real\<close> here. The result of an arithmetic operation on doubles is the
  exact result rounded to the nearest double, a tie going to the double whose significand
  is even. \<open>rnd\<close> is that rounding: \<open>binade x\<close> is the exponent of \<open>x\<close>, \<open>ulp x\<close> the distance
  between the doubles around \<open>x\<close> (significands have 53 bits, and below \<open>2\<close> to the power
  \<open>-1022\<close> the doubles are the multiples of \<open>2\<close> to the power \<open>-1074\<close>). Overflow is not
  modelled: the results are assumed to stay below the largest double.
\<close>

definition round_even :: "real \<Rightarrow> int" where
  "round_even r =
     (let f = \<lfloor>r\<rfloor>; d = r - of_int f
      in if d < 1 / 2 then f else if 1 / 2 < d then f + 1 else if even f then f else f + 1)"

definition binade :: "real \<Rightarrow> int" where
  "binade x = \<lfloor>log 2 \<bar>x\<bar>\<rfloor>"

definition ulp :: "real \<Rightarrow> real" where
  "ulp x = 2 powi (max (binade x) (- 1022) - 52)"

definition rnd :: "real \<Rightarrow> real" where
  "rnd x = (if x = 0 then 0 else of_int (round_even (x / ulp x)) * ulp x)"

text \<open>\<open>a + b\<close>, \<open>a - b\<close>, \<open>a * b\<close> and \<open>a / b\<close> (for \<open>b\<close> other than zero) on two doubles.\<close>

definition fadd :: "real \<Rightarrow> real \<Rightarrow> real" where
  "fadd a b = rnd (a + b)"

definition fsub :: "real \<Rightarrow> real \<Rightarrow> real" where
  "fsub a b = rnd (a - b)"

definition fmul :: "real \<Rightarrow> real \<Rightarrow> real" where
  "fmul a b = rnd (a * b)"

definition fdiv :: "real \<Rightarrow> real \<Rightarrow> real" where
  "fdiv a b = rnd (a / b)"

text \<open>
  \<open>Math.max\<close>, \<open>Math.min\<close>, \<open>Math.abs\<close>, \<open>Math.ceil\<close> and the comparisons are exact on
  doubles, so they are the ones of the reals.

  The engine settles a question by a comparison or a \<open>Math.ceil\<close> in four places: the
  brick count, the material quantities and the budget computed from the plan totals, the
  test for overlapping rooms, and the test for duplicate walls. These computations are
  modelled with the rounded operations throughout, the test for duplicate walls together
  with the wall segments it reads. The lengths, areas, volumes and coordinates that the
  engine only reports (the statistics of a wall and of a room, and the geometry with its
  default scale \<open>0.2\<close>) are kept as the exact reals; the double the engine reports is such
  a number with each intermediate result rounded. The brick count of a wall is the rounded
  computation of \<open>calculateBrickCount\<close> applied to that exact net area, which is the double
  the engine passes whenever the products and sums of the wall involve no rounding.

  A division whose divisor can be zero leaves the finite numbers: JavaScript yields \<open>NaN\<close>,
  \<open>Infinity\<close> or \<open>-Infinity\<close>. The type \<open>jsnum\<close> keeps that visible: \<open>NonFinite\<close> stands for
  any of the three. Every operation the engine applies to such a result (\<open>+\<close>, \<open>*\<close>,
  \<open>Math.ceil\<close>, division by a finite number) maps a non-finite operand to a non-finite
  result, which is what the operations below do.
\<close>

datatype jsnum = Fin real | NonFinite

text \<open>\<open>a / b\<close> on two finite numbers.\<close>

definition js_div :: "real \<Rightarrow> real \<Rightarrow> jsnum" where
  "js_div a b = (if b = 0 then NonFinite else Fin (fdiv a b))"

fun jadd :: "jsnum \<Rightarrow> jsnum \<Rightarrow> jsnum" where
  "jadd (Fin a) (Fin b) = Fin (fadd a b)"
| "jadd _ _ = NonFinite"

fun jmul :: "jsnum \<Rightarrow> jsnum \<Rightarrow> jsnum" where
  "jmul (Fin a) (Fin b) = Fin (fmul a b)"
| "jmul _ _ = NonFinite"

text \<open>\<open>a / b\<close> where only the divisor is known to be finite.\<close>

fun jdiv :: "jsnum \<Rightarrow> real \<Rightarrow> jsnum" where
  "jdiv (Fin a) b = js_div a b"
| "jdiv NonFinite b = NonFinite"

fun jceil :: "jsnum \<Rightarrow> jsnum" where
  "jceil (Fin a) = Fin (of_int \<lceil>a\<rceil>)"
| "jceil NonFinite = NonFinite"

text \<open>
  \<open>a ?? b\<close>: the left operand unless it is \<open>undefined\<close>. An optional field \<open>f?: T\<close> is a
  \<open>T option\<close>, and the optional chain \<open>a?.f?.g\<close> is \<^const>\<open>Option.bind\<close>.
\<close>

definition nullish :: "'a option \<Rightarrow> 'a \<Rightarrow> 'a" where
  "nullish a b = (case a of Some v \<Rightarrow> v | None \<Rightarrow> b)"

section \<open>The floor-plan document (types/floor-plan.ts)\<close>

datatype Unit = Cm | Mm | M

datatype WallSide = North | East | South | West

datatype OpeningType = Door | Window

record Position =
  pos_x :: real
  pos_y :: real

record Opening =
  opening_type :: OpeningType
  opening_offset :: real
  opening_width :: "real option"
  opening_height :: "real option"
  opening_fromFloor :: "real option"
  opening_to :: "string option"

record Wall =
  wall_length :: "real option"
  wall_height :: "real option"
  wall_thickness :: "real option"
  wall_exists :: "bool option"
  wall_openings :: "Opening list option"

record Walls =
  north :: Wall
  east :: Wall
  south :: Wall
  west :: Wall

text \<open>The cosmetic \<open>materials\<close> of a room are read by the renderers only and left out.\<close>

record Room =
  room_id :: string
  room_name :: "string option"
  room_position :: Position
  room_walls :: Walls

record WallDefaults =
  wd_height :: "real option"
  wd_thickness :: "real option"

record DoorDefaults =
  dd_width :: "real option"
  dd_height :: "real option"

record WindowDefaults =
  wnd_width :: "real option"
  wnd_height :: "real option"
  wnd_fromFloor :: "real option"

record Defaults =
  defaults_wall :: "WallDefaults option"
  defaults_door :: "DoorDefaults option"
  defaults_window :: "WindowDefaults option"

text \<open>The structural \<open>elements\<close> of a floor are not computed over and left out.\<close>

record Floor =
  floor_id :: string
  floor_name :: "string option"
  floor_rooms :: "Room list"

record FloorPlan =
  fp_version :: string
  fp_unit :: Unit
  fp_scale :: "real option"
  fp_defaults :: "Defaults option"
  fp_floor :: Floor

text \<open>\<open>room.walls[side]\<close>\<close>

fun wallOf :: "Room \<Rightarrow> WallSide \<Rightarrow> Wall" where
  "wallOf room North = north (room_walls room)"
| "wallOf room East = east (room_walls room)"
| "wallOf room South = south (room_walls room)"
| "wallOf room West = west (room_walls room)"

text \<open>A side printed by a template literal.\<close>

fun sideName :: "WallSide \<Rightarrow> string" where
  "sideName North = ''north''"
| "sideName East = ''east''"
| "sideName South = ''south''"
| "sideName West = ''west''"

section \<open>The defaults resolver of the geometry calculator (utils/floor-plan.utils.ts)\<close>

definition DEFAULT_WALL_height :: real where "DEFAULT_WALL_height = 280"
definition DEFAULT_WALL_thickness :: real where "DEFAULT_WALL_thickness = 15"
definition DEFAULT_DOOR_width :: real where "DEFAULT_DOOR_width = 80"
definition DEFAULT_DOOR_height :: real where "DEFAULT_DOOR_height = 210"
definition DEFAULT_WINDOW_width :: real where "DEFAULT_WINDOW_width = 120"
definition DEFAULT_WINDOW_height :: real where "DEFAULT_WINDOW_height = 120"
definition DEFAULT_WINDOW_fromFloor :: real where "DEFAULT_WINDOW_fromFloor = 100"

record ResolvedWall =
  rw_length :: real
  rw_height :: real
  rw_thickness :: real
  rw_exists :: bool
  rw_openings :: "Opening list"

definition resolveWall :: "Wall \<Rightarrow> Defaults option \<Rightarrow> ResolvedWall" where
  "resolveWall wall defaults =
     \<lparr> rw_length = nullish (wall_length wall) 0,
       rw_height = nullish (wall_height wall)
         (nullish (Option.bind (Option.bind defaults defaults_wall) wd_height)
            DEFAULT_WALL_height),
       rw_thickness = nullish (wall_thickness wall)
         (nullish (Option.bind (Option.bind defaults defaults_wall) wd_thickness)
            DEFAULT_WALL_thickness),
       rw_exists = nullish (wall_exists wall) True,
       rw_openings = nullish (wall_openings wall) [] \<rparr>"

record ResolvedOpening =
  ro_type :: OpeningType
  ro_offset :: real
  ro_width :: real
  ro_height :: real
  ro_fromFloor :: real
  ro_to :: "string option"

text \<open>
  \<open>typeDefaults\<close> is the plan's record for the opening's type when the plan has one
  (its fields may be absent), the constant one otherwise.
\<close>

definition typeDefaults :: "bool \<Rightarrow> Defaults option \<Rightarrow> real option \<times> real option" where
  "typeDefaults isWindow defaults =
     (if isWindow
      then (case Option.bind defaults defaults_window of
              Some wd \<Rightarrow> (wnd_width wd, wnd_height wd)
            | None \<Rightarrow> (Some DEFAULT_WINDOW_width, Some DEFAULT_WINDOW_height))
      else (case Option.bind defaults defaults_door of
              Some dd \<Rightarrow> (dd_width dd, dd_height dd)
            | None \<Rightarrow> (Some DEFAULT_DOOR_width, Some DEFAULT_DOOR_height)))"

definition resolveOpening :: "Opening \<Rightarrow> Defaults option \<Rightarrow> ResolvedOpening" where
  "resolveOpening opening defaults =
     (let isWindow = (opening_type opening = Window);
          td = typeDefaults isWindow defaults
      in \<lparr> ro_type = opening_type opening,
           ro_offset = opening_offset opening,
           ro_width = nullish (opening_width opening)
             (nullish (fst td) (if isWindow then DEFAULT_WINDOW_width else DEFAULT_DOOR_width)),
           ro_height = nullish (opening_height opening)
             (nullish (snd td) (if isWindow then DEFAULT_WINDOW_height else DEFAULT_DOOR_height)),
           ro_fromFloor = nullish (opening_fromFloor opening)
             (if isWindow
              then nullish (Option.bind (Option.bind defaults defaults_window) wnd_fromFloor)
                     DEFAULT_WINDOW_fromFloor
              else 0),
           ro_to = opening_to opening \<rparr>)"

section \<open>The estimate configuration (types/estimate-config.ts)\<close>

record BrickConfig =
  brick_width :: real
  brick_height :: real
  brick_length :: real
  brick_mortarThickness :: real
  brick_wasteFactor :: real

record PaintConfig =
  paint_coverage :: real
  paint_primerCoverage :: real
  paint_puttyCoverage :: real
  paint_coats :: real
  paint_primerCoats :: real
  paint_puttyPercentage :: real

record FlooringConfig =
  flooring_wasteFactor :: real
  flooring_groutPerM2 :: real
  flooring_adhesivePerM2 :: real

record RoomElectricalConfig =
  rec_outlets :: real
  rec_switches :: real
  rec_lights :: real

record ElectricalByRoomType =
  el_sala :: RoomElectricalConfig
  el_cozinha :: RoomElectricalConfig
  el_banheiro :: RoomElectricalConfig
  el_quarto :: RoomElectricalConfig
  el_area_servico :: RoomElectricalConfig
  el_default :: RoomElectricalConfig

record ElectricalConfig =
  electrical_wirePerPoint :: real
  electrical_byRoomType :: ElectricalByRoomType

record RoomPlumbingConfig =
  rpc_coldWater :: real
  rpc_hotWater :: real
  rpc_drains :: real

record PlumbingByRoomType =
  pl_cozinha :: RoomPlumbingConfig
  pl_banheiro :: RoomPlumbingConfig
  pl_area_servico :: RoomPlumbingConfig

record PlumbingConfig =
  plumbing_pipePerPoint :: real
  plumbing_byRoomType :: PlumbingByRoomType

record PricesConfig =
  price_brick :: real
  price_mortar_m3 :: real
  price_paint_18l :: real
  price_primer_18l :: real
  price_putty_25kg :: real
  price_tile_m2 :: real
  price_grout_kg :: real
  price_tile_adhesive_kg :: real
  price_outlet :: real
  price_switch :: real
  price_light_point :: real
  price_water_point :: real
  price_drain_point :: real
  price_wire_m :: real
  price_pipe_m :: real

record EstimateConfig =
  cfg_brick :: BrickConfig
  cfg_paint :: PaintConfig
  cfg_flooring :: FlooringConfig
  cfg_electrical :: ElectricalConfig
  cfg_plumbing :: PlumbingConfig
  cfg_prices :: PricesConfig

section \<open>Per-wall statistics (utils/statistics.ts)\<close>

record WallStats =
  ws_side :: WallSide
  ws_length :: real
  ws_height :: real
  ws_thickness :: real
  ws_area :: real
  ws_areaWithoutOpenings :: real
  ws_openingsArea :: real
  ws_brickCount :: jsnum
  ws_exists :: bool

text \<open>\<open>getWallDefaults\<close> returns the pair \<open>{height, thickness}\<close>.\<close>

definition getWallDefaults :: "Defaults option \<Rightarrow> real \<times> real" where
  "getWallDefaults defaults =
     (nullish (Option.bind (Option.bind defaults defaults_wall) wd_height) 280,
      nullish (Option.bind (Option.bind defaults defaults_wall) wd_thickness) 15)"

text \<open>\<open>getOpeningDefaults\<close> returns the pair \<open>{width, height}\<close>.\<close>

definition getOpeningDefaults :: "OpeningType \<Rightarrow> Defaults option \<Rightarrow> real \<times> real" where
  "getOpeningDefaults ty defaults =
     (if ty = Door
      then (nullish (Option.bind (Option.bind defaults defaults_door) dd_width) 80,
            nullish (Option.bind (Option.bind defaults defaults_door) dd_height) 210)
      else (nullish (Option.bind (Option.bind defaults defaults_window) wnd_width) 120,
            nullish (Option.bind (Option.bind defaults defaults_window) wnd_height) 120))"

text \<open>The callback of the \<open>reduce\<close> in \<open>calculateOpeningsArea\<close>.\<close>

definition openingAreaStep :: "Defaults option \<Rightarrow> real \<Rightarrow> Opening \<Rightarrow> real" where
  "openingAreaStep defaults tot opening =
     (let openingDefaults = getOpeningDefaults (opening_type opening) defaults;
          width = nullish (opening_width opening) (fst openingDefaults);
          height = nullish (opening_height opening) (snd openingDefaults)
      in tot + width * height)"

definition calculateOpeningsArea :: "Wall \<Rightarrow> Defaults option \<Rightarrow> real" where
  "calculateOpeningsArea wall defaults =
     (case wall_openings wall of
        None \<Rightarrow> 0
      | Some os \<Rightarrow> if length os = 0 then 0 else foldl (openingAreaStep defaults) 0 os)"

definition calculateBrickCount :: "real \<Rightarrow> EstimateConfig \<Rightarrow> jsnum" where
  "calculateBrickCount areaCm2 config =
     (let bwm_width = fadd (brick_width (cfg_brick config))
                           (brick_mortarThickness (cfg_brick config));
          bwm_height = fadd (brick_height (cfg_brick config))
                            (brick_mortarThickness (cfg_brick config));
          brickArea = fmul bwm_width bwm_height
      in jceil (jmul (js_div areaCm2 brickArea) (Fin (brick_wasteFactor (cfg_brick config)))))"

definition cm2ToM2 :: "real \<Rightarrow> real" where
  "cm2ToM2 cm2 = cm2 / 10000"

definition cmToM :: "real \<Rightarrow> real" where
  "cmToM cm = cm / 100"

definition calculateWallStats ::
  "Wall \<Rightarrow> WallSide \<Rightarrow> Defaults option \<Rightarrow> EstimateConfig \<Rightarrow> WallStats" where
  "calculateWallStats wall side defaults config =
     (let wallDefaults = getWallDefaults defaults;
          len = nullish (wall_length wall) 0;
          height = nullish (wall_height wall) (fst wallDefaults);
          thickness = nullish (wall_thickness wall) (snd wallDefaults);
          exists = (wall_exists wall \<noteq> Some False);
          areaCm2 = len * height;
          openingsAreaCm2 = calculateOpeningsArea wall defaults;
          areaWithoutOpeningsCm2 = max 0 (areaCm2 - openingsAreaCm2);
          brickCount = (if exists then calculateBrickCount areaWithoutOpeningsCm2 config
                        else Fin 0)
      in \<lparr> ws_side = side,
           ws_length = len,
           ws_height = height,
           ws_thickness = thickness,
           ws_area = cm2ToM2 areaCm2,
           ws_areaWithoutOpenings = cm2ToM2 areaWithoutOpeningsCm2,
           ws_openingsArea = cm2ToM2 openingsAreaCm2,
           ws_brickCount = brickCount,
           ws_exists = exists \<rparr>)"

text \<open>
  A decimal literal of the source denotes the double nearest to it: \<open>1.05\<close> is
  \<open>rnd (105 / 100)\<close>.
\<close>

definition DEFAULT_ESTIMATE_CONFIG :: EstimateConfig where
  "DEFAULT_ESTIMATE_CONFIG =
     \<lparr> cfg_brick = \<lparr> brick_width = 14, brick_height = 19, brick_length = 9,
                      brick_mortarThickness = 1, brick_wasteFactor = rnd (105 / 100) \<rparr>,
       cfg_paint = \<lparr> paint_coverage = 10, paint_primerCoverage = 12, paint_puttyCoverage = 3,
                      paint_coats = 2, paint_primerCoats = 1, paint_puttyPercentage = 70 \<rparr>,
       cfg_flooring = \<lparr> flooring_wasteFactor = rnd (110 / 100), flooring_groutPerM2 = rnd (5 / 10),
                         flooring_adhesivePerM2 = 5 \<rparr>,
       cfg_electrical =
         \<lparr> electrical_wirePerPoint = 8,
           electrical_byRoomType =
             \<lparr> el_sala = \<lparr> rec_outlets = 6, rec_switches = 2, rec_lights = 2 \<rparr>,
               el_cozinha = \<lparr> rec_outlets = 8, rec_switches = 2, rec_lights = 2 \<rparr>,
               el_banheiro = \<lparr> rec_outlets = 2, rec_switches = 1, rec_lights = 2 \<rparr>,
               el_quarto = \<lparr> rec_outlets = 4, rec_switches = 2, rec_lights = 1 \<rparr>,
               el_area_servico = \<lparr> rec_outlets = 3, rec_switches = 1, rec_lights = 1 \<rparr>,
               el_default = \<lparr> rec_outlets = 3, rec_switches = 1, rec_lights = 1 \<rparr> \<rparr> \<rparr>,
       cfg_plumbing =
         \<lparr> plumbing_pipePerPoint = 3,
           plumbing_byRoomType =
             \<lparr> pl_cozinha = \<lparr> rpc_coldWater = 2, rpc_hotWater = 1, rpc_drains = 2 \<rparr>,
               pl_banheiro = \<lparr> rpc_coldWater = 3, rpc_hotWater = 2, rpc_drains = 3 \<rparr>,
               pl_area_servico = \<lparr> rpc_coldWater = 2, rpc_hotWater = 1, rpc_drains = 2 \<rparr> \<rparr> \<rparr>,
       cfg_prices =
         \<lparr> price_brick = rnd (85 / 100), price_mortar_m3 = 350, price_paint_18l = 280,
           price_primer_18l = 150, price_putty_25kg = 45, price_tile_m2 = 45,
           price_grout_kg = 8, price_tile_adhesive_kg = rnd (12 / 10), price_outlet = 25,
           price_switch = 20, price_light_point = 80, price_water_point = 120,
           price_drain_point = 100, price_wire_m = rnd (35 / 10), price_pipe_m = 12 \<rparr> \<rparr>"

section \<open>Room type inference (utils/statistics.ts)\<close>

text \<open>
  Identifiers and names are \<^typ>\<open>string\<close>s. \<open>toLowerCase\<close> maps the letters \<open>A\<close> to \<open>Z\<close>
  to \<open>a\<close> to \<open>z\<close> and leaves every other character as it is; \<open>s.includes(k)\<close> (here \<open>str_includes s k\<close>) holds when
  \<open>k\<close> is a contiguous part of \<open>s\<close>.
\<close>

definition lowerChar :: "char \<Rightarrow> char" where
  "lowerChar c =
     (let n = (of_char c :: nat) in if 65 \<le> n \<and> n \<le> 90 then char_of (n + 32) else c)"

definition toLowerCase :: "string \<Rightarrow> string" where
  "toLowerCase s = map lowerChar s"

definition str_includes :: "string \<Rightarrow> string \<Rightarrow> bool" where
  "str_includes s k = sublist k s"

definition getRoomType :: "Room \<Rightarrow> string" where
  "getRoomType room =
     (let rid = toLowerCase (room_id room);
          name = toLowerCase (nullish (room_name room) [])
      in if str_includes rid ''sala'' \<or> str_includes name ''sala'' then ''sala''
         else if str_includes rid ''cozinha'' \<or> str_includes name ''cozinha'' then ''cozinha''
         else if str_includes rid ''banheiro'' \<or> str_includes name ''banheiro'' \<or> str_includes name ''wc''
           then ''banheiro''
         else if str_includes rid ''quarto'' \<or> str_includes name ''quarto'' \<or> str_includes name ''dormit''
           then ''quarto''
         else if str_includes rid ''servico'' \<or> str_includes name ''servico''
                 \<or> str_includes name ''lavanderia''
           then ''area-servico''
         else ''default'')"

section \<open>Room statistics and plan totals (utils/statistics.ts)\<close>

record RoomStats =
  rs_id :: string
  rs_name :: string
  rs_type :: string
  rs_floorArea :: real
  rs_perimeter :: real
  rs_wallsArea :: real
  rs_wallsAreaWithoutOpenings :: real
  rs_volume :: real
  rs_walls :: "WallStats list"
  rs_brickCount :: jsnum

definition sides :: "WallSide list" where
  "sides = [North, East, South, West]"

definition calculateRoomStats :: "Room \<Rightarrow> Defaults option \<Rightarrow> EstimateConfig \<Rightarrow> RoomStats" where
  "calculateRoomStats room defaults config =
     (let wallDefaults = getWallDefaults defaults;
          width = max (nullish (wall_length (north (room_walls room))) 0)
                      (nullish (wall_length (south (room_walls room))) 0);
          height = max (nullish (wall_length (east (room_walls room))) 0)
                       (nullish (wall_length (west (room_walls room))) 0);
          wallHeight = fst wallDefaults;
          floorAreaCm2 = width * height;
          floorArea = cm2ToM2 floorAreaCm2;
          perimeterCm = foldl (\<lambda>p side.
              if wall_exists (wallOf room side) \<noteq> Some False
              then p + nullish (wall_length (wallOf room side)) 0 else p) 0 sides;
          perimeter = cmToM perimeterCm;
          walls = map (\<lambda>side. calculateWallStats (wallOf room side) side defaults config) sides;
          wallsArea = foldl (\<lambda>sum w. sum + ws_area w) 0 (filter ws_exists walls);
          wallsAreaWithoutOpenings =
            foldl (\<lambda>sum w. sum + ws_areaWithoutOpenings w) 0 (filter ws_exists walls);
          volumeCm3 = floorAreaCm2 * wallHeight;
          volume = volumeCm3 / 1000000;
          brickCount = foldl (\<lambda>sum w. jadd sum (ws_brickCount w)) (Fin 0) walls
      in \<lparr> rs_id = room_id room,
           rs_name = nullish (room_name room) (room_id room),
           rs_type = getRoomType room,
           rs_floorArea = floorArea,
           rs_perimeter = perimeter,
           rs_wallsArea = wallsArea,
           rs_wallsAreaWithoutOpenings = wallsAreaWithoutOpenings,
           rs_volume = volume,
           rs_walls = walls,
           rs_brickCount = brickCount \<rparr>)"

record MeasurementsStats =
  ms_totalFloorArea :: real
  ms_totalWallsArea :: real
  ms_totalWallsAreaWithoutOpenings :: real
  ms_totalVolume :: real
  ms_totalPerimeter :: real
  ms_roomCount :: nat
  ms_rooms :: "RoomStats list"

definition calculateMeasurements :: "RoomStats list \<Rightarrow> MeasurementsStats" where
  "calculateMeasurements rooms =
     \<lparr> ms_totalFloorArea = foldl (\<lambda>sum r. fadd sum (rs_floorArea r)) 0 rooms,
       ms_totalWallsArea = foldl (\<lambda>sum r. fadd sum (rs_wallsArea r)) 0 rooms,
       ms_totalWallsAreaWithoutOpenings =
         foldl (\<lambda>sum r. fadd sum (rs_wallsAreaWithoutOpenings r)) 0 rooms,
       ms_totalVolume = foldl (\<lambda>sum r. fadd sum (rs_volume r)) 0 rooms,
       ms_totalPerimeter = foldl (\<lambda>sum r. fadd sum (rs_perimeter r)) 0 rooms,
       ms_roomCount = length rooms,
       ms_rooms = rooms \<rparr>"

section \<open>Material quantities (utils/statistics.ts)\<close>

record MasonryMaterials =
  mm_bricks :: jsnum
  mm_mortar :: jsnum

record PaintMaterials =
  pm_paint :: jsnum
  pm_primer :: jsnum
  pm_putty :: jsnum
  pm_ceilingPaint :: jsnum
  pm_paintableWallArea :: real
  pm_ceilingArea :: real

record FlooringMaterials =
  fm_tiles :: real
  fm_grout :: real
  fm_adhesive :: real
  fm_netArea :: real

record ElectricalByRoom =
  ebr_roomName :: string
  ebr_outlets :: real
  ebr_switches :: real
  ebr_lights :: real

record ElectricalMaterials =
  em_outlets :: real
  em_switches :: real
  em_lightPoints :: real
  em_wireEstimate :: real
  em_byRoom :: "ElectricalByRoom list"

record PlumbingByRoom =
  pbr_roomName :: string
  pbr_coldWater :: real
  pbr_hotWater :: real
  pbr_drains :: real

record PlumbingMaterials =
  plm_coldWaterPoints :: real
  plm_hotWaterPoints :: real
  plm_drainPoints :: real
  plm_pipeEstimate :: real
  plm_byRoom :: "PlumbingByRoom list"

record MaterialsEstimate =
  mat_masonry :: MasonryMaterials
  mat_paint :: PaintMaterials
  mat_flooring :: FlooringMaterials
  mat_electrical :: ElectricalMaterials
  mat_plumbing :: PlumbingMaterials

definition calculateMasonry :: "MeasurementsStats \<Rightarrow> MasonryMaterials" where
  "calculateMasonry measurements =
     (let bricks = foldl (\<lambda>sum r. jadd sum (rs_brickCount r)) (Fin 0) (ms_rooms measurements);
          mortarPer1000 = rnd (25 / 100);
          mortar = jmul (jdiv bricks 1000) (Fin mortarPer1000)
      in \<lparr> mm_bricks = bricks, mm_mortar = mortar \<rparr>)"

definition calculatePaint :: "MeasurementsStats \<Rightarrow> EstimateConfig \<Rightarrow> PaintMaterials" where
  "calculatePaint measurements config =
     (let paintableWallArea =
            fmul (ms_totalWallsAreaWithoutOpenings measurements) (rnd (15 / 10));
          ceilingArea = ms_totalFloorArea measurements;
          totalPaintArea = fmul paintableWallArea (paint_coats (cfg_paint config));
          paint = jceil (js_div totalPaintArea (paint_coverage (cfg_paint config)));
          primer = jceil (js_div (fmul paintableWallArea (paint_primerCoats (cfg_paint config)))
                            (paint_primerCoverage (cfg_paint config)));
          putty = jceil (js_div
                    (fmul paintableWallArea (fdiv (paint_puttyPercentage (cfg_paint config)) 100))
                    (paint_puttyCoverage (cfg_paint config)));
          ceilingPaint = jceil (js_div (fmul ceilingArea (paint_coats (cfg_paint config)))
                                  (paint_coverage (cfg_paint config)))
      in \<lparr> pm_paint = paint,
           pm_primer = primer,
           pm_putty = putty,
           pm_ceilingPaint = ceilingPaint,
           pm_paintableWallArea = paintableWallArea,
           pm_ceilingArea = ceilingArea \<rparr>)"

definition calculateFlooring :: "MeasurementsStats \<Rightarrow> EstimateConfig \<Rightarrow> FlooringMaterials" where
  "calculateFlooring measurements config =
     (let netArea = ms_totalFloorArea measurements;
          tiles = fmul netArea (flooring_wasteFactor (cfg_flooring config));
          grout = of_int \<lceil>fmul netArea (flooring_groutPerM2 (cfg_flooring config))\<rceil>;
          adhesive = of_int \<lceil>fmul netArea (flooring_adhesivePerM2 (cfg_flooring config))\<rceil>
      in \<lparr> fm_tiles = tiles, fm_grout = grout, fm_adhesive = adhesive, fm_netArea = netArea \<rparr>)"

text \<open>
  \<open>config.electrical.byRoomType[roomType]\<close>: the property of that name, \<open>undefined\<close> for a
  name the record does not have.
\<close>

definition electricalByRoomType :: "ElectricalByRoomType \<Rightarrow> string \<Rightarrow> RoomElectricalConfig option"
  where
  "electricalByRoomType t roomType =
     (if roomType = ''sala'' then Some (el_sala t)
      else if roomType = ''cozinha'' then Some (el_cozinha t)
      else if roomType = ''banheiro'' then Some (el_banheiro t)
      else if roomType = ''quarto'' then Some (el_quarto t)
      else if roomType = ''area-servico'' then Some (el_area_servico t)
      else if roomType = ''default'' then Some (el_default t)
      else None)"

definition calculateElectrical :: "RoomStats list \<Rightarrow> EstimateConfig \<Rightarrow> ElectricalMaterials" where
  "calculateElectrical rooms config =
     (let byRoom = map (\<lambda>room.
            let roomType = rs_type room;
                estimate = nullish
                  (electricalByRoomType (electrical_byRoomType (cfg_electrical config)) roomType)
                  (el_default (electrical_byRoomType (cfg_electrical config)))
            in \<lparr> ebr_roomName = rs_name room,
                 ebr_outlets = rec_outlets estimate,
                 ebr_switches = rec_switches estimate,
                 ebr_lights = rec_lights estimate \<rparr>) rooms;
          outlets = foldl (\<lambda>sum r. fadd sum (ebr_outlets r)) 0 byRoom;
          switches = foldl (\<lambda>sum r. fadd sum (ebr_switches r)) 0 byRoom;
          lightPoints = foldl (\<lambda>sum r. fadd sum (ebr_lights r)) 0 byRoom;
          wireEstimate =
            fmul (fadd (fadd outlets switches) lightPoints)
                 (electrical_wirePerPoint (cfg_electrical config))
      in \<lparr> em_outlets = outlets,
           em_switches = switches,
           em_lightPoints = lightPoints,
           em_wireEstimate = wireEstimate,
           em_byRoom = byRoom \<rparr>)"

definition plumbingByRoomType :: "PlumbingByRoomType \<Rightarrow> string \<Rightarrow> RoomPlumbingConfig option"
  where
  "plumbingByRoomType t roomType =
     (if roomType = ''cozinha'' then Some (pl_cozinha t)
      else if roomType = ''banheiro'' then Some (pl_banheiro t)
      else if roomType = ''area-servico'' then Some (pl_area_servico t)
      else None)"

text \<open>The \<open>map\<close> to an entry or \<open>null\<close> followed by the \<open>filter\<close> that drops the nulls.\<close>

definition calculatePlumbing :: "RoomStats list \<Rightarrow> EstimateConfig \<Rightarrow> PlumbingMaterials" where
  "calculatePlumbing rooms config =
     (let byRoom = List.map_filter (\<lambda>room.
            let roomType = rs_type room
            in (case plumbingByRoomType (plumbing_byRoomType (cfg_plumbing config)) roomType of
                  None \<Rightarrow> None
                | Some estimate \<Rightarrow>
                    Some \<lparr> pbr_roomName = rs_name room,
                           pbr_coldWater = rpc_coldWater estimate,
                           pbr_hotWater = rpc_hotWater estimate,
                           pbr_drains = rpc_drains estimate \<rparr>)) rooms;
          coldWaterPoints = foldl (\<lambda>sum r. fadd sum (pbr_coldWater r)) 0 byRoom;
          hotWaterPoints = foldl (\<lambda>sum r. fadd sum (pbr_hotWater r)) 0 byRoom;
          drainPoints = foldl (\<lambda>sum r. fadd sum (pbr_drains r)) 0 byRoom;
          pipeEstimate = fmul (fadd (fadd coldWaterPoints hotWaterPoints) drainPoints)
                              (plumbing_pipePerPoint (cfg_plumbing config))
      in \<lparr> plm_coldWaterPoints = coldWaterPoints,
           plm_hotWaterPoints = hotWaterPoints,
           plm_drainPoints = drainPoints,
           plm_pipeEstimate = pipeEstimate,
           plm_byRoom = byRoom \<rparr>)"

section \<open>The priced budget (utils/statistics.ts)\<close>

text \<open>
  The labels of the budget are Portuguese. A letter outside ASCII is written as the bytes
  of its UTF-8 encoding.
\<close>

definition a_circumflex :: string where "a_circumflex = [CHR 0xC3, CHR 0xA2]"
definition a_acute :: string where "a_acute = [CHR 0xC3, CHR 0xA1]"
definition a_tilde :: string where "a_tilde = [CHR 0xC3, CHR 0xA3]"
definition e_acute :: string where "e_acute = [CHR 0xC3, CHR 0xA9]"
definition o_tilde :: string where "o_tilde = [CHR 0xC3, CHR 0xB5]"
definition c_cedilla :: string where "c_cedilla = [CHR 0xC3, CHR 0xA7]"
definition superscript_two :: string where "superscript_two = [CHR 0xC2, CHR 0xB2]"
definition superscript_three :: string where "superscript_three = [CHR 0xC2, CHR 0xB3]"

definition Alvenaria :: string where "Alvenaria = ''Alvenaria''"
definition Pintura :: string where "Pintura = ''Pintura''"
definition Piso :: string where "Piso = ''Piso''"
definition Eletrica :: string where "Eletrica = ''El'' @ e_acute @ ''trica''"
definition Hidraulica :: string where "Hidraulica = ''Hidr'' @ a_acute @ ''ulica''"

text \<open>
  An integer printed by a template literal, in decimal (JavaScript prints an integer of
  magnitude below \<open>10^21\<close> this way).
\<close>

fun showNat :: "nat \<Rightarrow> string" where
  "showNat n = (if n < 10 then [char_of (48 + n)]
                else showNat (n div 10) @ [char_of (48 + n mod 10)])"

definition showInt :: "int \<Rightarrow> string" where
  "showInt i = (if i < 0 then ''-'' @ showNat (nat (- i)) else showNat (nat i))"

text \<open>\<open>Math.round\<close> rounds to the nearest integer, a half upwards.\<close>

definition Math_round :: "real \<Rightarrow> int" where
  "Math_round v = \<lfloor>v + 1 / 2\<rfloor>"

record BudgetItem =
  bi_category :: string
  bi_item :: string
  bi_quantity :: jsnum
  bi_unit :: string
  bi_unitPrice :: real
  bi_total :: jsnum

record Subtotals =
  sub_masonry :: jsnum
  sub_paint :: jsnum
  sub_flooring :: jsnum
  sub_electrical :: jsnum
  sub_plumbing :: jsnum

record BudgetEstimate =
  be_items :: "BudgetItem list"
  be_subtotals :: Subtotals
  be_total :: jsnum
  be_perM2 :: jsnum

text \<open>The items pushed unconditionally, in the order of the source.\<close>

definition fixedItems :: "MaterialsEstimate \<Rightarrow> EstimateConfig \<Rightarrow> BudgetItem list" where
  "fixedItems materials config =
     (let prices = cfg_prices config;
          paintCans = jceil (jdiv (pm_paint (mat_paint materials)) 18);
          primerCans = jceil (jdiv (pm_primer (mat_paint materials)) 18);
          puttySacks = jceil (jdiv (pm_putty (mat_paint materials)) 25);
          ceilingCans = jceil (jdiv (pm_ceilingPaint (mat_paint materials)) 18)
      in [ \<lparr> bi_category = Alvenaria,
             bi_item = ''Tijolos cer'' @ a_circumflex @ ''micos 6 furos'',
             bi_quantity = mm_bricks (mat_masonry materials),
             bi_unit = ''un'',
             bi_unitPrice = price_brick prices,
             bi_total = jmul (mm_bricks (mat_masonry materials)) (Fin (price_brick prices)) \<rparr>,
           \<lparr> bi_category = Alvenaria,
             bi_item = ''Argamassa de assentamento'',
             bi_quantity = jdiv (jceil (jmul (mm_mortar (mat_masonry materials)) (Fin 10))) 10,
             bi_unit = ''m'' @ superscript_three,
             bi_unitPrice = price_mortar_m3 prices,
             bi_total = jmul (mm_mortar (mat_masonry materials)) (Fin (price_mortar_m3 prices)) \<rparr>,
           \<lparr> bi_category = Pintura,
             bi_item = ''Tinta l'' @ a_acute @ ''tex (paredes) 18L'',
             bi_quantity = paintCans,
             bi_unit = ''lata'',
             bi_unitPrice = price_paint_18l prices,
             bi_total = jmul paintCans (Fin (price_paint_18l prices)) \<rparr>,
           \<lparr> bi_category = Pintura,
             bi_item = ''Selador/Fundo 18L'',
             bi_quantity = primerCans,
             bi_unit = ''lata'',
             bi_unitPrice = price_primer_18l prices,
             bi_total = jmul primerCans (Fin (price_primer_18l prices)) \<rparr>,
           \<lparr> bi_category = Pintura,
             bi_item = ''Massa corrida 25kg'',
             bi_quantity = puttySacks,
             bi_unit = ''saco'',
             bi_unitPrice = price_putty_25kg prices,
             bi_total = jmul puttySacks (Fin (price_putty_25kg prices)) \<rparr>,
           \<lparr> bi_category = Pintura,
             bi_item = ''Tinta l'' @ a_acute @ ''tex (teto) 18L'',
             bi_quantity = ceilingCans,
             bi_unit = ''lata'',
             bi_unitPrice = price_paint_18l prices,
             bi_total = jmul ceilingCans (Fin (price_paint_18l prices)) \<rparr>,
           \<lparr> bi_category = Piso,
             bi_item = ''Piso cer'' @ a_circumflex @ ''mico (c/ ''
               @ showInt (Math_round
                            (fmul (fsub (flooring_wasteFactor (cfg_flooring config)) 1) 100))
               @ ''% perda)'',
             bi_quantity =
               Fin (fdiv (of_int \<lceil>fmul (fm_tiles (mat_flooring materials)) 10\<rceil>) 10),
             bi_unit = ''m'' @ superscript_two,
             bi_unitPrice = price_tile_m2 prices,
             bi_total = Fin (fmul (fm_tiles (mat_flooring materials)) (price_tile_m2 prices)) \<rparr>,
           \<lparr> bi_category = Piso,
             bi_item = ''Rejunte'',
             bi_quantity = Fin (fm_grout (mat_flooring materials)),
             bi_unit = ''kg'',
             bi_unitPrice = price_grout_kg prices,
             bi_total = Fin (fmul (fm_grout (mat_flooring materials)) (price_grout_kg prices)) \<rparr>,
           \<lparr> bi_category = Piso,
             bi_item = ''Argamassa colante'',
             bi_quantity = Fin (fm_adhesive (mat_flooring materials)),
             bi_unit = ''kg'',
             bi_unitPrice = price_tile_adhesive_kg prices,
             bi_total =
               Fin (fmul (fm_adhesive (mat_flooring materials)) (price_tile_adhesive_kg prices)) \<rparr>,
           \<lparr> bi_category = Eletrica,
             bi_item = ''Tomadas'',
             bi_quantity = Fin (em_outlets (mat_electrical materials)),
             bi_unit = ''un'',
             bi_unitPrice = price_outlet prices,
             bi_total = Fin (fmul (em_outlets (mat_electrical materials)) (price_outlet prices)) \<rparr>,
           \<lparr> bi_category = Eletrica,
             bi_item = ''Interruptores'',
             bi_quantity = Fin (em_switches (mat_electrical materials)),
             bi_unit = ''un'',
             bi_unitPrice = price_switch prices,
             bi_total = Fin (fmul (em_switches (mat_electrical materials)) (price_switch prices)) \<rparr>,
           \<lparr> bi_category = Eletrica,
             bi_item = ''Pontos de luz'',
             bi_quantity = Fin (em_lightPoints (mat_electrical materials)),
             bi_unit = ''un'',
             bi_unitPrice = price_light_point prices,
             bi_total =
               Fin (fmul (em_lightPoints (mat_electrical materials)) (price_light_point prices)) \<rparr>,
           \<lparr> bi_category = Eletrica,
             bi_item = ''Fia'' @ c_cedilla @ a_tilde @ ''o 2.5mm'',
             bi_quantity = Fin (em_wireEstimate (mat_electrical materials)),
             bi_unit = ''m'',
             bi_unitPrice = price_wire_m prices,
             bi_total = Fin (fmul (em_wireEstimate (mat_electrical materials)) (price_wire_m prices)) \<rparr>
         ])"

text \<open>The three plumbing items, each pushed only when its quantity is positive.\<close>

definition plumbingItems :: "MaterialsEstimate \<Rightarrow> EstimateConfig \<Rightarrow> BudgetItem list" where
  "plumbingItems materials config =
     (let prices = cfg_prices config;
          totalWaterPoints = fadd (plm_coldWaterPoints (mat_plumbing materials))
                                  (plm_hotWaterPoints (mat_plumbing materials))
      in (if totalWaterPoints > 0
          then [ \<lparr> bi_category = Hidraulica,
                   bi_item = ''Pontos de '' @ a_acute @ ''gua'',
                   bi_quantity = Fin totalWaterPoints,
                   bi_unit = ''un'',
                   bi_unitPrice = price_water_point prices,
                   bi_total = Fin (fmul totalWaterPoints (price_water_point prices)) \<rparr> ]
          else [])
         @ (if plm_drainPoints (mat_plumbing materials) > 0
            then [ \<lparr> bi_category = Hidraulica,
                     bi_item = ''Pontos de esgoto'',
                     bi_quantity = Fin (plm_drainPoints (mat_plumbing materials)),
                     bi_unit = ''un'',
                     bi_unitPrice = price_drain_point prices,
                     bi_total =
                       Fin (fmul (plm_drainPoints (mat_plumbing materials)) (price_drain_point prices)) \<rparr> ]
            else [])
         @ (if plm_pipeEstimate (mat_plumbing materials) > 0
            then [ \<lparr> bi_category = Hidraulica,
                     bi_item = ''Tubula'' @ c_cedilla @ a_tilde @ ''o PVC'',
                     bi_quantity = Fin (plm_pipeEstimate (mat_plumbing materials)),
                     bi_unit = ''m'',
                     bi_unitPrice = price_pipe_m prices,
                     bi_total =
                       Fin (fmul (plm_pipeEstimate (mat_plumbing materials)) (price_pipe_m prices)) \<rparr> ]
            else []))"

text \<open>\<open>items.filter(i => i.category === c).reduce((sum, i) => sum + i.total, 0)\<close>\<close>

definition subtotalOf :: "BudgetItem list \<Rightarrow> string \<Rightarrow> jsnum" where
  "subtotalOf items c =
     foldl (\<lambda>sum i. jadd sum (bi_total i)) (Fin 0) (filter (\<lambda>i. bi_category i = c) items)"

definition calculateBudget :: "MaterialsEstimate \<Rightarrow> real \<Rightarrow> EstimateConfig \<Rightarrow> BudgetEstimate"
  where
  "calculateBudget materials totalArea config =
     (let items = fixedItems materials config @ plumbingItems materials config;
          subtotals = \<lparr> sub_masonry = subtotalOf items Alvenaria,
                        sub_paint = subtotalOf items Pintura,
                        sub_flooring = subtotalOf items Piso,
                        sub_electrical = subtotalOf items Eletrica,
                        sub_plumbing = subtotalOf items Hidraulica \<rparr>;
          total = foldl (\<lambda>sum v. jadd sum v) (Fin 0)
                    [sub_masonry subtotals, sub_paint subtotals, sub_flooring subtotals,
                     sub_electrical subtotals, sub_plumbing subtotals];
          perM2 = (if totalArea > 0 then jdiv total totalArea else Fin 0)
      in \<lparr> be_items = items, be_subtotals = subtotals, be_total = total, be_perM2 = perM2 \<rparr>)"

record FloorPlanStats =
  fps_measurements :: MeasurementsStats
  fps_materials :: MaterialsEstimate
  fps_budget :: BudgetEstimate

definition calculateFloorPlanStats :: "FloorPlan \<Rightarrow> EstimateConfig \<Rightarrow> FloorPlanStats" where
  "calculateFloorPlanStats floorPlan config =
     (let rooms = map (\<lambda>room. calculateRoomStats room (fp_defaults floorPlan) config)
                    (floor_rooms (fp_floor floorPlan));
          measurements = calculateMeasurements rooms;
          materials = \<lparr> mat_masonry = calculateMasonry measurements,
                        mat_paint = calculatePaint measurements config,
                        mat_flooring = calculateFlooring measurements config,
                        mat_electrical = calculateElectrical rooms config,
                        mat_plumbing = calculatePlumbing rooms config \<rparr>;
          budget = calculateBudget materials (ms_totalFloorArea measurements) config
      in \<lparr> fps_measurements = measurements, fps_materials = materials, fps_budget = budget \<rparr>)"

section \<open>The geometry calculator (utils/floor-plan.utils.ts)\<close>

record OpeningGeometry =
  og_type :: OpeningType
  og_x :: real
  og_y :: real
  og_width :: real
  og_height :: real
  og_fromFloor :: real
  og_to :: "string option"
  og_direction :: WallSide

record WallGeometry =
  wg_x1 :: real
  wg_y1 :: real
  wg_x2 :: real
  wg_y2 :: real
  wg_length :: real
  wg_thickness :: real
  wg_exists :: bool
  wg_openings :: "OpeningGeometry list"

record WallsGeometry =
  wgs_north :: WallGeometry
  wgs_east :: WallGeometry
  wgs_south :: WallGeometry
  wgs_west :: WallGeometry

record RoomGeometry =
  rg_id :: string
  rg_name :: string
  rg_x :: real
  rg_y :: real
  rg_width :: real
  rg_height :: real
  rg_walls :: WallsGeometry

record FloorGeometry =
  fg_width :: real
  fg_height :: real
  fg_rooms :: "RoomGeometry list"

text \<open>The callback of \<open>resolved.openings.map\<close> in \<open>calculateWallGeometry\<close>.\<close>

definition openingGeometry ::
  "real \<Rightarrow> real \<Rightarrow> real \<Rightarrow> real \<Rightarrow> WallSide \<Rightarrow> Defaults option \<Rightarrow> real \<Rightarrow> Opening
     \<Rightarrow> OpeningGeometry" where
  "openingGeometry x y roomWidth roomHeight side defaults scale opening =
     (let resolvedOpening = resolveOpening opening defaults;
          oxy = (case side of
                   North \<Rightarrow> ((x + ro_offset resolvedOpening) * scale, y * scale)
                 | South \<Rightarrow> ((x + ro_offset resolvedOpening) * scale, (y + roomHeight) * scale)
                 | East \<Rightarrow> ((x + roomWidth) * scale, (y + ro_offset resolvedOpening) * scale)
                 | West \<Rightarrow> (x * scale, (y + ro_offset resolvedOpening) * scale))
      in \<lparr> og_type = ro_type resolvedOpening,
           og_x = fst oxy,
           og_y = snd oxy,
           og_width = ro_width resolvedOpening * scale,
           og_height = ro_height resolvedOpening * scale,
           og_fromFloor = ro_fromFloor resolvedOpening * scale,
           og_to = ro_to resolvedOpening,
           og_direction = side \<rparr>)"

definition calculateWallGeometry ::
  "Room \<Rightarrow> WallSide \<Rightarrow> Defaults option \<Rightarrow> real \<Rightarrow> WallGeometry" where
  "calculateWallGeometry room side defaults scale =
     (let wall = wallOf room side;
          resolved = resolveWall wall defaults;
          x = pos_x (room_position room);
          y = pos_y (room_position room);
          roomWidth = max (nullish (wall_length (north (room_walls room))) 0)
                          (nullish (wall_length (south (room_walls room))) 0);
          roomHeight = max (nullish (wall_length (east (room_walls room))) 0)
                           (nullish (wall_length (west (room_walls room))) 0);
          seg = (case side of
                   North \<Rightarrow> (x * scale, y * scale, (x + roomWidth) * scale, y * scale)
                 | South \<Rightarrow> (x * scale, (y + roomHeight) * scale,
                             (x + roomWidth) * scale, (y + roomHeight) * scale)
                 | East \<Rightarrow> ((x + roomWidth) * scale, y * scale,
                            (x + roomWidth) * scale, (y + roomHeight) * scale)
                 | West \<Rightarrow> (x * scale, y * scale, x * scale, (y + roomHeight) * scale));
          openings = map (openingGeometry x y roomWidth roomHeight side defaults scale)
                       (rw_openings resolved)
      in \<lparr> wg_x1 = fst seg,
           wg_y1 = fst (snd seg),
           wg_x2 = fst (snd (snd seg)),
           wg_y2 = snd (snd (snd seg)),
           wg_length = rw_length resolved * scale,
           wg_thickness = rw_thickness resolved * scale,
           wg_exists = rw_exists resolved,
           wg_openings = openings \<rparr>)"

definition calculateRoomGeometry :: "Room \<Rightarrow> Defaults option \<Rightarrow> real \<Rightarrow> RoomGeometry" where
  "calculateRoomGeometry room defaults scale =
     (let roomWidth = max (nullish (wall_length (north (room_walls room))) 0)
                          (nullish (wall_length (south (room_walls room))) 0);
          roomHeight = max (nullish (wall_length (east (room_walls room))) 0)
                           (nullish (wall_length (west (room_walls room))) 0)
      in \<lparr> rg_id = room_id room,
           rg_name = nullish (room_name room) (room_id room),
           rg_x = pos_x (room_position room) * scale,
           rg_y = pos_y (room_position room) * scale,
           rg_width = roomWidth * scale,
           rg_height = roomHeight * scale,
           rg_walls = \<lparr> wgs_north = calculateWallGeometry room North defaults scale,
                        wgs_east = calculateWallGeometry room East defaults scale,
                        wgs_south = calculateWallGeometry room South defaults scale,
                        wgs_west = calculateWallGeometry room West defaults scale \<rparr> \<rparr>)"

text \<open>
  The \<open>forEach\<close> that grows \<open>maxX\<close> and \<open>maxY\<close> is a fold over the room geometries, its
  state the pair \<open>(maxX, maxY)\<close>.
\<close>

definition calculateFloorGeometry :: "FloorPlan \<Rightarrow> FloorGeometry" where
  "calculateFloorGeometry floorPlan =
     (let scale = nullish (fp_scale floorPlan) (2 / 10);
          rooms = map (\<lambda>room. calculateRoomGeometry room (fp_defaults floorPlan) scale)
                    (floor_rooms (fp_floor floorPlan));
          maxXY = foldl (\<lambda>(maxX, maxY) room.
                     (max maxX (rg_x room + rg_width room), max maxY (rg_y room + rg_height room)))
                    (0, 0) rooms
      in \<lparr> fg_width = fst maxXY, fg_height = snd maxXY, fg_rooms = rooms \<rparr>)"

text \<open>\<open>walls[side]\<close> of a room geometry.\<close>

fun wallGeometryOf :: "WallsGeometry \<Rightarrow> WallSide \<Rightarrow> WallGeometry" where
  "wallGeometryOf ws North = wgs_north ws"
| "wallGeometryOf ws East = wgs_east ws"
| "wallGeometryOf ws South = wgs_south ws"
| "wallGeometryOf ws West = wgs_west ws"

section \<open>The validation engine (utils/validation.ts)\<close>

datatype ValidationSeverity = Error | Warning

datatype IssueType = Overlap | DuplicateWall | InvalidDimension

record Rect =
  rect_x :: real
  rect_y :: real
  rect_width :: real
  rect_height :: real

record WallPosition =
  wp_x1 :: real
  wp_y1 :: real
  wp_x2 :: real
  wp_y2 :: real

record IssueDetails =
  det_wallSide :: "WallSide option"
  det_overlapArea :: "Rect option"
  det_wallPosition :: "WallPosition option"

record ValidationIssue =
  issue_id :: string
  issue_severity :: ValidationSeverity
  issue_type :: IssueType
  issue_message :: string
  issue_roomIds :: "string list"
  issue_details :: "IssueDetails option"

record RoomBounds =
  b_id :: string
  b_name :: string
  b_x :: real
  b_y :: real
  b_width :: real
  b_height :: real

record WallSegment =
  seg_roomId :: string
  seg_roomName :: string
  seg_side :: WallSide
  seg_x1 :: real
  seg_y1 :: real
  seg_x2 :: real
  seg_y2 :: real
  seg_exists :: bool

definition getRoomBounds :: "Room \<Rightarrow> RoomBounds" where
  "getRoomBounds room =
     (let width = max (nullish (wall_length (north (room_walls room))) 0)
                      (nullish (wall_length (south (room_walls room))) 0);
          height = max (nullish (wall_length (east (room_walls room))) 0)
                       (nullish (wall_length (west (room_walls room))) 0)
      in \<lparr> b_id = room_id room,
           b_name = nullish (room_name room) (room_id room),
           b_x = pos_x (room_position room),
           b_y = pos_y (room_position room),
           b_width = width,
           b_height = height \<rparr>)"

definition rectanglesOverlap :: "RoomBounds \<Rightarrow> RoomBounds \<Rightarrow> Rect option" where
  "rectanglesOverlap r1 r2 =
     (let x1 = max (b_x r1) (b_x r2);
          y1 = max (b_y r1) (b_y r2);
          x2 = min (fadd (b_x r1) (b_width r1)) (fadd (b_x r2) (b_width r2));
          y2 = min (fadd (b_y r1) (b_height r1)) (fadd (b_y r2) (b_height r2));
          threshold = 1
      in if fsub x2 x1 > threshold \<and> fsub y2 y1 > threshold
         then Some \<lparr> rect_x = x1, rect_y = y1, rect_width = fsub x2 x1,
                      rect_height = fsub y2 y1 \<rparr>
         else None)"

definition getWallSegment :: "Room \<Rightarrow> WallSide \<Rightarrow> WallSegment" where
  "getWallSegment room side =
     (let bounds = getRoomBounds room;
          wall = wallOf room side;
          exists = (wall_exists wall \<noteq> Some False);
          seg = (case side of
                   North \<Rightarrow> (b_x bounds, b_y bounds,
                             fadd (b_x bounds) (b_width bounds), b_y bounds)
                 | South \<Rightarrow> (b_x bounds, fadd (b_y bounds) (b_height bounds),
                             fadd (b_x bounds) (b_width bounds),
                             fadd (b_y bounds) (b_height bounds))
                 | East \<Rightarrow> (fadd (b_x bounds) (b_width bounds), b_y bounds,
                            fadd (b_x bounds) (b_width bounds),
                            fadd (b_y bounds) (b_height bounds))
                 | West \<Rightarrow> (b_x bounds, b_y bounds,
                            b_x bounds, fadd (b_y bounds) (b_height bounds)))
      in \<lparr> seg_roomId = room_id room,
           seg_roomName = nullish (room_name room) (room_id room),
           seg_side = side,
           seg_x1 = fst seg,
           seg_y1 = fst (snd seg),
           seg_x2 = fst (snd (snd seg)),
           seg_y2 = snd (snd (snd seg)),
           seg_exists = exists \<rparr>)"

definition wallsOverlap :: "WallSegment \<Rightarrow> WallSegment \<Rightarrow> bool" where
  "wallsOverlap w1 w2 =
     (let w1Horizontal = (seg_y1 w1 = seg_y2 w1);
          w2Horizontal = (seg_y1 w2 = seg_y2 w2)
      in if w1Horizontal \<noteq> w2Horizontal then False
         else let tolerance = 1
         in if w1Horizontal
            then if \<bar>fsub (seg_y1 w1) (seg_y1 w2)\<bar> > tolerance then False
                 else let minX1 = min (seg_x1 w1) (seg_x2 w1);
                          maxX1 = max (seg_x1 w1) (seg_x2 w1);
                          minX2 = min (seg_x1 w2) (seg_x2 w2);
                          maxX2 = max (seg_x1 w2) (seg_x2 w2);
                          overlapStart = max minX1 minX2;
                          overlapEnd = min maxX1 maxX2
                      in fsub overlapEnd overlapStart > tolerance
            else if \<bar>fsub (seg_x1 w1) (seg_x1 w2)\<bar> > tolerance then False
                 else let minY1 = min (seg_y1 w1) (seg_y2 w1);
                          maxY1 = max (seg_y1 w1) (seg_y2 w1);
                          minY2 = min (seg_y1 w2) (seg_y2 w2);
                          maxY2 = max (seg_y1 w2) (seg_y2 w2);
                          overlapStart = max minY1 minY2;
                          overlapEnd = min maxY1 maxY2
                      in fsub overlapEnd overlapStart > tolerance)"

definition quote :: string where "quote = [CHR 0x22]"

text \<open>The issue pushed by \<open>detectOverlaps\<close> for the bounds \<open>bi\<close> and \<open>bj\<close>.\<close>

definition overlapIssue :: "RoomBounds \<Rightarrow> RoomBounds \<Rightarrow> Rect \<Rightarrow> ValidationIssue" where
  "overlapIssue bi bj overlap =
     \<lparr> issue_id = ''overlap-'' @ b_id bi @ ''-'' @ b_id bj,
       issue_severity = Error,
       issue_type = Overlap,
       issue_message = quote @ b_name bi @ quote @ '' sobrep'' @ o_tilde @ ''e ''
                         @ quote @ b_name bj @ quote,
       issue_roomIds = [b_id bi, b_id bj],
       issue_details = Some \<lparr> det_wallSide = None, det_overlapArea = Some overlap,
                               det_wallPosition = None \<rparr> \<rparr>"

text \<open>
  The two nested \<open>for\<close> loops, \<open>i\<close> from \<open>0\<close> and \<open>j\<close> from \<open>i + 1\<close>, each below the length: the
  issues are pushed in the order of the iterations.
\<close>

definition detectOverlaps :: "Room list \<Rightarrow> ValidationIssue list" where
  "detectOverlaps rooms =
     (let bounds = map getRoomBounds rooms
      in concat (map (\<lambda>i. concat (map (\<lambda>j.
           (case rectanglesOverlap (bounds ! i) (bounds ! j) of
              Some overlap \<Rightarrow> [overlapIssue (bounds ! i) (bounds ! j) overlap]
            | None \<Rightarrow> []))
           [i + 1 ..< length bounds])) [0 ..< length bounds]))"

text \<open>The issue pushed by \<open>detectDuplicateWalls\<close> for the segments \<open>w1\<close> and \<open>w2\<close>.\<close>

definition duplicateWallIssue :: "WallSegment \<Rightarrow> WallSegment \<Rightarrow> ValidationIssue" where
  "duplicateWallIssue w1 w2 =
     \<lparr> issue_id = ''duplicate-wall-'' @ seg_roomId w1 @ ''-'' @ sideName (seg_side w1) @ ''-''
                    @ seg_roomId w2 @ ''-'' @ sideName (seg_side w2),
       issue_severity = Warning,
       issue_type = DuplicateWall,
       issue_message = ''Parede dupla: '' @ quote @ seg_roomName w1 @ quote @ '' (''
                         @ sideName (seg_side w1) @ '') e '' @ quote @ seg_roomName w2 @ quote
                         @ '' ('' @ sideName (seg_side w2) @ '')'',
       issue_roomIds = [seg_roomId w1, seg_roomId w2],
       issue_details = Some \<lparr> det_wallSide = Some (seg_side w1), det_overlapArea = None,
                               det_wallPosition = Some \<lparr> wp_x1 = seg_x1 w1, wp_y1 = seg_y1 w1,
                                                         wp_x2 = seg_x2 w1, wp_y2 = seg_y2 w1 \<rparr> \<rparr> \<rparr>"

text \<open>The segments collected by the first loop of \<open>detectDuplicateWalls\<close>.\<close>

definition collectWalls :: "Room list \<Rightarrow> WallSegment list" where
  "collectWalls rooms = concat (map (\<lambda>room. map (\<lambda>side. getWallSegment room side) sides) rooms)"

text \<open>The body of the inner loop: the two \<open>continue\<close>s, then the test and the push.\<close>

definition checkWallPair :: "WallSegment \<Rightarrow> WallSegment \<Rightarrow> ValidationIssue list" where
  "checkWallPair w1 w2 =
     (if seg_roomId w1 = seg_roomId w2 then []
      else if \<not> seg_exists w1 \<or> \<not> seg_exists w2 then []
      else if wallsOverlap w1 w2 then [duplicateWallIssue w1 w2]
      else [])"

definition detectDuplicateWalls :: "Room list \<Rightarrow> ValidationIssue list" where
  "detectDuplicateWalls rooms =
     (let walls = collectWalls rooms
      in concat (map (\<lambda>i. concat (map (\<lambda>j. checkWallPair (walls ! i) (walls ! j))
           [i + 1 ..< length walls])) [0 ..< length walls]))"

text \<open>The issue pushed by \<open>detectInvalidDimensions\<close> for a room and its bounds.\<close>

definition invalidDimensionIssue :: "Room \<Rightarrow> RoomBounds \<Rightarrow> ValidationIssue" where
  "invalidDimensionIssue room bounds =
     \<lparr> issue_id = ''invalid-dimension-'' @ room_id room,
       issue_severity = Error,
       issue_type = InvalidDimension,
       issue_message = quote @ b_name bounds @ quote @ '' tem dimens'' @ o_tilde
                         @ ''es inv'' @ a_acute @ ''lidas'',
       issue_roomIds = [room_id room],
       issue_details = None \<rparr>"

definition detectInvalidDimensions :: "Room list \<Rightarrow> ValidationIssue list" where
  "detectInvalidDimensions rooms =
     concat (map (\<lambda>room.
       let bounds = getRoomBounds room
       in if b_width bounds \<le> 0 \<or> b_height bounds \<le> 0
          then [invalidDimensionIssue room bounds]
          else []) rooms)"

definition validateFloorPlan :: "FloorPlan \<Rightarrow> ValidationIssue list" where
  "validateFloorPlan floorPlan =
     (let rooms = floor_rooms (fp_floor floorPlan)
      in if length rooms = 0 then []
         else detectInvalidDimensions rooms @ detectOverlaps rooms @ detectDuplicateWalls rooms)"

section \<open>The specification's formulas\<close>

text \<open>
  The definitions of this section are not translated from the code. Those named \<open>spec_\<close>
  follow the words of the specification, and the theorems compare them with the functions
  above; those named \<open>js_\<close> are formulas of the specification evaluated in the arithmetic of
  doubles; the others are the notions the theorems need to be stated.
\<close>

text \<open>Three-tier resolution of a wall: explicit value, else plan default, else constant.\<close>

definition spec_length :: "Wall \<Rightarrow> real" where
  "spec_length wall = (case wall_length wall of Some l \<Rightarrow> l | None \<Rightarrow> 0)"

definition spec_defaults_wall_height :: "Defaults option \<Rightarrow> real option" where
  "spec_defaults_wall_height defaults =
     (case defaults of None \<Rightarrow> None
      | Some d \<Rightarrow> (case defaults_wall d of None \<Rightarrow> None | Some wd \<Rightarrow> wd_height wd))"

definition spec_defaults_wall_thickness :: "Defaults option \<Rightarrow> real option" where
  "spec_defaults_wall_thickness defaults =
     (case defaults of None \<Rightarrow> None
      | Some d \<Rightarrow> (case defaults_wall d of None \<Rightarrow> None | Some wd \<Rightarrow> wd_thickness wd))"

definition spec_height :: "Wall \<Rightarrow> Defaults option \<Rightarrow> real" where
  "spec_height wall defaults =
     (case wall_height wall of Some h \<Rightarrow> h
      | None \<Rightarrow> (case spec_defaults_wall_height defaults of Some h \<Rightarrow> h | None \<Rightarrow> 280))"

definition spec_thickness :: "Wall \<Rightarrow> Defaults option \<Rightarrow> real" where
  "spec_thickness wall defaults =
     (case wall_thickness wall of Some t \<Rightarrow> t
      | None \<Rightarrow> (case spec_defaults_wall_thickness defaults of Some t \<Rightarrow> t | None \<Rightarrow> 15))"

definition spec_exists :: "Wall \<Rightarrow> bool" where
  "spec_exists wall = (case wall_exists wall of Some b \<Rightarrow> b | None \<Rightarrow> True)"

text \<open>
  The area of a wall's openings in square centimetres: the sum over the openings of resolved width
  times resolved height, the openings resolved by the defaults resolver.
\<close>

definition spec_openingsAreaCm2 :: "Wall \<Rightarrow> Defaults option \<Rightarrow> real" where
  "spec_openingsAreaCm2 wall defaults =
     sum_list (map (\<lambda>opening. ro_width (resolveOpening opening defaults)
                               * ro_height (resolveOpening opening defaults))
                (rw_openings (resolveWall wall defaults)))"

text \<open>Gross area in square metres: resolved length times resolved height, divided by 10 000.\<close>

definition spec_grossArea :: "Wall \<Rightarrow> Defaults option \<Rightarrow> real" where
  "spec_grossArea wall defaults =
     rw_length (resolveWall wall defaults) * rw_height (resolveWall wall defaults) / 10000"

text \<open>Net area in square metres as the specification words it: gross minus openings, nothing else.\<close>

definition spec_netArea :: "Wall \<Rightarrow> Defaults option \<Rightarrow> real" where
  "spec_netArea wall defaults =
     spec_grossArea wall defaults - spec_openingsAreaCm2 wall defaults / 10000"



text \<open>The same net area with no rounding.\<close>

definition exactNetAreaCm2 :: "Wall \<Rightarrow> Defaults option \<Rightarrow> real" where
  "exactNetAreaCm2 wall defaults =
     max 0 (rw_length (resolveWall wall defaults) * rw_height (resolveWall wall defaults)
            - spec_openingsAreaCm2 wall defaults)"

text \<open>The area one brick covers with its mortar joint, in the arithmetic of doubles.\<close>

definition brickUnitArea :: "EstimateConfig \<Rightarrow> real" where
  "brickUnitArea config =
     fmul (fadd (brick_width (cfg_brick config)) (brick_mortarThickness (cfg_brick config)))
          (fadd (brick_height (cfg_brick config)) (brick_mortarThickness (cfg_brick config)))"


text \<open>
  Room type inference as a table: each row is a type, the keywords looked for in the
  identifier and the keywords looked for in the name. The rows are tried in order, the
  first row with a keyword found wins, and no row gives the default type.
\<close>

fun firstMatch :: "(string \<times> string list \<times> string list) list \<Rightarrow> string \<Rightarrow> string \<Rightarrow> string"
  where
  "firstMatch [] rid name = ''default''"
| "firstMatch ((ty, idKeys, nameKeys) # rest) rid name =
     (if list_ex (str_includes rid) idKeys \<or> list_ex (str_includes name) nameKeys then ty
      else firstMatch rest rid name)"

text \<open>The table as the specification words it: every keyword is tried on both.\<close>

definition spec_keywords :: "(string \<times> string list \<times> string list) list" where
  "spec_keywords =
     [(''sala'', [''sala''], [''sala'']),
      (''cozinha'', [''cozinha''], [''cozinha'']),
      (''banheiro'', [''banheiro'', ''wc''], [''banheiro'', ''wc'']),
      (''quarto'', [''quarto'', ''dormit''], [''quarto'', ''dormit'']),
      (''area-servico'', [''servico'', ''lavanderia''], [''servico'', ''lavanderia''])]"

definition spec_roomType :: "Room \<Rightarrow> string" where
  "spec_roomType room =
     firstMatch spec_keywords (toLowerCase (room_id room))
       (toLowerCase (case room_name room of Some n \<Rightarrow> n | None \<Rightarrow> []))"

text \<open>
  The table the code implements: \<open>wc\<close>, \<open>dormit\<close> and \<open>lavanderia\<close> are tried on the name
  only.
\<close>

definition code_keywords :: "(string \<times> string list \<times> string list) list" where
  "code_keywords =
     [(''sala'', [''sala''], [''sala'']),
      (''cozinha'', [''cozinha''], [''cozinha'']),
      (''banheiro'', [''banheiro''], [''banheiro'', ''wc'']),
      (''quarto'', [''quarto''], [''quarto'', ''dormit'']),
      (''area-servico'', [''servico''], [''servico'', ''lavanderia''])]"

text \<open>
  The effective width of a room is the larger of its north and south lengths, the
  effective height the larger of its east and west lengths (an absent length is 0).
\<close>

definition spec_roomWidth :: "Room \<Rightarrow> real" where
  "spec_roomWidth room =
     max (spec_length (north (room_walls room))) (spec_length (south (room_walls room)))"

definition spec_roomHeight :: "Room \<Rightarrow> real" where
  "spec_roomHeight room =
     max (spec_length (east (room_walls room))) (spec_length (west (room_walls room)))"

text \<open>
  The segment of a side in plan units, as \<open>(x1, y1, x2, y2)\<close>: north is the top edge, south
  the bottom edge, east the right edge and west the left edge of the room's box.
\<close>

fun spec_segment :: "Room \<Rightarrow> WallSide \<Rightarrow> real \<times> real \<times> real \<times> real" where
  "spec_segment room North =
     (pos_x (room_position room), pos_y (room_position room),
      pos_x (room_position room) + spec_roomWidth room, pos_y (room_position room))"
| "spec_segment room South =
     (pos_x (room_position room), pos_y (room_position room) + spec_roomHeight room,
      pos_x (room_position room) + spec_roomWidth room,
      pos_y (room_position room) + spec_roomHeight room)"
| "spec_segment room East =
     (pos_x (room_position room) + spec_roomWidth room, pos_y (room_position room),
      pos_x (room_position room) + spec_roomWidth room,
      pos_y (room_position room) + spec_roomHeight room)"
| "spec_segment room West =
     (pos_x (room_position room), pos_y (room_position room),
      pos_x (room_position room), pos_y (room_position room) + spec_roomHeight room)"

text \<open>
  The position of an opening in plan units: the start of its side's segment, moved by the
  offset along the side's axis (the x axis for north and south, the y axis for east and
  west).
\<close>

definition spec_openingPosition :: "Room \<Rightarrow> WallSide \<Rightarrow> real \<Rightarrow> real \<times> real" where
  "spec_openingPosition room side offset =
     (let (x1, y1, x2, y2) = spec_segment room side
      in if side = North \<or> side = South then (x1 + offset, y1) else (x1, y1 + offset))"

definition spec_openings :: "Wall \<Rightarrow> Opening list" where
  "spec_openings wall = (case wall_openings wall of Some os \<Rightarrow> os | None \<Rightarrow> [])"

definition spec_scale :: "FloorPlan \<Rightarrow> real" where
  "spec_scale floorPlan = (case fp_scale floorPlan of Some s \<Rightarrow> s | None \<Rightarrow> 2 / 10)"

text \<open>
  The intersection of the bounding boxes of two rooms, each box given by the room position
  (its top-left corner) and the effective width and height: the rectangle from the larger
  of the two left (top) coordinates to the smaller of the two right (bottom) ones.
\<close>

definition spec_intersection :: "Room \<Rightarrow> Room \<Rightarrow> Rect" where
  "spec_intersection r1 r2 =
     (let left = max (pos_x (room_position r1)) (pos_x (room_position r2));
          top = max (pos_y (room_position r1)) (pos_y (room_position r2));
          right = min (pos_x (room_position r1) + spec_roomWidth r1)
                      (pos_x (room_position r2) + spec_roomWidth r2);
          bottom = min (pos_y (room_position r1) + spec_roomHeight r1)
                       (pos_y (room_position r2) + spec_roomHeight r2)
      in \<lparr> rect_x = left, rect_y = top, rect_width = right - left,
           rect_height = bottom - top \<rparr>)"

text \<open>Two boxes overlap when the width and the height of their intersection both exceed 1.\<close>

definition spec_boxesOverlap :: "Room \<Rightarrow> Room \<Rightarrow> bool" where
  "spec_boxesOverlap r1 r2 =
     (rect_width (spec_intersection r1 r2) > 1 \<and> rect_height (spec_intersection r1 r2) > 1)"

text \<open>
  The same intersection and the same test in the arithmetic of doubles: the right and
  bottom edges of a box are rounded sums, the width and the height of the intersection
  rounded differences.
\<close>

definition js_intersection :: "Room \<Rightarrow> Room \<Rightarrow> Rect" where
  "js_intersection r1 r2 =
     (let left = max (pos_x (room_position r1)) (pos_x (room_position r2));
          top = max (pos_y (room_position r1)) (pos_y (room_position r2));
          right = min (fadd (pos_x (room_position r1)) (spec_roomWidth r1))
                      (fadd (pos_x (room_position r2)) (spec_roomWidth r2));
          bottom = min (fadd (pos_y (room_position r1)) (spec_roomHeight r1))
                       (fadd (pos_y (room_position r2)) (spec_roomHeight r2))
      in \<lparr> rect_x = left, rect_y = top, rect_width = fsub right left,
           rect_height = fsub bottom top \<rparr>)"

definition js_boxesOverlap :: "Room \<Rightarrow> Room \<Rightarrow> bool" where
  "js_boxesOverlap r1 r2 =
     (rect_width (js_intersection r1 r2) > 1 \<and> rect_height (js_intersection r1 r2) > 1)"

text \<open>The overlap errors of a list of issues that name exactly the two given rooms.\<close>

definition overlapErrorsOf :: "ValidationIssue list \<Rightarrow> Room \<Rightarrow> Room \<Rightarrow> ValidationIssue list" where
  "overlapErrorsOf issues r1 r2 =
     filter (\<lambda>issue. issue_type issue = Overlap
                      \<and> set (issue_roomIds issue) = {room_id r1, room_id r2}) issues"

text \<open>
  A wall segment by the side it belongs to: north and south walls are horizontal, east
  and west walls vertical. The fixed coordinate of a horizontal wall is its y, of a
  vertical wall its x; its range is the interval it covers on the other axis.
\<close>

definition spec_horizontal :: "WallSide \<Rightarrow> bool" where
  "spec_horizontal side = (side = North \<or> side = South)"

definition spec_fixedCoordinate :: "Room \<Rightarrow> WallSide \<Rightarrow> real" where
  "spec_fixedCoordinate room side =
     (case side of
        North \<Rightarrow> pos_y (room_position room)
      | South \<Rightarrow> pos_y (room_position room) + spec_roomHeight room
      | East \<Rightarrow> pos_x (room_position room) + spec_roomWidth room
      | West \<Rightarrow> pos_x (room_position room))"

definition spec_range :: "Room \<Rightarrow> WallSide \<Rightarrow> real \<times> real" where
  "spec_range room side =
     (if spec_horizontal side
      then (min (pos_x (room_position room)) (pos_x (room_position room) + spec_roomWidth room),
            max (pos_x (room_position room)) (pos_x (room_position room) + spec_roomWidth room))
      else (min (pos_y (room_position room)) (pos_y (room_position room) + spec_roomHeight room),
            max (pos_y (room_position room)) (pos_y (room_position room) + spec_roomHeight room)))"

text \<open>The length of the common part of two intervals (not positive when they are apart).\<close>

definition spec_rangeOverlap :: "real \<times> real \<Rightarrow> real \<times> real \<Rightarrow> real" where
  "spec_rangeOverlap r1 r2 = min (snd r1) (snd r2) - max (fst r1) (fst r2)"

text \<open>
  Two walls are a duplicate when both exist, they have the same orientation, their fixed
  coordinates differ by at most 1 and their ranges overlap by more than 1.
\<close>

definition spec_duplicateWall :: "Room \<Rightarrow> WallSide \<Rightarrow> Room \<Rightarrow> WallSide \<Rightarrow> bool" where
  "spec_duplicateWall r1 s1 r2 s2 =
     (spec_exists (wallOf r1 s1) \<and> spec_exists (wallOf r2 s2)
      \<and> spec_horizontal s1 = spec_horizontal s2
      \<and> \<bar>spec_fixedCoordinate r1 s1 - spec_fixedCoordinate r2 s2\<bar> \<le> 1
      \<and> spec_rangeOverlap (spec_range r1 s1) (spec_range r2 s2) > 1)"

text \<open>
  The same notions in the arithmetic of doubles: the far edge of a room is a rounded sum,
  and the two differences that are compared with 1 are rounded.
\<close>

definition js_fixedCoordinate :: "Room \<Rightarrow> WallSide \<Rightarrow> real" where
  "js_fixedCoordinate room side =
     (case side of
        North \<Rightarrow> pos_y (room_position room)
      | South \<Rightarrow> fadd (pos_y (room_position room)) (spec_roomHeight room)
      | East \<Rightarrow> fadd (pos_x (room_position room)) (spec_roomWidth room)
      | West \<Rightarrow> pos_x (room_position room))"

definition js_range :: "Room \<Rightarrow> WallSide \<Rightarrow> real \<times> real" where
  "js_range room side =
     (if spec_horizontal side
      then (min (pos_x (room_position room))
                (fadd (pos_x (room_position room)) (spec_roomWidth room)),
            max (pos_x (room_position room))
                (fadd (pos_x (room_position room)) (spec_roomWidth room)))
      else (min (pos_y (room_position room))
                (fadd (pos_y (room_position room)) (spec_roomHeight room)),
            max (pos_y (room_position room))
                (fadd (pos_y (room_position room)) (spec_roomHeight room))))"

definition js_rangeOverlap :: "real \<times> real \<Rightarrow> real \<times> real \<Rightarrow> real" where
  "js_rangeOverlap r1 r2 = fsub (min (snd r1) (snd r2)) (max (fst r1) (fst r2))"

definition js_duplicateWall :: "Room \<Rightarrow> WallSide \<Rightarrow> Room \<Rightarrow> WallSide \<Rightarrow> bool" where
  "js_duplicateWall r1 s1 r2 s2 =
     (spec_exists (wallOf r1 s1) \<and> spec_exists (wallOf r2 s2)
      \<and> spec_horizontal s1 = spec_horizontal s2
      \<and> \<bar>fsub (js_fixedCoordinate r1 s1) (js_fixedCoordinate r2 s2)\<bar> \<le> 1
      \<and> js_rangeOverlap (js_range r1 s1) (js_range r2 s2) > 1)"

text \<open>The warnings of a list of issues that were pushed for the two given segments.\<close>

definition duplicateWarningsOf ::
  "ValidationIssue list \<Rightarrow> WallSegment \<Rightarrow> WallSegment \<Rightarrow> ValidationIssue list" where
  "duplicateWarningsOf issues w1 w2 =
     filter (\<lambda>issue. issue = duplicateWallIssue w1 w2 \<or> issue = duplicateWallIssue w2 w1) issues"

text \<open>The position of a side in the list \<open>sides\<close>.\<close>

fun sideIndex :: "WallSide \<Rightarrow> nat" where
  "sideIndex North = 0"
| "sideIndex East = 1"
| "sideIndex South = 2"
| "sideIndex West = 3"

section \<open>Concrete inputs\<close>




text \<open>A wall of 100 by 100 whose single door, 200 by 200, is larger than the wall.\<close>

definition oversized_door_wall :: Wall where
  "oversized_door_wall =
     \<lparr> wall_length = Some 100, wall_height = Some 100, wall_thickness = None,
       wall_exists = None,
       wall_openings = Some [\<lparr> opening_type = Door, opening_offset = 0, opening_width = Some 200,
                                opening_height = Some 200, opening_fromFloor = None,
                                opening_to = None \<rparr>] \<rparr>"

text \<open>A plan with no room.\<close>

definition empty_plan :: FloorPlan where
  "empty_plan = \<lparr> fp_version = ''1.0'', fp_unit = Cm, fp_scale = None, fp_defaults = None,
                  fp_floor = \<lparr> floor_id = ''ground'', floor_name = None, floor_rooms = [] \<rparr> \<rparr>"

text \<open>A room whose identifier is \<open>wc\<close> and that has no name.\<close>

definition wc_room :: Room where
  "wc_room = \<lparr> room_id = ''wc'', room_name = None,
               room_position = \<lparr> pos_x = 0, pos_y = 0 \<rparr>,
               room_walls = \<lparr> north = \<lparr> wall_length = Some 200, wall_height = None,
                                        wall_thickness = None, wall_exists = None,
                                        wall_openings = None \<rparr>,
                              east = \<lparr> wall_length = Some 150, wall_height = None,
                                       wall_thickness = None, wall_exists = None,
                                       wall_openings = None \<rparr>,
                              south = \<lparr> wall_length = Some 200, wall_height = None,
                                        wall_thickness = None, wall_exists = None,
                                        wall_openings = None \<rparr>,
                              west = \<lparr> wall_length = Some 150, wall_height = None,
                                       wall_thickness = None, wall_exists = None,
                                       wall_openings = None \<rparr> \<rparr> \<rparr>"

text \<open>A wall of a given length with everything else left to the defaults.\<close>

definition plainWall :: "real \<Rightarrow> Wall" where
  "plainWall l = \<lparr> wall_length = Some l, wall_height = None, wall_thickness = None,
                   wall_exists = None, wall_openings = None \<rparr>"

text \<open>
  A room of 400 by 300 at the origin whose north wall has a door at offset 50 and a window
  at offset 200, and the plan of scale 1 that holds it.
\<close>

definition living_room :: Room where
  "living_room =
     \<lparr> room_id = ''living'', room_name = Some ''Living'',
       room_position = \<lparr> pos_x = 0, pos_y = 0 \<rparr>,
       room_walls =
         \<lparr> north = \<lparr> wall_length = Some 400, wall_height = None, wall_thickness = None,
                      wall_exists = None,
                      wall_openings = Some
                        [\<lparr> opening_type = Door, opening_offset = 50, opening_width = Some 80,
                           opening_height = None, opening_fromFloor = None, opening_to = None \<rparr>,
                         \<lparr> opening_type = Window, opening_offset = 200,
                           opening_width = Some 120, opening_height = None,
                           opening_fromFloor = None, opening_to = None \<rparr>] \<rparr>,
           east = plainWall 300, south = plainWall 400, west = plainWall 300 \<rparr> \<rparr>"

definition living_plan :: FloorPlan where
  "living_plan = \<lparr> fp_version = ''1.0'', fp_unit = Cm, fp_scale = Some 1, fp_defaults = None,
                   fp_floor = \<lparr> floor_id = ''ground'', floor_name = None,
                                floor_rooms = [living_room] \<rparr> \<rparr>"

text \<open>A room given by its four wall lengths, at the origin, everything else left to the defaults.\<close>

definition plainRoom :: "string \<Rightarrow> real \<Rightarrow> real \<Rightarrow> real \<Rightarrow> real \<Rightarrow> real \<Rightarrow> real \<Rightarrow> Room" where
  "plainRoom rid x y n e s w =
     \<lparr> room_id = rid, room_name = None, room_position = \<lparr> pos_x = x, pos_y = y \<rparr>,
       room_walls = \<lparr> north = plainWall n, east = plainWall e, south = plainWall s,
                      west = plainWall w \<rparr> \<rparr>"

definition planOf :: "Room list \<Rightarrow> FloorPlan" where
  "planOf rooms = \<lparr> fp_version = ''1.0'', fp_unit = Cm, fp_scale = None, fp_defaults = None,
                    fp_floor = \<lparr> floor_id = ''ground'', floor_name = None,
                                 floor_rooms = rooms \<rparr> \<rparr>"

text \<open>A room whose north wall has length 0 while its south wall has length 400.\<close>

definition lopsided_room :: Room where
  "lopsided_room = plainRoom ''hall'' 0 0 0 300 400 300"

text \<open>A room whose north and south walls both have length 0.\<close>

definition flat_room :: Room where
  "flat_room = plainRoom ''niche'' 0 0 0 300 0 300"

text \<open>Two rooms of 300 by 300, at (0, 0) and at (200, 0), and the plan that holds them.\<close>

definition west_room :: Room where
  "west_room = plainRoom ''a'' 0 0 300 300 300 300"

definition east_room :: Room where
  "east_room = plainRoom ''b'' 200 0 300 300 300 300"

definition overlapping_plan :: FloorPlan where
  "overlapping_plan = planOf [west_room, east_room]"

text \<open>
  Two rooms of 300 by 300 side by side, at (0, 0) and at (300, 0): the east wall of the
  first and the west wall of the second coincide.
\<close>

definition left_room :: Room where
  "left_room = plainRoom ''left'' 0 0 300 300 300 300"

definition right_room :: Room where
  "right_room = plainRoom ''right'' 300 0 300 300 300 300"

definition adjacent_plan :: FloorPlan where
  "adjacent_plan = planOf [left_room, right_room]"

text \<open>The same second room with its west wall marked virtual.\<close>

definition right_room_virtual :: Room where
  "right_room_virtual =
     right_room\<lparr> room_walls := (room_walls right_room)
                   \<lparr> west := (plainWall 300)\<lparr> wall_exists := Some False \<rparr> \<rparr> \<rparr>"

definition adjacent_virtual_plan :: FloorPlan where
  "adjacent_virtual_plan = planOf [left_room, right_room_virtual]"

text \<open>
  Two rooms whose boxes have a common strip exactly 1 wide: the first is at \<open>x = 1\<close> and is
  as wide as the double nearest to 1.2, the second is at that \<open>x\<close>. The right edge of the
  first, \<open>1\<close> plus that double, is no double.
\<close>

definition narrow_room :: Room where
  "narrow_room = plainRoom ''a'' 1 0 (rnd (12 / 10)) 10 (rnd (12 / 10)) 10"

definition shifted_room :: Room where
  "shifted_room = plainRoom ''b'' (rnd (12 / 10)) 0 10 10 10 10"

definition strip_plan :: FloorPlan where
  "strip_plan = planOf [narrow_room, shifted_room]"

section \<open>Rounding to a double\<close>

text \<open>
  Rounding keeps the sign, leaves an integer below \<open>2\<close> to the power 53 as it is, and is
  computed by \<open>rnd_eval\<close> for a number whose binade is known.
\<close>

lemma rnd_zero: "rnd 0 = 0"
  by (simp add: rnd_def)

lemma ulp_pos: "0 < ulp x"
  by (simp add: ulp_def)

lemma round_even_of_int: "round_even (of_int n) = n"
  by (simp add: round_even_def)

lemma round_even_nonpos: "r \<le> 0 \<Longrightarrow> round_even r \<le> 0"
proof -
  assume r: "r \<le> 0"
  then have f: "\<lfloor>r\<rfloor> \<le> 0" by (simp add: floor_le_zero)
  show ?thesis
  proof (cases "\<lfloor>r\<rfloor> = 0")
    case True
    then have "r = 0" using r by (metis floor_correct of_int_0 order_antisym)
    then show ?thesis by (simp add: round_even_def)
  next
    case False
    from f False have "\<lfloor>r\<rfloor> + 1 \<le> 0" by linarith
    with f show ?thesis by (simp add: round_even_def Let_def)
  qed
qed

lemma round_even_nonneg: "0 \<le> r \<Longrightarrow> 0 \<le> round_even r"
proof -
  assume "0 \<le> r"
  then have "0 \<le> \<lfloor>r\<rfloor>" by simp
  then show ?thesis by (simp add: round_even_def Let_def)
qed

lemma rnd_nonpos: "x \<le> 0 \<Longrightarrow> rnd x \<le> 0"
proof -
  assume "x \<le> 0"
  then have "x / ulp x \<le> 0" using ulp_pos [of x] by (simp add: divide_nonpos_pos)
  then have "round_even (x / ulp x) \<le> 0" by (rule round_even_nonpos)
  then have "of_int (round_even (x / ulp x)) * ulp x \<le> 0"
    using ulp_pos [of x] by (simp add: mult_le_0_iff)
  then show ?thesis by (simp add: rnd_def)
qed

lemma rnd_nonneg: "0 \<le> x \<Longrightarrow> 0 \<le> rnd x"
proof -
  assume "0 \<le> x"
  then have "0 \<le> x / ulp x" using ulp_pos [of x] by simp
  then have "0 \<le> round_even (x / ulp x)" by (rule round_even_nonneg)
  then have "0 \<le> of_int (round_even (x / ulp x)) * ulp x"
    using ulp_pos [of x] by simp
  then show ?thesis by (simp add: rnd_def)
qed

lemma binade_eq:
  assumes "2 powi e \<le> \<bar>x\<bar>" and "\<bar>x\<bar> < 2 powi (e + 1)"
  shows "binade x = e"
proof -
  have "(0::real) < 2 powi e" by simp
  with assms(1) have p: "0 < \<bar>x\<bar>" by linarith
  have a: "real_of_int e \<le> log 2 \<bar>x\<bar>"
    using assms(1) p by (simp add: le_log_iff powr_real_of_int')
  have "(2::real) powr real_of_int (e + 1) = 2 powi (e + 1)"
    by (rule powr_real_of_int') simp_all
  with assms(2) have "\<bar>x\<bar> < 2 powr real_of_int (e + 1)" by simp
  with p have b: "log 2 \<bar>x\<bar> < real_of_int (e + 1)"
    by (subst log_less_iff) simp_all
  from a b show ?thesis unfolding binade_def by linarith
qed

lemma rnd_eval:
  fixes k :: nat
  assumes "2 ^ 52 \<le> \<bar>x\<bar> * 2 ^ k" and "\<bar>x\<bar> * 2 ^ k < 2 ^ 53" and "k \<le> 1074"
  shows "rnd x = of_int (round_even (x * 2 ^ k)) / 2 ^ k"
proof -
  have e: "binade x = 52 - int k"
  proof (rule binade_eq)
    have "(2::real) powi (52 - int k) = 2 ^ 52 / 2 ^ k"
      by (simp add: power_int_diff)
    moreover have "(2::real) ^ 52 / 2 ^ k \<le> \<bar>x\<bar>"
      using assms(1) by (simp add: pos_divide_le_eq)
    ultimately show "2 powi (52 - int k) \<le> \<bar>x\<bar>" by simp
    have "(2::real) powi (52 - int k + 1) = 2 ^ 53 / 2 ^ k"
      by (simp add: power_int_diff power_int_add)
    moreover have "\<bar>x\<bar> < (2::real) ^ 53 / 2 ^ k"
      using assms(2) by (simp add: pos_less_divide_eq)
    ultimately show "\<bar>x\<bar> < 2 powi (52 - int k + 1)" by simp
  qed
  have u: "ulp x = 1 / 2 ^ k"
    using assms(3) by (simp add: ulp_def e power_int_minus field_simps)
  have nz: "x \<noteq> 0" using assms(1) by auto
  show ?thesis by (simp add: rnd_def nz u)
qed

lemma rnd_of_int:
  assumes "\<bar>n\<bar> < 2 ^ 53"
  shows "rnd (of_int n) = of_int n"
proof (cases "n = 0")
  case True
  then show ?thesis by (simp add: rnd_zero)
next
  case False
  let ?x = "real_of_int n"
  have one: "1 \<le> \<bar>?x\<bar>" using False by (simp flip: of_int_abs)
  have lt: "\<bar>?x\<bar> < 2 ^ 53" using assms by (metis of_int_abs of_int_less_numeral_power_cancel_iff)
  have lo: "0 \<le> binade ?x"
    using one by (simp add: binade_def)
  have "log 2 \<bar>?x\<bar> < 53"
    using lt one by (simp add: log_less_iff)
  then have hi: "binade ?x \<le> 52" unfolding binade_def by linarith
  define j where "j = nat (52 - binade ?x)"
  have u: "ulp ?x = 1 / 2 ^ j"
    using lo hi by (simp add: ulp_def j_def power_int_def field_simps)
  have "?x / ulp ?x = of_int (n * 2 ^ j)" by (simp add: u)
  then have "round_even (?x / ulp ?x) = n * 2 ^ j" by (simp only: round_even_of_int)
  then show ?thesis using False by (simp add: rnd_def u)
qed

lemma rnd_numeral: "numeral n < (2 :: int) ^ 53 \<Longrightarrow> rnd (numeral n) = numeral n"
  using rnd_of_int [of "numeral n"] by simp

lemma rnd_one: "rnd 1 = 1"
  using rnd_of_int [of 1] by simp

lemma rnd_neg_numeral: "numeral n < (2 :: int) ^ 53 \<Longrightarrow> rnd (- numeral n) = - numeral n"
  using rnd_of_int [of "- numeral n"] by simp

lemma fsub_nonpos: "a \<le> b \<Longrightarrow> fsub a b \<le> 0"
  by (simp add: fsub_def rnd_nonpos)

lemma fmul_zero: "fmul 0 b = 0" "fmul a 0 = 0"
  by (simp_all add: fmul_def rnd_zero)

lemma fdiv_zero: "fdiv 0 b = 0"
  by (simp add: fdiv_def rnd_zero)

lemma fadd_zero: "fadd 0 0 = 0"
  by (simp add: fadd_def rnd_zero)

lemmas float_ops = fadd_def fsub_def fmul_def fdiv_def

text \<open>The double nearest to 1.05 and the double nearest to 1.2.\<close>

lemma rnd_105: "rnd (105 / 100) = 4728779608739021 / 4503599627370496"
  by (subst rnd_eval [where k = 52]) (simp_all add: round_even_def)

lemma rnd_12: "rnd (12 / 10) = 5404319552844595 / 4503599627370496"
  by (subst rnd_eval [where k = 52]) (simp_all add: round_even_def)

section \<open>The defaults resolver is shared\<close>

lemma bind_wall_height:
  "Option.bind (Option.bind defaults defaults_wall) wd_height = spec_defaults_wall_height defaults"
  by (simp add: spec_defaults_wall_height_def split: option.splits)

lemma bind_wall_thickness:
  "Option.bind (Option.bind defaults defaults_wall) wd_thickness
     = spec_defaults_wall_thickness defaults"
  by (simp add: spec_defaults_wall_thickness_def split: option.splits)

lemma resolveWall_spec:
  "rw_length (resolveWall wall defaults) = spec_length wall"
  "rw_height (resolveWall wall defaults) = spec_height wall defaults"
  "rw_thickness (resolveWall wall defaults) = spec_thickness wall defaults"
  "rw_exists (resolveWall wall defaults) = spec_exists wall"
  unfolding resolveWall_def bind_wall_height bind_wall_thickness
  by (simp_all add: nullish_def spec_length_def spec_height_def spec_thickness_def
      spec_exists_def DEFAULT_WALL_height_def DEFAULT_WALL_thickness_def
      split: option.splits)

lemma calculateWallStats_spec:
  "ws_length (calculateWallStats wall side defaults config) = spec_length wall"
  "ws_height (calculateWallStats wall side defaults config) = spec_height wall defaults"
  "ws_thickness (calculateWallStats wall side defaults config) = spec_thickness wall defaults"
  "ws_exists (calculateWallStats wall side defaults config) = spec_exists wall"
  unfolding calculateWallStats_def getWallDefaults_def bind_wall_height bind_wall_thickness
  by (auto simp add: Let_def nullish_def spec_length_def spec_height_def spec_thickness_def
      spec_exists_def split: option.splits)

text \<open>
  Claim C2. For every wall and every defaults record (also an absent one), the resolver of
  the geometry calculator (\<open>resolveWall\<close>) and the statistics engine (\<open>calculateWallStats\<close>)
  agree on the wall's effective length, height, thickness and existence flag, and the
  common value is the three-tier one: the explicit length else 0; the explicit height,
  else the plan's default wall height, else 280; the explicit thickness, else the plan's
  default wall thickness, else 15; the explicit flag else true.
\<close>

theorem wall_resolution_agrees:
  "rw_length (resolveWall wall defaults)
     = ws_length (calculateWallStats wall side defaults config)
   \<and> ws_length (calculateWallStats wall side defaults config) = spec_length wall
   \<and> rw_height (resolveWall wall defaults)
     = ws_height (calculateWallStats wall side defaults config)
   \<and> ws_height (calculateWallStats wall side defaults config) = spec_height wall defaults
   \<and> rw_thickness (resolveWall wall defaults)
     = ws_thickness (calculateWallStats wall side defaults config)
   \<and> ws_thickness (calculateWallStats wall side defaults config) = spec_thickness wall defaults
   \<and> rw_exists (resolveWall wall defaults)
     = ws_exists (calculateWallStats wall side defaults config)
   \<and> ws_exists (calculateWallStats wall side defaults config) = spec_exists wall"
  by (simp only: resolveWall_spec calculateWallStats_spec)

section \<open>Wall areas and brick counts\<close>

text \<open>The statistics engine and the resolver agree on the size of an opening.\<close>

lemma opening_size_agrees:
  "nullish (opening_width opening) (fst (getOpeningDefaults (opening_type opening) defaults))
     = ro_width (resolveOpening opening defaults)"
  "nullish (opening_height opening) (snd (getOpeningDefaults (opening_type opening) defaults))
     = ro_height (resolveOpening opening defaults)"
  by (cases "opening_type opening"; cases defaults;
      simp add: getOpeningDefaults_def resolveOpening_def typeDefaults_def Let_def nullish_def
        DEFAULT_DOOR_width_def DEFAULT_DOOR_height_def DEFAULT_WINDOW_width_def
        DEFAULT_WINDOW_height_def split: option.splits)+

lemma foldl_openingAreaStep:
  "foldl (openingAreaStep defaults) a os
     = a + sum_list (map (\<lambda>opening. ro_width (resolveOpening opening defaults)
                                    * ro_height (resolveOpening opening defaults)) os)"
  by (induction os arbitrary: a) (simp_all add: openingAreaStep_def Let_def opening_size_agrees)

lemma calculateOpeningsArea_spec:
  "calculateOpeningsArea wall defaults = spec_openingsAreaCm2 wall defaults"
  by (simp add: calculateOpeningsArea_def spec_openingsAreaCm2_def resolveWall_def nullish_def
      foldl_openingAreaStep split: option.splits)

lemma wallStats_areas:
  "ws_area (calculateWallStats wall side defaults config) = spec_grossArea wall defaults"
  "ws_openingsArea (calculateWallStats wall side defaults config)
     = spec_openingsAreaCm2 wall defaults / 10000"
  "ws_areaWithoutOpenings (calculateWallStats wall side defaults config)
     = max 0 (spec_grossArea wall defaults - spec_openingsAreaCm2 wall defaults / 10000)"
proof -
  have l: "nullish (wall_length wall) 0 = rw_length (resolveWall wall defaults)"
    by (simp add: resolveWall_def)
  have h: "nullish (wall_height wall) (fst (getWallDefaults defaults))
             = rw_height (resolveWall wall defaults)"
    unfolding resolveWall_def getWallDefaults_def
    by (simp add: DEFAULT_WALL_height_def)
  show "ws_area (calculateWallStats wall side defaults config) = spec_grossArea wall defaults"
    by (simp add: calculateWallStats_def Let_def l h cm2ToM2_def spec_grossArea_def)
  show "ws_openingsArea (calculateWallStats wall side defaults config)
     = spec_openingsAreaCm2 wall defaults / 10000"
    by (simp add: calculateWallStats_def Let_def cm2ToM2_def calculateOpeningsArea_spec)
  show "ws_areaWithoutOpenings (calculateWallStats wall side defaults config)
     = max 0 (spec_grossArea wall defaults - spec_openingsAreaCm2 wall defaults / 10000)"
    by (simp add: calculateWallStats_def Let_def l h cm2ToM2_def spec_grossArea_def
        calculateOpeningsArea_spec max_def field_simps)
qed

text \<open>The brick count is one rounding up, and not finite when the brick unit area is zero.\<close>

lemma calculateBrickCount_eq:
  "calculateBrickCount areaCm2 config
     = (if brickUnitArea config = 0 then NonFinite
        else Fin (of_int \<lceil>fmul (fdiv areaCm2 (brickUnitArea config))
                                (brick_wasteFactor (cfg_brick config))\<rceil>))"
  by (simp add: calculateBrickCount_def Let_def brickUnitArea_def js_div_def)

text \<open>The brick count of a wall, in terms of its net area in square centimetres.\<close>

lemma wallStats_brickCount:
  "ws_brickCount (calculateWallStats wall side defaults config)
     = (if wall_exists wall \<noteq> Some False
        then calculateBrickCount (exactNetAreaCm2 wall defaults) config
        else Fin 0)"
proof -
  have l: "nullish (wall_length wall) 0 = rw_length (resolveWall wall defaults)"
    by (simp add: resolveWall_def)
  have h: "nullish (wall_height wall) (fst (getWallDefaults defaults))
             = rw_height (resolveWall wall defaults)"
    unfolding resolveWall_def getWallDefaults_def
    by (simp add: DEFAULT_WALL_height_def)
  show ?thesis
    by (simp add: calculateWallStats_def Let_def l h calculateOpeningsArea_spec
        exactNetAreaCm2_def)
qed

lemma brickUnitArea_default: "brickUnitArea DEFAULT_ESTIMATE_CONFIG = 300"
  by (simp add: brickUnitArea_def DEFAULT_ESTIMATE_CONFIG_def float_ops rnd_numeral)

lemma wasteFactor_default:
  "brick_wasteFactor (cfg_brick DEFAULT_ESTIMATE_CONFIG)
     = 4728779608739021 / 4503599627370496"
  unfolding DEFAULT_ESTIMATE_CONFIG_def by (simp only: rnd_105 simp_thms EstimateConfig.simps
      BrickConfig.simps)















text \<open>
  Claim C5, as stated, fails. The wall \<open>oversized_door_wall\<close> has a gross area of 1 square
  metre and a door of 4 square metres. Gross minus openings is -3; the code reports a net
  area of 0.
\<close>

theorem net_area_counterexample:
  "ws_areaWithoutOpenings
     (calculateWallStats oversized_door_wall North None DEFAULT_ESTIMATE_CONFIG) = 0
   \<and> spec_netArea oversized_door_wall None = - 3"
  by (simp add: wallStats_areas(3) spec_netArea_def spec_grossArea_def spec_openingsAreaCm2_def
      resolveWall_def resolveOpening_def typeDefaults_def Let_def nullish_def
      oversized_door_wall_def)

text \<open>
  Claim C5, amended. For every wall, the gross area is resolved length times resolved
  height divided by 10 000; the area of the openings is the sum over the wall's openings
  of resolved width times resolved height, divided by 10 000; and the net area
  (\<open>areaWithoutOpenings\<close>) is gross minus openings when that is not negative, and 0 when the
  openings exceed the gross area.
\<close>

theorem wall_areas:
  "ws_area (calculateWallStats wall side defaults config)
     = rw_length (resolveWall wall defaults) * rw_height (resolveWall wall defaults) / 10000
   \<and> ws_openingsArea (calculateWallStats wall side defaults config)
     = spec_openingsAreaCm2 wall defaults / 10000
   \<and> ws_areaWithoutOpenings (calculateWallStats wall side defaults config)
     = max 0 (ws_area (calculateWallStats wall side defaults config)
               - ws_openingsArea (calculateWallStats wall side defaults config))
   \<and> ws_areaWithoutOpenings (calculateWallStats wall side defaults config)
     = max 0 (spec_netArea wall defaults)"
  by (simp add: wallStats_areas spec_netArea_def spec_grossArea_def)

section \<open>Material quantities in the arithmetic of doubles\<close>

text \<open>
  The tiles of a floor of 22 square metres with the default waste factor, the double
  nearest to 1.1: the product is \<open>24.200000000000003\<close>, ten times that is just above 242,
  and the budget quotes \<open>243 / 10\<close>, the double nearest to 24.3.
\<close>

lemma flooring_wasteFactor_default:
  "flooring_wasteFactor (cfg_flooring DEFAULT_ESTIMATE_CONFIG)
     = 2476979795053773 / 2251799813685248"
proof -
  have "rnd (110 / 100) = 2476979795053773 / 2251799813685248"
    by (subst rnd_eval [where k = 52]) (simp_all add: round_even_def)
  then show ?thesis
    unfolding DEFAULT_ESTIMATE_CONFIG_def
    by (simp only: simp_thms EstimateConfig.simps FlooringConfig.simps)
qed

lemma tiles_of_22_square_metres:
  assumes "ms_totalFloorArea measurements = 22"
  shows "fm_tiles (calculateFlooring measurements DEFAULT_ESTIMATE_CONFIG)
           = 1702923609099469 / 70368744177664"
proof -
  have "fmul 22 (2476979795053773 / 2251799813685248) = 1702923609099469 / 70368744177664"
    unfolding fmul_def by (subst rnd_eval [where k = 48]) (simp_all add: round_even_def)
  with assms show ?thesis
    by (simp add: calculateFlooring_def Let_def flooring_wasteFactor_default)
qed

lemma tile_quantity_of_22_square_metres:
  assumes "fm_tiles (mat_flooring materials) = 1702923609099469 / 70368744177664"
  shows "bi_quantity (fixedItems materials config ! 6) = Fin (fdiv 243 10)"
proof -
  have p: "fmul (1702923609099469 / 70368744177664) 10 = 8514618045497345 / 35184372088832"
    unfolding fmul_def by (subst rnd_eval [where k = 45]) (simp_all add: round_even_def)
  have c: "\<lceil>(8514618045497345 / 35184372088832 :: real)\<rceil> = 243"
    by (rule ceiling_unique) simp_all
  show ?thesis
    by (simp add: fixedItems_def Let_def assms p c)
qed

section \<open>The empty plan and the zero-area budget\<close>

lemma perM2_guard:
  "be_perM2 (calculateBudget materials totalArea config)
     = (if totalArea > 0
        then jdiv (be_total (calculateBudget materials totalArea config)) totalArea
        else Fin 0)"
  by (simp add: calculateBudget_def Let_def)

lemma stats_budget:
  "fps_budget (calculateFloorPlanStats floorPlan config)
     = calculateBudget (fps_materials (calculateFloorPlanStats floorPlan config))
         (ms_totalFloorArea (fps_measurements (calculateFloorPlanStats floorPlan config))) config"
  by (simp add: calculateFloorPlanStats_def Let_def)

lemma stats_rooms:
  "ms_rooms (fps_measurements (calculateFloorPlanStats floorPlan config))
     = map (\<lambda>room. calculateRoomStats room (fp_defaults floorPlan) config)
         (floor_rooms (fp_floor floorPlan))"
  by (simp add: calculateFloorPlanStats_def Let_def calculateMeasurements_def)

lemma stats_totalFloorArea:
  "ms_totalFloorArea (fps_measurements (calculateFloorPlanStats floorPlan config))
     = foldl (\<lambda>sum r. fadd sum (rs_floorArea r)) 0
         (map (\<lambda>room. calculateRoomStats room (fp_defaults floorPlan) config)
            (floor_rooms (fp_floor floorPlan)))"
  by (simp add: calculateFloorPlanStats_def Let_def calculateMeasurements_def)

text \<open>
  Claim C9. For every floor plan with an empty room list, \<open>calculateFloorGeometry\<close> returns
  the result of width 0, height 0 and no rooms, and the total floor area of the plan is 0;
  and for every floor plan and configuration whose total floor area is 0, the budget's
  per-square-metre figure is the finite number 0 (not \<open>NaN\<close>, not an infinity).
\<close>

theorem empty_plan_and_zero_area:
  "(floor_rooms (fp_floor floorPlan) = [] \<longrightarrow>
      calculateFloorGeometry floorPlan = \<lparr> fg_width = 0, fg_height = 0, fg_rooms = [] \<rparr>
      \<and> ms_totalFloorArea (fps_measurements (calculateFloorPlanStats floorPlan config)) = 0)
   \<and> (ms_totalFloorArea (fps_measurements (calculateFloorPlanStats floorPlan config)) = 0 \<longrightarrow>
        be_perM2 (fps_budget (calculateFloorPlanStats floorPlan config)) = Fin 0)"
  by (simp add: calculateFloorGeometry_def Let_def stats_totalFloorArea stats_budget perM2_guard)

text \<open>Claim C9 at the plan with no room and the default configuration.\<close>

theorem empty_plan_and_zero_area_witness:
  "floor_rooms (fp_floor empty_plan) = []
   \<and> calculateFloorGeometry empty_plan = \<lparr> fg_width = 0, fg_height = 0, fg_rooms = [] \<rparr>
   \<and> ms_totalFloorArea
       (fps_measurements (calculateFloorPlanStats empty_plan DEFAULT_ESTIMATE_CONFIG)) = 0
   \<and> be_perM2 (fps_budget (calculateFloorPlanStats empty_plan DEFAULT_ESTIMATE_CONFIG)) = Fin 0"
proof -
  have e: "floor_rooms (fp_floor empty_plan) = []" by (simp add: empty_plan_def)
  from empty_plan_and_zero_area [of empty_plan DEFAULT_ESTIMATE_CONFIG] e show ?thesis by simp
qed

section \<open>Validation does not read the scale\<close>

text \<open>
  Claim C10. For every floor plan and any two values of the top-level scale field (present
  or absent), \<open>validateFloorPlan\<close> returns the same list of issues: the same identifiers,
  severities, messages, room identifiers and geometric details, in the same order.
\<close>

theorem validation_ignores_scale:
  "validateFloorPlan (floorPlan\<lparr> fp_scale := s1 \<rparr>)
     = validateFloorPlan (floorPlan\<lparr> fp_scale := s2 \<rparr>)"
  by (simp add: validateFloorPlan_def)

section \<open>Room type inference\<close>

lemma wc_lower: "toLowerCase ''wc'' = ''wc''"
  by (simp add: toLowerCase_def lowerChar_def)

lemma wc_no_keyword:
  "\<not> str_includes ''wc'' ''sala'' \<and> \<not> str_includes ''wc'' ''cozinha''
   \<and> \<not> str_includes ''wc'' ''banheiro'' \<and> \<not> str_includes ''wc'' ''quarto''
   \<and> \<not> str_includes ''wc'' ''servico'' \<and> str_includes ''wc'' ''wc''"
  by code_simp

lemma toLowerCase_Nil: "toLowerCase [] = []"
  by (simp add: toLowerCase_def)

lemma empty_no_keyword: "k \<noteq> [] \<Longrightarrow> \<not> str_includes [] k"
  by (simp add: str_includes_def)

text \<open>
  Claim C8, as stated, fails. The room \<open>wc_room\<close> has the identifier \<open>wc\<close> and no name. The
  claim classifies it as a bathroom; the code looks for \<open>wc\<close> in the name only and returns
  the default type.
\<close>

theorem room_type_wc_counterexample:
  "str_includes (toLowerCase (room_id wc_room)) ''wc''
   \<and> getRoomType wc_room = ''default'' \<and> spec_roomType wc_room = ''banheiro''"
  by (simp add: getRoomType_def spec_roomType_def spec_keywords_def wc_room_def Let_def nullish_def
      wc_lower wc_no_keyword empty_no_keyword toLowerCase_Nil)

text \<open>
  Claim C8, amended. For every room, the inferred type is decided by case-insensitive
  substring matching in the fixed order sala, cozinha, banheiro, quarto, servico, the
  first match winning and no match giving the default type; the keywords \<open>sala\<close>,
  \<open>cozinha\<close>, \<open>banheiro\<close>, \<open>quarto\<close> and \<open>servico\<close> are looked for in the identifier and in the
  name, the keywords \<open>wc\<close>, \<open>dormit\<close> and \<open>lavanderia\<close> in the name only. In particular a
  room with no name whose identifier contains none of the five identifier keywords has
  the default type, also when its identifier contains \<open>wc\<close>.
\<close>

theorem room_type_first_match:
  "getRoomType room
     = firstMatch code_keywords (toLowerCase (room_id room))
         (toLowerCase (case room_name room of Some n \<Rightarrow> n | None \<Rightarrow> []))
   \<and> (room_name room = None
        \<and> \<not> str_includes (toLowerCase (room_id room)) ''sala''
        \<and> \<not> str_includes (toLowerCase (room_id room)) ''cozinha''
        \<and> \<not> str_includes (toLowerCase (room_id room)) ''banheiro''
        \<and> \<not> str_includes (toLowerCase (room_id room)) ''quarto''
        \<and> \<not> str_includes (toLowerCase (room_id room)) ''servico''
      \<longrightarrow> getRoomType room = ''default'')"
  by (auto simp add: getRoomType_def code_keywords_def Let_def nullish_def toLowerCase_def
      empty_no_keyword split: option.splits)

text \<open>The amended claim C8 at the room \<open>wc_room\<close>.\<close>

theorem room_type_first_match_witness:
  "room_name wc_room = None
   \<and> \<not> str_includes (toLowerCase (room_id wc_room)) ''sala''
   \<and> \<not> str_includes (toLowerCase (room_id wc_room)) ''cozinha''
   \<and> \<not> str_includes (toLowerCase (room_id wc_room)) ''banheiro''
   \<and> \<not> str_includes (toLowerCase (room_id wc_room)) ''quarto''
   \<and> \<not> str_includes (toLowerCase (room_id wc_room)) ''servico''
   \<and> str_includes (toLowerCase (room_id wc_room)) ''wc''
   \<and> getRoomType wc_room = ''default''"
proof -
  have i: "room_id wc_room = ''wc''" and n: "room_name wc_room = None"
    by (simp_all add: wc_room_def)
  from room_type_first_match [of wc_room, THEN conjunct2] show ?thesis
    by (simp add: i n wc_lower wc_no_keyword)
qed

section \<open>Room and wall geometry\<close>

lemma nullish_length: "nullish (wall_length wall) 0 = spec_length wall"
  by (simp add: nullish_def spec_length_def)

lemma nullish_openings: "nullish (wall_openings wall) [] = spec_openings wall"
  by (simp add: nullish_def spec_openings_def)

lemma nullish_scale: "nullish (fp_scale floorPlan) (2 / 10) = spec_scale floorPlan"
  by (simp add: nullish_def spec_scale_def split: option.splits)

lemma roomGeometry_box:
  "rg_x (calculateRoomGeometry room defaults scale) = pos_x (room_position room) * scale"
  "rg_y (calculateRoomGeometry room defaults scale) = pos_y (room_position room) * scale"
  "rg_width (calculateRoomGeometry room defaults scale) = spec_roomWidth room * scale"
  "rg_height (calculateRoomGeometry room defaults scale) = spec_roomHeight room * scale"
  by (simp_all add: calculateRoomGeometry_def Let_def nullish_length spec_roomWidth_def
      spec_roomHeight_def)

lemma roomGeometry_wall:
  "wallGeometryOf (rg_walls (calculateRoomGeometry room defaults scale)) side
     = calculateWallGeometry room side defaults scale"
  by (cases side) (simp_all add: calculateRoomGeometry_def Let_def)

lemma wallGeometry_segment:
  "(wg_x1 (calculateWallGeometry room side defaults scale),
    wg_y1 (calculateWallGeometry room side defaults scale),
    wg_x2 (calculateWallGeometry room side defaults scale),
    wg_y2 (calculateWallGeometry room side defaults scale))
   = (let (x1, y1, x2, y2) = spec_segment room side
      in (x1 * scale, y1 * scale, x2 * scale, y2 * scale))"
  by (cases side) (simp_all add: calculateWallGeometry_def Let_def nullish_length
      spec_roomWidth_def spec_roomHeight_def)

lemma openingGeometry_position:
  "og_x (openingGeometry (pos_x (room_position room)) (pos_y (room_position room))
           (spec_roomWidth room) (spec_roomHeight room) side defaults scale opening)
     = fst (spec_openingPosition room side (opening_offset opening)) * scale"
  "og_y (openingGeometry (pos_x (room_position room)) (pos_y (room_position room))
           (spec_roomWidth room) (spec_roomHeight room) side defaults scale opening)
     = snd (spec_openingPosition room side (opening_offset opening)) * scale"
  "og_direction (openingGeometry x y w h side defaults scale opening) = side"
  by (cases side; simp add: openingGeometry_def Let_def spec_openingPosition_def
      resolveOpening_def)+

lemma wallGeometry_openings:
  "wg_openings (calculateWallGeometry room side defaults scale)
     = map (openingGeometry (pos_x (room_position room)) (pos_y (room_position room))
              (spec_roomWidth room) (spec_roomHeight room) side defaults scale)
         (spec_openings (wallOf room side))"
  by (simp add: calculateWallGeometry_def Let_def nullish_length spec_roomWidth_def
      spec_roomHeight_def resolveWall_def nullish_openings)

lemma floorGeometry_rooms:
  "fg_rooms (calculateFloorGeometry floorPlan)
     = map (\<lambda>room. calculateRoomGeometry room (fp_defaults floorPlan) (spec_scale floorPlan))
         (floor_rooms (fp_floor floorPlan))"
  unfolding calculateFloorGeometry_def nullish_scale
  by (simp add: Let_def)

lemma floorGeometry_single:
  "floor_rooms (fp_floor floorPlan) = [room] \<Longrightarrow>
   fg_width (calculateFloorGeometry floorPlan)
     = max 0 (rg_x (calculateRoomGeometry room (fp_defaults floorPlan) (spec_scale floorPlan))
              + rg_width (calculateRoomGeometry room (fp_defaults floorPlan) (spec_scale floorPlan)))
   \<and> fg_height (calculateFloorGeometry floorPlan)
     = max 0 (rg_y (calculateRoomGeometry room (fp_defaults floorPlan) (spec_scale floorPlan))
              + rg_height (calculateRoomGeometry room (fp_defaults floorPlan) (spec_scale floorPlan)))"
  unfolding calculateFloorGeometry_def nullish_scale
  by (simp add: Let_def)

text \<open>
  Claim C7. \<open>calculateFloorGeometry\<close> maps every room of the plan to its geometry at the
  plan's scale (0.2 when absent). For every room, defaults, scale and side: the room's box
  starts at the room position, its width is the larger of the north and south lengths and
  its height the larger of the east and west lengths; the side's segment runs along the
  matching edge of that box; each opening of the side sits at the start of the segment
  moved by the opening's offset along the side's axis, and faces that side; every
  coordinate is multiplied by the scale. For a plan of scale 1 whose only room has
  north = south = 400 and east = west = 300 at the origin, the plan and the room measure
  400 by 300 and the north segment runs from (0, 0) to (400, 0).
\<close>

theorem room_geometry:
  "fg_rooms (calculateFloorGeometry floorPlan)
     = map (\<lambda>r. calculateRoomGeometry r (fp_defaults floorPlan) (spec_scale floorPlan))
         (floor_rooms (fp_floor floorPlan))
   \<and> (let g = calculateRoomGeometry room defaults scale;
           wg = wallGeometryOf (rg_walls g) side;
           (x1, y1, x2, y2) = spec_segment room side
       in rg_x g = pos_x (room_position room) * scale
          \<and> rg_y g = pos_y (room_position room) * scale
          \<and> rg_width g = spec_roomWidth room * scale
          \<and> rg_height g = spec_roomHeight room * scale
          \<and> wg_x1 wg = x1 * scale \<and> wg_y1 wg = y1 * scale
          \<and> wg_x2 wg = x2 * scale \<and> wg_y2 wg = y2 * scale
          \<and> map (\<lambda>og. (og_x og, og_y og, og_direction og)) (wg_openings wg)
              = map (\<lambda>opening.
                       (fst (spec_openingPosition room side (opening_offset opening)) * scale,
                        snd (spec_openingPosition room side (opening_offset opening)) * scale,
                        side))
                  (spec_openings (wallOf room side)))
   \<and> (floor_rooms (fp_floor floorPlan) = [room] \<and> fp_scale floorPlan = Some 1
        \<and> room_position room = \<lparr> pos_x = 0, pos_y = 0 \<rparr>
        \<and> wall_length (north (room_walls room)) = Some 400
        \<and> wall_length (south (room_walls room)) = Some 400
        \<and> wall_length (east (room_walls room)) = Some 300
        \<and> wall_length (west (room_walls room)) = Some 300
      \<longrightarrow> (let g = hd (fg_rooms (calculateFloorGeometry floorPlan));
               wg = wgs_north (rg_walls g)
           in fg_width (calculateFloorGeometry floorPlan) = 400
              \<and> fg_height (calculateFloorGeometry floorPlan) = 300
              \<and> rg_x g = 0 \<and> rg_y g = 0 \<and> rg_width g = 400 \<and> rg_height g = 300
              \<and> (wg_x1 wg, wg_y1 wg, wg_x2 wg, wg_y2 wg) = (0, 0, 400, 0)))"
proof (intro conjI)
  show "fg_rooms (calculateFloorGeometry floorPlan)
     = map (\<lambda>r. calculateRoomGeometry r (fp_defaults floorPlan) (spec_scale floorPlan))
         (floor_rooms (fp_floor floorPlan))"
    by (rule floorGeometry_rooms)
next
  have seg: "(wg_x1 (calculateWallGeometry room side defaults scale),
    wg_y1 (calculateWallGeometry room side defaults scale),
    wg_x2 (calculateWallGeometry room side defaults scale),
    wg_y2 (calculateWallGeometry room side defaults scale))
   = (let (x1, y1, x2, y2) = spec_segment room side
      in (x1 * scale, y1 * scale, x2 * scale, y2 * scale))"
    by (rule wallGeometry_segment)
  obtain x1 y1 x2 y2 where s: "spec_segment room side = (x1, y1, x2, y2)"
    by (cases "spec_segment room side") auto
  show "let g = calculateRoomGeometry room defaults scale;
           wg = wallGeometryOf (rg_walls g) side;
           (x1, y1, x2, y2) = spec_segment room side
       in rg_x g = pos_x (room_position room) * scale
          \<and> rg_y g = pos_y (room_position room) * scale
          \<and> rg_width g = spec_roomWidth room * scale
          \<and> rg_height g = spec_roomHeight room * scale
          \<and> wg_x1 wg = x1 * scale \<and> wg_y1 wg = y1 * scale
          \<and> wg_x2 wg = x2 * scale \<and> wg_y2 wg = y2 * scale
          \<and> map (\<lambda>og. (og_x og, og_y og, og_direction og)) (wg_openings wg)
              = map (\<lambda>opening.
                       (fst (spec_openingPosition room side (opening_offset opening)) * scale,
                        snd (spec_openingPosition room side (opening_offset opening)) * scale,
                        side))
                  (spec_openings (wallOf room side))"
    using seg
    by (simp add: Let_def s roomGeometry_box roomGeometry_wall wallGeometry_openings
        openingGeometry_position o_def)
next
  show "floor_rooms (fp_floor floorPlan) = [room] \<and> fp_scale floorPlan = Some 1
        \<and> room_position room = \<lparr> pos_x = 0, pos_y = 0 \<rparr>
        \<and> wall_length (north (room_walls room)) = Some 400
        \<and> wall_length (south (room_walls room)) = Some 400
        \<and> wall_length (east (room_walls room)) = Some 300
        \<and> wall_length (west (room_walls room)) = Some 300
      \<longrightarrow> (let g = hd (fg_rooms (calculateFloorGeometry floorPlan));
               wg = wgs_north (rg_walls g)
           in fg_width (calculateFloorGeometry floorPlan) = 400
              \<and> fg_height (calculateFloorGeometry floorPlan) = 300
              \<and> rg_x g = 0 \<and> rg_y g = 0 \<and> rg_width g = 400 \<and> rg_height g = 300
              \<and> (wg_x1 wg, wg_y1 wg, wg_x2 wg, wg_y2 wg) = (0, 0, 400, 0))"
  proof
    assume h: "floor_rooms (fp_floor floorPlan) = [room] \<and> fp_scale floorPlan = Some 1
        \<and> room_position room = \<lparr> pos_x = 0, pos_y = 0 \<rparr>
        \<and> wall_length (north (room_walls room)) = Some 400
        \<and> wall_length (south (room_walls room)) = Some 400
        \<and> wall_length (east (room_walls room)) = Some 300
        \<and> wall_length (west (room_walls room)) = Some 300"
    then have sc: "spec_scale floorPlan = 1" by (simp add: spec_scale_def)
    from h have w: "spec_roomWidth room = 400" and ht: "spec_roomHeight room = 300"
      by (simp_all add: spec_roomWidth_def spec_roomHeight_def spec_length_def)
    from h have r: "floor_rooms (fp_floor floorPlan) = [room]" by simp
    have n: "wgs_north (rg_walls (calculateRoomGeometry room (fp_defaults floorPlan) 1))
               = calculateWallGeometry room North (fp_defaults floorPlan) 1"
      using roomGeometry_wall [of room "fp_defaults floorPlan" 1 North] by simp
    show "let g = hd (fg_rooms (calculateFloorGeometry floorPlan));
               wg = wgs_north (rg_walls g)
           in fg_width (calculateFloorGeometry floorPlan) = 400
              \<and> fg_height (calculateFloorGeometry floorPlan) = 300
              \<and> rg_x g = 0 \<and> rg_y g = 0 \<and> rg_width g = 400 \<and> rg_height g = 300
              \<and> (wg_x1 wg, wg_y1 wg, wg_x2 wg, wg_y2 wg) = (0, 0, 400, 0)"
      using h floorGeometry_single [OF r]
        wallGeometry_segment [of room North "fp_defaults floorPlan" 1]
      by (simp add: Let_def floorGeometry_rooms r sc roomGeometry_box w ht n)
  qed
qed

text \<open>
  Claim C7 at the plan \<open>living_plan\<close>, whose room has a door at offset 50 and a window at
  offset 200 on its north wall: they sit at x = 50 and x = 200 and face north.
\<close>

theorem room_geometry_witness:
  "floor_rooms (fp_floor living_plan) = [living_room] \<and> fp_scale living_plan = Some 1
   \<and> room_position living_room = \<lparr> pos_x = 0, pos_y = 0 \<rparr>
   \<and> wall_length (north (room_walls living_room)) = Some 400
   \<and> wall_length (south (room_walls living_room)) = Some 400
   \<and> wall_length (east (room_walls living_room)) = Some 300
   \<and> wall_length (west (room_walls living_room)) = Some 300
   \<and> fg_width (calculateFloorGeometry living_plan) = 400
   \<and> fg_height (calculateFloorGeometry living_plan) = 300
   \<and> rg_width (hd (fg_rooms (calculateFloorGeometry living_plan))) = 400
   \<and> rg_height (hd (fg_rooms (calculateFloorGeometry living_plan))) = 300
   \<and> wg_x2 (wgs_north (rg_walls (hd (fg_rooms (calculateFloorGeometry living_plan))))) = 400
   \<and> wg_y2 (wgs_north (rg_walls (hd (fg_rooms (calculateFloorGeometry living_plan))))) = 0
   \<and> map (\<lambda>og. (og_x og, og_y og, og_direction og))
        (wg_openings (wallGeometryOf (rg_walls (calculateRoomGeometry living_room None 1)) North))
       = [(50, 0, North), (200, 0, North)]"
proof -
  have h: "floor_rooms (fp_floor living_plan) = [living_room] \<and> fp_scale living_plan = Some 1
   \<and> room_position living_room = \<lparr> pos_x = 0, pos_y = 0 \<rparr>
   \<and> wall_length (north (room_walls living_room)) = Some 400
   \<and> wall_length (south (room_walls living_room)) = Some 400
   \<and> wall_length (east (room_walls living_room)) = Some 300
   \<and> wall_length (west (room_walls living_room)) = Some 300"
    by (simp add: living_plan_def living_room_def plainWall_def)
  have o: "spec_openings (north (room_walls living_room))
     = [\<lparr> opening_type = Door, opening_offset = 50, opening_width = Some 80,
                           opening_height = None, opening_fromFloor = None, opening_to = None \<rparr>,
                         \<lparr> opening_type = Window, opening_offset = 200,
                           opening_width = Some 120, opening_height = None,
                           opening_fromFloor = None, opening_to = None \<rparr>]"
    by (simp add: spec_openings_def living_room_def)
  have p: "spec_segment living_room North = (0, 0, 400, 0)"
    using h by (simp add: spec_roomWidth_def spec_roomHeight_def spec_length_def)
  note g = room_geometry [of living_plan living_room None 1 North]
  from g [THEN conjunct2, THEN conjunct1] g [THEN conjunct2, THEN conjunct2] h
  show ?thesis
    by (simp add: Let_def o p spec_openingPosition_def)
qed

section \<open>Degenerate rooms\<close>

lemma getRoomBounds_spec:
  "b_id (getRoomBounds room) = room_id room"
  "b_x (getRoomBounds room) = pos_x (room_position room)"
  "b_y (getRoomBounds room) = pos_y (room_position room)"
  "b_width (getRoomBounds room) = spec_roomWidth room"
  "b_height (getRoomBounds room) = spec_roomHeight room"
  by (simp_all add: getRoomBounds_def Let_def nullish_length spec_roomWidth_def
      spec_roomHeight_def)

lemma invalidDimension_mem:
  assumes "room \<in> set rooms"
    and "spec_roomWidth room \<le> 0 \<or> spec_roomHeight room \<le> 0"
  shows "invalidDimensionIssue room (getRoomBounds room) \<in> set (detectInvalidDimensions rooms)"
  using assms
  by (auto simp add: detectInvalidDimensions_def Let_def getRoomBounds_spec intro!: bexI [of _ room])

lemma validate_nonempty:
  "rooms \<noteq> [] \<Longrightarrow> floor_rooms (fp_floor floorPlan) = rooms \<Longrightarrow>
   validateFloorPlan floorPlan
     = detectInvalidDimensions rooms @ detectOverlaps rooms @ detectDuplicateWalls rooms"
  by (simp add: validateFloorPlan_def Let_def)

lemma roomStats_walls:
  "rs_walls (calculateRoomStats room defaults config)
     = map (\<lambda>side. calculateWallStats (wallOf room side) side defaults config) sides"
  by (simp add: calculateRoomStats_def Let_def)

lemma roomStats_floorArea:
  "rs_floorArea (calculateRoomStats room defaults config)
     = spec_roomWidth room * spec_roomHeight room / 10000"
  by (simp add: calculateRoomStats_def Let_def nullish_length spec_roomWidth_def
      spec_roomHeight_def cm2ToM2_def)

lemma roomStats_id: "rs_id (calculateRoomStats room defaults config) = room_id room"
  by (simp add: calculateRoomStats_def Let_def)

lemma side_in_sides: "side \<in> set sides"
  by (cases side) (simp_all add: sides_def)

lemma wall_of_no_length:
  assumes "spec_length wall \<le> 0" and "0 \<le> spec_height wall defaults"
    and "0 \<le> spec_openingsAreaCm2 wall defaults"
  shows "ws_area (calculateWallStats wall side defaults config) \<le> 0"
    and "ws_areaWithoutOpenings (calculateWallStats wall side defaults config) = 0"
proof -
  from assms(1,2) have g: "spec_length wall * spec_height wall defaults \<le> 0"
    by (simp add: mult_nonpos_nonneg)
  then show "ws_area (calculateWallStats wall side defaults config) \<le> 0"
    by (simp add: wallStats_areas(1) spec_grossArea_def resolveWall_spec)
  from g assms(3) show "ws_areaWithoutOpenings (calculateWallStats wall side defaults config) = 0"
    by (simp add: wallStats_areas(3) spec_grossArea_def resolveWall_spec max_def)
qed

lemma wallStats_netArea:
  "ws_areaWithoutOpenings (calculateWallStats wall side defaults config)
     = exactNetAreaCm2 wall defaults / 10000"
  by (simp add: wallStats_areas(3) spec_grossArea_def exactNetAreaCm2_def max_def field_simps)

lemma no_bricks: "brickUnitArea config \<noteq> 0 \<Longrightarrow> calculateBrickCount 0 config = Fin 0"
  by (simp add: calculateBrickCount_eq fdiv_zero fmul_zero)

lemma no_area_no_bricks:
  assumes "ws_areaWithoutOpenings (calculateWallStats wall side defaults config) = 0"
    and "brickUnitArea config \<noteq> 0"
  shows "ws_brickCount (calculateWallStats wall side defaults config) = Fin 0"
proof -
  from assms(1) have "exactNetAreaCm2 wall defaults = 0" by (simp add: wallStats_netArea)
  with assms(2) show ?thesis by (simp add: wallStats_brickCount no_bricks)
qed

text \<open>A plan of one room has no pair of rooms to compare.\<close>

lemma single_room_pairs:
  "detectOverlaps [room] = []" "detectDuplicateWalls [room] = []"
proof -
  show "detectOverlaps [room] = []" by (simp add: detectOverlaps_def Let_def)
  have "seg_roomId w = room_id room" if "w \<in> set (collectWalls [room])" for w
    using that by (auto simp add: collectWalls_def getWallSegment_def Let_def)
  then have "checkWallPair (collectWalls [room] ! k) (collectWalls [room] ! l) = []"
    if "k < length (collectWalls [room])" and "l < length (collectWalls [room])" for k l
    using that by (simp add: checkWallPair_def)
  then show "detectDuplicateWalls [room] = []"
    by (simp add: detectDuplicateWalls_def Let_def)
qed

lemma roomStats_brickCount:
  "rs_brickCount (calculateRoomStats room defaults config)
     = foldl (\<lambda>sum w. jadd sum (ws_brickCount w)) (Fin 0)
         (map (\<lambda>side. calculateWallStats (wallOf room side) side defaults config) sides)"
  by (simp add: calculateRoomStats_def Let_def)

lemma plainWall_netArea: "exactNetAreaCm2 (plainWall l) None = max 0 (l * 280)"
  by (simp add: exactNetAreaCm2_def spec_openingsAreaCm2_def resolveWall_def nullish_def
      plainWall_def DEFAULT_WALL_height_def)

text \<open>The bricks of a wall of 300 by 280 and of a wall of 400 by 280.\<close>

lemma plain_wall_bricks:
  "calculateBrickCount 84000 DEFAULT_ESTIMATE_CONFIG = Fin 294"
  "calculateBrickCount 112000 DEFAULT_ESTIMATE_CONFIG = Fin 392"
proof -
  have q1: "fdiv 84000 300 = 280" by (simp add: fdiv_def rnd_numeral)
  have p1: "fmul 280 (4728779608739021 / 4503599627370496) = 294"
    unfolding fmul_def by (subst rnd_eval [where k = 44]) (simp_all add: round_even_def)
  have q2: "fdiv 112000 300 = 6567749456581973 / 17592186044416"
    unfolding fdiv_def by (subst rnd_eval [where k = 44]) (simp_all add: round_even_def)
  have p2: "fmul (6567749456581973 / 17592186044416) (4728779608739021 / 4503599627370496)
              = 392"
    unfolding fmul_def by (subst rnd_eval [where k = 44]) (simp_all add: round_even_def)
  show "calculateBrickCount 84000 DEFAULT_ESTIMATE_CONFIG = Fin 294"
    by (simp only: calculateBrickCount_eq brickUnitArea_default wasteFactor_default q1 p1) simp
  show "calculateBrickCount 112000 DEFAULT_ESTIMATE_CONFIG = Fin 392"
    by (simp only: calculateBrickCount_eq brickUnitArea_default wasteFactor_default q2 p2) simp
qed

text \<open>
  Claim C6, amended. For every room of a plan whose effective width (the larger of the
  north and south lengths) or effective height (the larger of the east and west lengths)
  is 0 or negative, \<open>validateFloorPlan\<close> returns an invalid-dimension error naming that
  room. In \<open>calculateFloorPlanStats\<close> the room's floor area is effective width times
  effective height divided by 10 000, and every wall of the room whose own length is 0 or
  negative, whose resolved height is not negative and whose openings have a non-negative
  area has a gross area of at most 0, a net area of 0 and, when the brick unit area is
  not zero, a brick count of 0. Nothing is promised for the other walls of the room.
\<close>

theorem degenerate_room:
  "(i < length (floor_rooms (fp_floor floorPlan))
      \<and> (spec_roomWidth (floor_rooms (fp_floor floorPlan) ! i) \<le> 0
           \<or> spec_roomHeight (floor_rooms (fp_floor floorPlan) ! i) \<le> 0)
    \<longrightarrow> (let room = floor_rooms (fp_floor floorPlan) ! i;
             issue = invalidDimensionIssue room (getRoomBounds room)
         in issue \<in> set (validateFloorPlan floorPlan)
            \<and> issue_type issue = InvalidDimension \<and> issue_severity issue = Error
            \<and> issue_roomIds issue = [room_id room]))
   \<and> (i < length (floor_rooms (fp_floor floorPlan))
    \<longrightarrow> (let room = floor_rooms (fp_floor floorPlan) ! i;
             stats = ms_rooms (fps_measurements (calculateFloorPlanStats floorPlan config)) ! i;
             w = calculateWallStats (wallOf room side) side (fp_defaults floorPlan) config
         in rs_id stats = room_id room
            \<and> rs_floorArea stats = spec_roomWidth room * spec_roomHeight room / 10000
            \<and> w \<in> set (rs_walls stats)
            \<and> (spec_length (wallOf room side) \<le> 0
                 \<and> 0 \<le> spec_height (wallOf room side) (fp_defaults floorPlan)
                 \<and> 0 \<le> spec_openingsAreaCm2 (wallOf room side) (fp_defaults floorPlan)
               \<longrightarrow> ws_area w \<le> 0 \<and> ws_areaWithoutOpenings w = 0
                   \<and> (brickUnitArea config \<noteq> 0 \<longrightarrow> ws_brickCount w = Fin 0))))"
proof (intro conjI impI)
  assume h: "i < length (floor_rooms (fp_floor floorPlan))
      \<and> (spec_roomWidth (floor_rooms (fp_floor floorPlan) ! i) \<le> 0
           \<or> spec_roomHeight (floor_rooms (fp_floor floorPlan) ! i) \<le> 0)"
  then have m: "floor_rooms (fp_floor floorPlan) ! i \<in> set (floor_rooms (fp_floor floorPlan))"
    and ne: "floor_rooms (fp_floor floorPlan) \<noteq> []"
    by auto
  from h have "invalidDimensionIssue (floor_rooms (fp_floor floorPlan) ! i)
          (getRoomBounds (floor_rooms (fp_floor floorPlan) ! i))
        \<in> set (detectInvalidDimensions (floor_rooms (fp_floor floorPlan)))"
    by (intro invalidDimension_mem [OF m]) simp
  then show "let room = floor_rooms (fp_floor floorPlan) ! i;
             issue = invalidDimensionIssue room (getRoomBounds room)
         in issue \<in> set (validateFloorPlan floorPlan)
            \<and> issue_type issue = InvalidDimension \<and> issue_severity issue = Error
            \<and> issue_roomIds issue = [room_id room]"
    by (simp add: Let_def validate_nonempty [OF ne refl] invalidDimensionIssue_def)
next
  assume i: "i < length (floor_rooms (fp_floor floorPlan))"
  show "let room = floor_rooms (fp_floor floorPlan) ! i;
             stats = ms_rooms (fps_measurements (calculateFloorPlanStats floorPlan config)) ! i;
             w = calculateWallStats (wallOf room side) side (fp_defaults floorPlan) config
         in rs_id stats = room_id room
            \<and> rs_floorArea stats = spec_roomWidth room * spec_roomHeight room / 10000
            \<and> w \<in> set (rs_walls stats)
            \<and> (spec_length (wallOf room side) \<le> 0
                 \<and> 0 \<le> spec_height (wallOf room side) (fp_defaults floorPlan)
                 \<and> 0 \<le> spec_openingsAreaCm2 (wallOf room side) (fp_defaults floorPlan)
               \<longrightarrow> ws_area w \<le> 0 \<and> ws_areaWithoutOpenings w = 0
                   \<and> (brickUnitArea config \<noteq> 0 \<longrightarrow> ws_brickCount w = Fin 0))"
    using i side_in_sides [of side]
    by (auto simp add: Let_def stats_rooms roomStats_id roomStats_floorArea roomStats_walls
        wall_of_no_length no_area_no_bricks)
qed

text \<open>
  Claim C6, as stated, fails. The room \<open>lopsided_room\<close> has a north wall of length 0, a south
  wall of length 400 and east and west walls of length 300. Its effective width is 400:
  the validation of the plan holding it returns no issue at all, and the statistics give
  the room a floor area of 12 square metres and 980 bricks.
\<close>

theorem north_length_zero_counterexample:
  "spec_length (north (room_walls lopsided_room)) \<le> 0
   \<and> validateFloorPlan (planOf [lopsided_room]) = []
   \<and> rs_id (ms_rooms (fps_measurements
        (calculateFloorPlanStats (planOf [lopsided_room]) DEFAULT_ESTIMATE_CONFIG)) ! 0)
       = room_id lopsided_room
   \<and> rs_floorArea (ms_rooms (fps_measurements
        (calculateFloorPlanStats (planOf [lopsided_room]) DEFAULT_ESTIMATE_CONFIG)) ! 0) = 12
   \<and> rs_brickCount (ms_rooms (fps_measurements
        (calculateFloorPlanStats (planOf [lopsided_room]) DEFAULT_ESTIMATE_CONFIG)) ! 0)
       = Fin 980"
proof -
  let ?plan = "planOf [lopsided_room]"
  have r: "floor_rooms (fp_floor ?plan) = [lopsided_room]"
    and d: "fp_defaults ?plan = None"
    by (simp_all add: planOf_def)
  have w: "room_walls lopsided_room
             = \<lparr> north = plainWall 0, east = plainWall 300, south = plainWall 400,
                 west = plainWall 300 \<rparr>"
    by (simp add: lopsided_room_def plainRoom_def)
  have n: "spec_length (north (room_walls lopsided_room)) \<le> 0"
    by (simp add: w spec_length_def plainWall_def)
  have i: "detectInvalidDimensions [lopsided_room] = []"
    by (simp add: detectInvalidDimensions_def Let_def getRoomBounds_spec spec_roomWidth_def
        spec_roomHeight_def spec_length_def w plainWall_def)
  have v: "validateFloorPlan ?plan = []"
    by (simp add: validate_nonempty [OF _ r] i single_room_pairs)
  have s: "ms_rooms (fps_measurements (calculateFloorPlanStats ?plan DEFAULT_ESTIMATE_CONFIG)) ! 0
             = calculateRoomStats lopsided_room None DEFAULT_ESTIMATE_CONFIG"
    by (simp add: stats_rooms r d)
  have a: "rs_floorArea (calculateRoomStats lopsided_room None DEFAULT_ESTIMATE_CONFIG) = 12"
    by (simp add: roomStats_floorArea spec_roomWidth_def spec_roomHeight_def spec_length_def w
        plainWall_def)
  have e: "wall_exists (plainWall l) \<noteq> Some False" for l by (simp add: plainWall_def)
  have b: "rs_brickCount (calculateRoomStats lopsided_room None DEFAULT_ESTIMATE_CONFIG)
             = Fin 980"
    by (simp add: roomStats_brickCount sides_def w wallStats_brickCount e
        plainWall_netArea plain_wall_bricks no_bricks brickUnitArea_default fadd_def rnd_zero
        rnd_numeral)
  from n v a b show ?thesis by (simp add: s roomStats_id)
qed

text \<open>
  The amended claim C6 at the room \<open>flat_room\<close>, whose north and south walls both have
  length 0.
\<close>

theorem degenerate_room_witness:
  "0 < length (floor_rooms (fp_floor (planOf [flat_room])))
   \<and> spec_roomWidth flat_room \<le> 0
   \<and> invalidDimensionIssue flat_room (getRoomBounds flat_room)
       \<in> set (validateFloorPlan (planOf [flat_room]))
   \<and> spec_length (north (room_walls flat_room)) \<le> 0
   \<and> 0 \<le> spec_height (north (room_walls flat_room)) None
   \<and> 0 \<le> spec_openingsAreaCm2 (north (room_walls flat_room)) None
   \<and> brickUnitArea DEFAULT_ESTIMATE_CONFIG \<noteq> 0
   \<and> ws_area (calculateWallStats (north (room_walls flat_room)) North None
                 DEFAULT_ESTIMATE_CONFIG) \<le> 0
   \<and> ws_areaWithoutOpenings (calculateWallStats (north (room_walls flat_room)) North None
                                DEFAULT_ESTIMATE_CONFIG) = 0
   \<and> ws_brickCount (calculateWallStats (north (room_walls flat_room)) North None
                       DEFAULT_ESTIMATE_CONFIG) = Fin 0"
proof -
  have r: "floor_rooms (fp_floor (planOf [flat_room])) = [flat_room]"
    and d: "fp_defaults (planOf [flat_room]) = None"
    by (simp_all add: planOf_def)
  have h1: "0 < length (floor_rooms (fp_floor (planOf [flat_room])))
      \<and> (spec_roomWidth (floor_rooms (fp_floor (planOf [flat_room])) ! 0) \<le> 0
           \<or> spec_roomHeight (floor_rooms (fp_floor (planOf [flat_room])) ! 0) \<le> 0)"
    by code_simp
  have h2: "spec_length (north (room_walls flat_room)) \<le> 0
   \<and> 0 \<le> spec_height (north (room_walls flat_room)) None
   \<and> 0 \<le> spec_openingsAreaCm2 (north (room_walls flat_room)) None
   \<and> brickUnitArea DEFAULT_ESTIMATE_CONFIG \<noteq> 0
   \<and> spec_roomWidth flat_room \<le> 0"
    by (simp add: brickUnitArea_default spec_length_def spec_height_def
        spec_defaults_wall_height_def spec_openingsAreaCm2_def resolveWall_def nullish_def
        spec_roomWidth_def flat_room_def plainRoom_def plainWall_def)
  note t = degenerate_room [where i = 0 and floorPlan = "planOf [flat_room]" and side = North
      and config = DEFAULT_ESTIMATE_CONFIG]
  from t [THEN conjunct1, THEN mp, OF h1] t [THEN conjunct2] h2 show ?thesis
    by (simp add: Let_def r d)
qed

section \<open>Filtering the issues of a nested loop\<close>

lemma filter_concat_map_none:
  "(\<And>x. x \<in> set xs \<Longrightarrow> filter P (f x) = []) \<Longrightarrow> filter P (concat (map f xs)) = []"
  by (induction xs) simp_all

lemma filter_concat_map_one:
  assumes "distinct xs" and "x0 \<in> set xs"
    and "\<And>x. x \<in> set xs \<Longrightarrow> x \<noteq> x0 \<Longrightarrow> filter P (f x) = []"
  shows "filter P (concat (map f xs)) = filter P (f x0)"
  using assms
proof (induction xs)
  case Nil
  then show ?case by simp
next
  case (Cons x xs)
  show ?case
  proof (cases "x = x0")
    case True
    with Cons.prems have "\<And>y. y \<in> set xs \<Longrightarrow> filter P (f y) = []" by auto
    then have "filter P (concat (map f xs)) = []" by (rule filter_concat_map_none)
    with True show ?thesis by simp
  next
    case False
    with Cons.prems have "x0 \<in> set xs" and "filter P (f x) = []" and "distinct xs" by auto
    with Cons.IH Cons.prems(3) show ?thesis by simp
  qed
qed

lemma filter_nested_loop:
  assumes "i0 < j0" and "j0 < n"
    and "\<And>i j. i < j \<Longrightarrow> j < n \<Longrightarrow> (i, j) \<noteq> (i0, j0) \<Longrightarrow> filter P (g i j) = []"
  shows "filter P (concat (map (\<lambda>i. concat (map (g i) [i + 1 ..< n])) [0 ..< n]))
           = filter P (g i0 j0)"
proof -
  have inner: "filter P (concat (map (g i0) [i0 + 1 ..< n])) = filter P (g i0 j0)"
  proof (rule filter_concat_map_one)
    show "distinct [i0 + 1 ..< n]" by simp
    show "j0 \<in> set [i0 + 1 ..< n]" using assms by simp
    fix j assume "j \<in> set [i0 + 1 ..< n]" and "j \<noteq> j0"
    then show "filter P (g i0 j) = []" using assms(3) [of i0 j] by simp
  qed
  have "filter P (concat (map (\<lambda>i. concat (map (g i) [i + 1 ..< n])) [0 ..< n]))
          = filter P (concat (map (g i0) [i0 + 1 ..< n]))"
  proof (rule filter_concat_map_one)
    show "distinct [0 ..< n]" by simp
    show "i0 \<in> set [0 ..< n]" using assms by simp
    fix i assume i: "i \<in> set [0 ..< n]" and ne: "i \<noteq> i0"
    show "filter P (concat (map (g i) [i + 1 ..< n])) = []"
    proof (rule filter_concat_map_none)
      fix j assume "j \<in> set [i + 1 ..< n]"
      then show "filter P (g i j) = []" using assms(3) [of i j] ne by simp
    qed
  qed
  with inner show ?thesis by simp
qed

lemma rectanglesOverlap_spec:
  "rectanglesOverlap (getRoomBounds r1) (getRoomBounds r2)
     = (if js_boxesOverlap r1 r2 then Some (js_intersection r1 r2) else None)"
  by (simp add: rectanglesOverlap_def Let_def getRoomBounds_spec js_boxesOverlap_def
      js_intersection_def)

lemma issue_types:
  "x \<in> set (detectInvalidDimensions rooms) \<Longrightarrow> issue_type x = InvalidDimension"
  "y \<in> set (detectOverlaps rooms) \<Longrightarrow> issue_type y = Overlap"
  "z \<in> set (detectDuplicateWalls rooms) \<Longrightarrow> issue_type z = DuplicateWall"
  by (auto simp add: detectInvalidDimensions_def detectOverlaps_def detectDuplicateWalls_def
      Let_def invalidDimensionIssue_def overlapIssue_def duplicateWallIssue_def checkWallPair_def
      split: if_splits option.splits)

lemma filter_by_type:
  assumes "\<And>x. P x \<Longrightarrow> issue_type x = ty"
  shows "ty \<noteq> InvalidDimension \<Longrightarrow> filter P (detectInvalidDimensions rooms) = []"
    and "ty \<noteq> Overlap \<Longrightarrow> filter P (detectOverlaps rooms) = []"
    and "ty \<noteq> DuplicateWall \<Longrightarrow> filter P (detectDuplicateWalls rooms) = []"
  using assms issue_types by (fastforce simp add: filter_empty_conv)+

section \<open>Overlapping rooms\<close>

lemma room_id_inj:
  assumes "distinct (map room_id rooms)" and "k < length rooms" and "l < length rooms"
    and "room_id (rooms ! k) = room_id (rooms ! l)"
  shows "k = l"
proof -
  from assms(2,3,4) have "map room_id rooms ! k = map room_id rooms ! l" by simp
  with assms(1,2,3) nth_eq_iff_index_eq [of "map room_id rooms" k l] show ?thesis by simp
qed

text \<open>The body of the inner loop of \<open>detectOverlaps\<close>, on the rooms themselves.\<close>

lemma overlap_body:
  "(case rectanglesOverlap (getRoomBounds r1) (getRoomBounds r2) of
      Some overlap \<Rightarrow> [overlapIssue (getRoomBounds r1) (getRoomBounds r2) overlap]
    | None \<Rightarrow> [])
   = (if js_boxesOverlap r1 r2
      then [overlapIssue (getRoomBounds r1) (getRoomBounds r2) (js_intersection r1 r2)]
      else [])"
  by (simp add: rectanglesOverlap_spec)

lemma overlapIssue_roomIds:
  "issue_roomIds (overlapIssue (getRoomBounds r1) (getRoomBounds r2) ov) = [room_id r1, room_id r2]"
  "issue_type (overlapIssue b1 b2 ov) = Overlap"
  by (simp_all add: overlapIssue_def getRoomBounds_spec)

lemma detectOverlaps_pair:
  assumes d: "distinct (map room_id rooms)" and ij: "i < j" and jn: "j < length rooms"
  shows "overlapErrorsOf (detectOverlaps rooms) (rooms ! i) (rooms ! j)
           = (if js_boxesOverlap (rooms ! i) (rooms ! j)
              then [overlapIssue (getRoomBounds (rooms ! i)) (getRoomBounds (rooms ! j))
                      (js_intersection (rooms ! i) (rooms ! j))]
              else [])"
proof -
  let ?P = "\<lambda>issue. issue_type issue = Overlap
                      \<and> set (issue_roomIds issue) = {room_id (rooms ! i), room_id (rooms ! j)}"
  let ?g = "\<lambda>k l. (case rectanglesOverlap (map getRoomBounds rooms ! k) (map getRoomBounds rooms ! l) of
              Some overlap \<Rightarrow> [overlapIssue (map getRoomBounds rooms ! k) (map getRoomBounds rooms ! l) overlap]
            | None \<Rightarrow> [])"
  have other: "filter ?P (?g k l) = []"
    if kl: "k < l" and ln: "l < length (map getRoomBounds rooms)" and ne: "(k, l) \<noteq> (i, j)" for k l
  proof -
    from kl ln have k: "k < length rooms" and l: "l < length rooms" by simp_all
    from ij jn have i: "i < length rooms" by simp
    have "\<not> ?P x" if x: "x \<in> set (?g k l)" for x
    proof
      assume p: "?P x"
      from x have "x \<in> set (if js_boxesOverlap (rooms ! k) (rooms ! l)
          then [overlapIssue (getRoomBounds (rooms ! k)) (getRoomBounds (rooms ! l))
                  (js_intersection (rooms ! k) (rooms ! l))] else [])"
        by (simp only: nth_map [OF k] nth_map [OF l] overlap_body)
      then have "issue_roomIds x = [room_id (rooms ! k), room_id (rooms ! l)]"
        by (auto simp add: overlapIssue_roomIds split: if_splits)
      with p have s: "{room_id (rooms ! k), room_id (rooms ! l)}
                       = {room_id (rooms ! i), room_id (rooms ! j)}" by simp
      then consider "room_id (rooms ! k) = room_id (rooms ! i) \<and> room_id (rooms ! l) = room_id (rooms ! j)"
        | "room_id (rooms ! k) = room_id (rooms ! j) \<and> room_id (rooms ! l) = room_id (rooms ! i)"
        by (auto simp add: doubleton_eq_iff)
      then show False
      proof cases
        case 1
        then have "k = i" and "l = j"
          using room_id_inj [OF d k i] room_id_inj [OF d l jn] by simp_all
        with ne show False by simp
      next
        case 2
        then have "k = j" and "l = i"
          using room_id_inj [OF d k jn] room_id_inj [OF d l i] by simp_all
        with kl ij show False by simp
      qed
    qed
    then show ?thesis by (simp add: filter_empty_conv)
  qed
  from jn have jn': "j < length (map getRoomBounds rooms)" by simp
  have "filter ?P (concat (map (\<lambda>k. concat (map (?g k) [k + 1 ..< length (map getRoomBounds rooms)]))
                       [0 ..< length (map getRoomBounds rooms)]))
          = filter ?P (?g i j)"
    by (rule filter_nested_loop [OF ij jn' other])
  moreover have "filter ?P (?g i j)
      = (if js_boxesOverlap (rooms ! i) (rooms ! j)
              then [overlapIssue (getRoomBounds (rooms ! i)) (getRoomBounds (rooms ! j))
                      (js_intersection (rooms ! i) (rooms ! j))]
              else [])"
  proof -
    from ij jn have i: "i < length rooms" by simp
    show ?thesis
      by (simp only: nth_map [OF i] nth_map [OF jn] overlap_body)
        (simp add: overlapIssue_roomIds)
  qed
  ultimately show ?thesis
    by (simp add: overlapErrorsOf_def detectOverlaps_def Let_def)
qed

lemma overlapErrorsOf_validate:
  "floor_rooms (fp_floor floorPlan) = rooms \<Longrightarrow>
   overlapErrorsOf (validateFloorPlan floorPlan) r1 r2 = overlapErrorsOf (detectOverlaps rooms) r1 r2"
proof (cases "rooms = []")
  case True
  assume "floor_rooms (fp_floor floorPlan) = rooms"
  with True show ?thesis
    by (simp add: validateFloorPlan_def overlapErrorsOf_def detectOverlaps_def)
next
  case False
  assume r: "floor_rooms (fp_floor floorPlan) = rooms"
  let ?P = "\<lambda>issue. issue_type issue = Overlap \<and> set (issue_roomIds issue) = {room_id r1, room_id r2}"
  have a: "filter ?P (detectInvalidDimensions rooms) = []"
    by (rule filter_by_type(1) [where ty = Overlap]) simp_all
  have b: "filter ?P (detectDuplicateWalls rooms) = []"
    by (rule filter_by_type(3) [where ty = Overlap]) simp_all
  show ?thesis
    by (simp add: validate_nonempty [OF False r] overlapErrorsOf_def a b)
qed

lemma overlaps_of_validate:
  "floor_rooms (fp_floor floorPlan) = rooms \<Longrightarrow>
   filter (\<lambda>issue. issue_type issue = Overlap) (validateFloorPlan floorPlan) = detectOverlaps rooms"
proof (cases "rooms = []")
  case True
  assume "floor_rooms (fp_floor floorPlan) = rooms"
  with True show ?thesis
    by (simp add: validateFloorPlan_def detectOverlaps_def)
next
  case False
  assume r: "floor_rooms (fp_floor floorPlan) = rooms"
  let ?P = "\<lambda>issue. issue_type issue = Overlap"
  have a: "filter ?P (detectInvalidDimensions rooms) = []"
    by (rule filter_by_type(1) [where ty = Overlap]) simp_all
  have b: "filter ?P (detectDuplicateWalls rooms) = []"
    by (rule filter_by_type(3) [where ty = Overlap]) simp_all
  have c: "filter ?P (detectOverlaps rooms) = detectOverlaps rooms"
    by (simp add: issue_types(2))
  show ?thesis
    by (simp add: validate_nonempty [OF False r] a b c)
qed

lemma detectOverlaps_two:
  "detectOverlaps [r1, r2]
     = (if js_boxesOverlap r1 r2
        then [overlapIssue (getRoomBounds r1) (getRoomBounds r2) (js_intersection r1 r2)]
        else [])"
proof -
  have u: "[0 ..< 2] = [0, Suc 0]" "[Suc 0 ..< 2] = [Suc 0]" "[2 ..< 2] = ([] :: nat list)"
    by (simp_all add: upt_rec)
  show ?thesis
    by (simp add: detectOverlaps_def Let_def u rectanglesOverlap_spec)
qed

lemma detectOverlaps_spec:
  "detectOverlaps rooms
     = concat (map (\<lambda>i. concat (map (\<lambda>j.
         if js_boxesOverlap (rooms ! i) (rooms ! j)
         then [overlapIssue (getRoomBounds (rooms ! i)) (getRoomBounds (rooms ! j))
                 (js_intersection (rooms ! i) (rooms ! j))]
         else []) [i + 1 ..< length rooms])) [0 ..< length rooms])"
proof -
  have "(case rectanglesOverlap (map getRoomBounds rooms ! i) (map getRoomBounds rooms ! j) of
           Some overlap \<Rightarrow>
             [overlapIssue (map getRoomBounds rooms ! i) (map getRoomBounds rooms ! j) overlap]
         | None \<Rightarrow> [])
        = (if js_boxesOverlap (rooms ! i) (rooms ! j)
           then [overlapIssue (getRoomBounds (rooms ! i)) (getRoomBounds (rooms ! j))
                   (js_intersection (rooms ! i) (rooms ! j))]
           else [])"
    if "i < length rooms" and "j < length rooms" for i j
    by (simp only: nth_map [OF that(1)] nth_map [OF that(2)] overlap_body)
  then show ?thesis
    unfolding detectOverlaps_def Let_def length_map
    by (intro arg_cong [where f = concat] map_cong refl) simp_all
qed

text \<open>
  The rooms of \<open>strip_plan\<close>. The first is at \<open>x = 1\<close> and as wide as the double nearest to
  1.2, so that its right edge, rounded, is the double nearest to 2.2, which is above the
  exact sum; the second is at the double nearest to 1.2.
\<close>

lemma strip_rooms:
  "room_position narrow_room = \<lparr> pos_x = 1, pos_y = 0 \<rparr>"
  "room_position shifted_room = \<lparr> pos_x = 5404319552844595 / 4503599627370496, pos_y = 0 \<rparr>"
  "spec_roomWidth narrow_room = 5404319552844595 / 4503599627370496"
  "spec_roomHeight narrow_room = 10"
  "spec_roomWidth shifted_room = 10"
  "spec_roomHeight shifted_room = 10"
  "room_id narrow_room = ''a''"
  "room_id shifted_room = ''b''"
  unfolding narrow_room_def shifted_room_def rnd_12
  by (simp_all add: plainRoom_def plainWall_def spec_roomWidth_def spec_roomHeight_def
      spec_length_def)

lemma strip_sums:
  "fadd 1 (5404319552844595 / 4503599627370496) = 2476979795053773 / 1125899906842624"
  "fadd (5404319552844595 / 4503599627370496) 10 = 3152519739159347 / 281474976710656"
  "fsub (2476979795053773 / 1125899906842624) (5404319552844595 / 4503599627370496)
     = 4503599627370497 / 4503599627370496"
  "fadd 0 10 = 10" "fsub 10 0 = 10"
proof -
  show "fadd 1 (5404319552844595 / 4503599627370496) = 2476979795053773 / 1125899906842624"
    unfolding fadd_def by (subst rnd_eval [where k = 51]) (simp_all add: round_even_def)
  show "fadd (5404319552844595 / 4503599627370496) 10 = 3152519739159347 / 281474976710656"
    unfolding fadd_def by (subst rnd_eval [where k = 49]) (simp_all add: round_even_def)
  show "fsub (2476979795053773 / 1125899906842624) (5404319552844595 / 4503599627370496)
     = 4503599627370497 / 4503599627370496"
    unfolding fsub_def by (subst rnd_eval [where k = 52]) (simp_all add: round_even_def)
  show "fadd 0 10 = 10" "fsub 10 0 = 10"
    by (simp_all add: float_ops rnd_numeral)
qed

text \<open>
  Claim C4, as stated, fails. The boxes of the two rooms of \<open>strip_plan\<close> have an
  intersection exactly 1 wide and 10 high, which does not exceed 1 in width: the claim
  promises no overlap error. The code adds \<open>1\<close> and the width of the first room in doubles,
  finds a width of \<open>1.0000000000000002\<close> and returns an overlap error.
\<close>

theorem overlap_rounding_counterexample:
  "rect_width (spec_intersection narrow_room shifted_room) = 1
   \<and> rect_height (spec_intersection narrow_room shifted_room) = 10
   \<and> \<not> spec_boxesOverlap narrow_room shifted_room
   \<and> floor_rooms (fp_floor strip_plan) = [narrow_room, shifted_room]
   \<and> filter (\<lambda>issue. issue_type issue = Overlap) (validateFloorPlan strip_plan)
       = [overlapIssue (getRoomBounds narrow_room) (getRoomBounds shifted_room)
            \<lparr> rect_x = 5404319552844595 / 4503599627370496, rect_y = 0,
              rect_width = 4503599627370497 / 4503599627370496, rect_height = 10 \<rparr>]"
proof -
  have r: "floor_rooms (fp_floor strip_plan) = [narrow_room, shifted_room]"
    by (simp add: strip_plan_def planOf_def)
  have e: "spec_intersection narrow_room shifted_room
             = \<lparr> rect_x = 5404319552844595 / 4503599627370496, rect_y = 0, rect_width = 1,
                 rect_height = 10 \<rparr>"
    by (simp add: spec_intersection_def Let_def strip_rooms)
  have i: "js_intersection narrow_room shifted_room
             = \<lparr> rect_x = 5404319552844595 / 4503599627370496, rect_y = 0,
                 rect_width = 4503599627370497 / 4503599627370496, rect_height = 10 \<rparr>"
    by (simp add: js_intersection_def Let_def strip_rooms strip_sums)
  then have o: "js_boxesOverlap narrow_room shifted_room" by (simp add: js_boxesOverlap_def)
  have v: "filter (\<lambda>issue. issue_type issue = Overlap) (validateFloorPlan strip_plan)
       = [overlapIssue (getRoomBounds narrow_room) (getRoomBounds shifted_room)
            \<lparr> rect_x = 5404319552844595 / 4503599627370496, rect_y = 0,
              rect_width = 4503599627370497 / 4503599627370496, rect_height = 10 \<rparr>]"
    by (simp add: overlaps_of_validate [OF r] detectOverlaps_two o i)
  from e r v show ?thesis by (simp add: spec_boxesOverlap_def)
qed

text \<open>
  Claim C4, amended: the edges of the boxes and the width and the height of the
  intersection are computed in the arithmetic of doubles. The overlap errors of
  \<open>validateFloorPlan\<close> are, in the order of the pairs \<open>k < l\<close> of positions in the room list,
  one error for each pair of rooms whose bounding boxes have an intersection whose width
  and height, each the rounded difference of two edges, the right and bottom edges being
  rounded sums, both exceed 1, carrying that intersection rectangle, and nothing for any
  other pair. In a plan whose room identifiers are distinct, the overlap errors that name
  exactly the rooms at the positions \<open>i < j\<close> are therefore that one error when the two
  boxes overlap in this sense, and none otherwise. For every plan of two rooms of 300 by
  300 at (0, 0) and (200, 0), the overlap errors of the validation are exactly one, with
  the rectangle x = 200, y = 0, width = 100, height = 300.
\<close>

theorem overlap_errors:
  "filter (\<lambda>issue. issue_type issue = Overlap) (validateFloorPlan floorPlan)
     = concat (map (\<lambda>k. concat (map (\<lambda>l.
         if js_boxesOverlap (floor_rooms (fp_floor floorPlan) ! k)
              (floor_rooms (fp_floor floorPlan) ! l)
         then [overlapIssue (getRoomBounds (floor_rooms (fp_floor floorPlan) ! k))
                 (getRoomBounds (floor_rooms (fp_floor floorPlan) ! l))
                 (js_intersection (floor_rooms (fp_floor floorPlan) ! k)
                    (floor_rooms (fp_floor floorPlan) ! l))]
         else []) [k + 1 ..< length (floor_rooms (fp_floor floorPlan))]))
       [0 ..< length (floor_rooms (fp_floor floorPlan))])
   \<and> (distinct (map room_id (floor_rooms (fp_floor floorPlan)))
      \<and> i < j \<and> j < length (floor_rooms (fp_floor floorPlan))
    \<longrightarrow> (let ri = floor_rooms (fp_floor floorPlan) ! i;
             rj = floor_rooms (fp_floor floorPlan) ! j;
             issue = overlapIssue (getRoomBounds ri) (getRoomBounds rj) (js_intersection ri rj)
         in overlapErrorsOf (validateFloorPlan floorPlan) ri rj
              = (if js_boxesOverlap ri rj then [issue] else [])
            \<and> issue_severity issue = Error
            \<and> issue_roomIds issue = [room_id ri, room_id rj]
            \<and> Option.bind (issue_details issue) det_overlapArea = Some (js_intersection ri rj)))
   \<and> (floor_rooms (fp_floor twoRoomPlan) = [roomA, roomB]
        \<and> room_position roomA = \<lparr> pos_x = 0, pos_y = 0 \<rparr>
        \<and> room_position roomB = \<lparr> pos_x = 200, pos_y = 0 \<rparr>
        \<and> spec_roomWidth roomA = 300 \<and> spec_roomHeight roomA = 300
        \<and> spec_roomWidth roomB = 300 \<and> spec_roomHeight roomB = 300
      \<longrightarrow> filter (\<lambda>issue. issue_type issue = Overlap) (validateFloorPlan twoRoomPlan)
            = [overlapIssue (getRoomBounds roomA) (getRoomBounds roomB)
                 \<lparr> rect_x = 200, rect_y = 0, rect_width = 100, rect_height = 300 \<rparr>])"
proof (intro conjI impI)
  show "filter (\<lambda>issue. issue_type issue = Overlap) (validateFloorPlan floorPlan)
     = concat (map (\<lambda>k. concat (map (\<lambda>l.
         if js_boxesOverlap (floor_rooms (fp_floor floorPlan) ! k)
              (floor_rooms (fp_floor floorPlan) ! l)
         then [overlapIssue (getRoomBounds (floor_rooms (fp_floor floorPlan) ! k))
                 (getRoomBounds (floor_rooms (fp_floor floorPlan) ! l))
                 (js_intersection (floor_rooms (fp_floor floorPlan) ! k)
                    (floor_rooms (fp_floor floorPlan) ! l))]
         else []) [k + 1 ..< length (floor_rooms (fp_floor floorPlan))]))
       [0 ..< length (floor_rooms (fp_floor floorPlan))])"
    by (simp only: overlaps_of_validate [OF refl] detectOverlaps_spec)
next
  assume h: "distinct (map room_id (floor_rooms (fp_floor floorPlan)))
      \<and> i < j \<and> j < length (floor_rooms (fp_floor floorPlan))"
  then have d: "distinct (map room_id (floor_rooms (fp_floor floorPlan)))"
    and ij: "i < j" and jn: "j < length (floor_rooms (fp_floor floorPlan))" by simp_all
  show "let ri = floor_rooms (fp_floor floorPlan) ! i;
             rj = floor_rooms (fp_floor floorPlan) ! j;
             issue = overlapIssue (getRoomBounds ri) (getRoomBounds rj) (js_intersection ri rj)
         in overlapErrorsOf (validateFloorPlan floorPlan) ri rj
              = (if js_boxesOverlap ri rj then [issue] else [])
            \<and> issue_severity issue = Error
            \<and> issue_roomIds issue = [room_id ri, room_id rj]
            \<and> Option.bind (issue_details issue) det_overlapArea = Some (js_intersection ri rj)"
    using detectOverlaps_pair [OF d ij jn]
    by (simp add: Let_def overlapErrorsOf_validate [OF refl] overlapIssue_roomIds)
      (simp add: overlapIssue_def)
next
  assume h: "floor_rooms (fp_floor twoRoomPlan) = [roomA, roomB]
        \<and> room_position roomA = \<lparr> pos_x = 0, pos_y = 0 \<rparr>
        \<and> room_position roomB = \<lparr> pos_x = 200, pos_y = 0 \<rparr>
        \<and> spec_roomWidth roomA = 300 \<and> spec_roomHeight roomA = 300
        \<and> spec_roomWidth roomB = 300 \<and> spec_roomHeight roomB = 300"
  then have r: "floor_rooms (fp_floor twoRoomPlan) = [roomA, roomB]" by simp
  from h have i: "js_intersection roomA roomB
       = \<lparr> rect_x = 200, rect_y = 0, rect_width = 100, rect_height = 300 \<rparr>"
    by (simp add: js_intersection_def Let_def float_ops rnd_numeral)
  then have o: "js_boxesOverlap roomA roomB" by (simp add: js_boxesOverlap_def)
  show "filter (\<lambda>issue. issue_type issue = Overlap) (validateFloorPlan twoRoomPlan)
            = [overlapIssue (getRoomBounds roomA) (getRoomBounds roomB)
                 \<lparr> rect_x = 200, rect_y = 0, rect_width = 100, rect_height = 300 \<rparr>]"
    by (simp add: overlaps_of_validate [OF r] detectOverlaps_two o i)
qed

text \<open>The amended claim C4 at the plan \<open>overlapping_plan\<close>, whose rooms are \<open>a\<close> and \<open>b\<close>.\<close>

theorem overlap_errors_witness:
  "distinct (map room_id (floor_rooms (fp_floor overlapping_plan)))
   \<and> (0 :: nat) < 1 \<and> 1 < length (floor_rooms (fp_floor overlapping_plan))
   \<and> floor_rooms (fp_floor overlapping_plan) = [west_room, east_room]
   \<and> room_position west_room = \<lparr> pos_x = 0, pos_y = 0 \<rparr>
   \<and> room_position east_room = \<lparr> pos_x = 200, pos_y = 0 \<rparr>
   \<and> spec_roomWidth west_room = 300 \<and> spec_roomHeight west_room = 300
   \<and> spec_roomWidth east_room = 300 \<and> spec_roomHeight east_room = 300
   \<and> js_boxesOverlap west_room east_room
   \<and> overlapErrorsOf (validateFloorPlan overlapping_plan) west_room east_room
       = [overlapIssue (getRoomBounds west_room) (getRoomBounds east_room)
            \<lparr> rect_x = 200, rect_y = 0, rect_width = 100, rect_height = 300 \<rparr>]
   \<and> filter (\<lambda>issue. issue_type issue = Overlap) (validateFloorPlan overlapping_plan)
       = [overlapIssue (getRoomBounds west_room) (getRoomBounds east_room)
            \<lparr> rect_x = 200, rect_y = 0, rect_width = 100, rect_height = 300 \<rparr>]"
proof -
  have r: "floor_rooms (fp_floor overlapping_plan) = [west_room, east_room]"
    by (simp add: overlapping_plan_def planOf_def)
  have h1: "distinct (map room_id (floor_rooms (fp_floor overlapping_plan)))
      \<and> (0 :: nat) < 1 \<and> 1 < length (floor_rooms (fp_floor overlapping_plan))"
    by (simp add: r west_room_def east_room_def plainRoom_def)
  have h2: "floor_rooms (fp_floor overlapping_plan) = [west_room, east_room]
        \<and> room_position west_room = \<lparr> pos_x = 0, pos_y = 0 \<rparr>
        \<and> room_position east_room = \<lparr> pos_x = 200, pos_y = 0 \<rparr>
        \<and> spec_roomWidth west_room = 300 \<and> spec_roomHeight west_room = 300
        \<and> spec_roomWidth east_room = 300 \<and> spec_roomHeight east_room = 300"
    by (simp add: r west_room_def east_room_def plainRoom_def plainWall_def spec_roomWidth_def
        spec_roomHeight_def spec_length_def)
  then have i: "js_intersection west_room east_room
       = \<lparr> rect_x = 200, rect_y = 0, rect_width = 100, rect_height = 300 \<rparr>"
    by (simp add: js_intersection_def Let_def float_ops rnd_numeral)
  then have o: "js_boxesOverlap west_room east_room" by (simp add: js_boxesOverlap_def)
  note t = overlap_errors [where floorPlan = overlapping_plan and i = 0 and j = 1
      and twoRoomPlan = overlapping_plan and roomA = west_room and roomB = east_room]
  from t [THEN conjunct2, THEN conjunct1, THEN mp, OF h1]
    t [THEN conjunct2, THEN conjunct2, THEN mp, OF h2] h1 h2 o
  show ?thesis
    by (simp add: Let_def r i)
qed

section \<open>Duplicate walls\<close>

lemma getWallSegment_fields:
  "seg_roomId (getWallSegment room side) = room_id room"
  "seg_side (getWallSegment room side) = side"
  "seg_exists (getWallSegment room side) = spec_exists (wallOf room side)"
  by (simp_all add: getWallSegment_def Let_def spec_exists_def split: option.splits)

lemma getWallSegment_coords:
  "seg_x1 (getWallSegment room side)
     = (case side of East \<Rightarrow> fadd (pos_x (room_position room)) (spec_roomWidth room)
        | _ \<Rightarrow> pos_x (room_position room))"
  "seg_y1 (getWallSegment room side)
     = (case side of South \<Rightarrow> fadd (pos_y (room_position room)) (spec_roomHeight room)
        | _ \<Rightarrow> pos_y (room_position room))"
  "seg_x2 (getWallSegment room side)
     = (case side of West \<Rightarrow> pos_x (room_position room)
        | _ \<Rightarrow> fadd (pos_x (room_position room)) (spec_roomWidth room))"
  "seg_y2 (getWallSegment room side)
     = (case side of North \<Rightarrow> pos_y (room_position room)
        | _ \<Rightarrow> fadd (pos_y (room_position room)) (spec_roomHeight room))"
  by (cases side; simp add: getWallSegment_def Let_def getRoomBounds_spec)+

text \<open>Two intervals of which one ends where the other starts, or before, have no common part.\<close>

lemma no_common_part: "a \<le> b \<Longrightarrow> \<not> 1 < fsub a b"
  using fsub_nonpos [of a b] by simp

text \<open>
  The code takes the orientation of a segment from its coordinates: an east or west wall
  whose two ends have the same \<open>y\<close> counts as horizontal. Such a segment is a point, and so
  has no common part with any segment: the test agrees with the one that takes the
  orientation from the side.
\<close>

lemma wallsOverlap_js:
  "wallsOverlap (getWallSegment r1 s1) (getWallSegment r2 s2)
     = (spec_horizontal s1 = spec_horizontal s2
        \<and> \<bar>fsub (js_fixedCoordinate r1 s1) (js_fixedCoordinate r2 s2)\<bar> \<le> 1
        \<and> js_rangeOverlap (js_range r1 s1) (js_range r2 s2) > 1)"
  by (cases s1; cases s2;
      simp add: wallsOverlap_def Let_def spec_horizontal_def js_fixedCoordinate_def
        js_range_def js_rangeOverlap_def getWallSegment_coords;
      (auto simp add: no_common_part min_def max_def)?)

lemma sideIndex_less: "sideIndex side < 4"
  by (cases side) simp_all

lemma sides_nth: "sides ! sideIndex side = side"
  by (cases side) (simp_all add: sides_def)

lemma collectWalls_Cons:
  "collectWalls (room # rooms) = map (getWallSegment room) sides @ collectWalls rooms"
  by (simp add: collectWalls_def)

lemma collectWalls_length: "length (collectWalls rooms) = 4 * length rooms"
  by (induction rooms) (simp_all add: collectWalls_Cons, simp add: collectWalls_def, simp add: sides_def)

lemma collectWalls_nth:
  "a < length rooms \<Longrightarrow>
   collectWalls rooms ! (4 * a + sideIndex side) = getWallSegment (rooms ! a) side"
proof (induction rooms arbitrary: a)
  case Nil
  then show ?case by simp
next
  case (Cons room rooms)
  have l: "length (map (getWallSegment room) sides) = 4" by (simp add: sides_def)
  show ?case
  proof (cases a)
    case 0
    then show ?thesis
      by (cases side) (simp_all add: collectWalls_Cons sides_def)
  next
    case (Suc a')
    with Cons.prems have "a' < length rooms" by simp
    from Cons.IH [OF this] Suc show ?thesis
      by (simp add: collectWalls_Cons nth_append sides_def)
  qed
qed

lemma collectWalls_set:
  "w \<in> set (collectWalls rooms) \<Longrightarrow> \<exists>room side. room \<in> set rooms \<and> w = getWallSegment room side"
  by (auto simp add: collectWalls_def)

lemma segment_determined:
  assumes d: "distinct (map room_id rooms)"
    and u: "u \<in> set (collectWalls rooms)" and w: "w \<in> set (collectWalls rooms)"
    and i: "seg_roomId u = seg_roomId w" and s: "seg_side u = seg_side w"
  shows "u = w"
proof -
  from u obtain ru su where ru: "ru \<in> set rooms" and ue: "u = getWallSegment ru su"
    using collectWalls_set by blast
  from w obtain rw sw where rw: "rw \<in> set rooms" and we: "w = getWallSegment rw sw"
    using collectWalls_set by blast
  from i ue we have "room_id ru = room_id rw" by (simp add: getWallSegment_fields)
  with d ru rw have "ru = rw" by (meson distinct_map inj_onD)
  moreover from s ue we have "su = sw" by (simp add: getWallSegment_fields)
  ultimately show ?thesis using ue we by simp
qed

lemma collectWalls_distinct:
  "distinct (map room_id rooms) \<Longrightarrow> distinct (collectWalls rooms)"
proof (induction rooms)
  case Nil
  then show ?case by (simp add: collectWalls_def)
next
  case (Cons room rooms)
  have own: "distinct (map (getWallSegment room) sides)"
  proof -
    have "inj_on (getWallSegment room) (set sides)"
      by (rule inj_onI) (metis getWallSegment_fields(2))
    moreover have "distinct sides" by (simp add: sides_def)
    ultimately show ?thesis by (simp add: distinct_map)
  qed
  have apart: "set (map (getWallSegment room) sides) \<inter> set (collectWalls rooms) = {}"
  proof (rule ccontr)
    assume "set (map (getWallSegment room) sides) \<inter> set (collectWalls rooms) \<noteq> {}"
    then obtain w where a: "w \<in> set (map (getWallSegment room) sides)"
      and b: "w \<in> set (collectWalls rooms)" by blast
    from a have "seg_roomId w = room_id room" by (auto simp add: getWallSegment_fields)
    moreover from b obtain r s where "r \<in> set rooms" and "w = getWallSegment r s"
      using collectWalls_set by blast
    ultimately have "room_id room \<in> room_id ` set rooms"
      by (metis getWallSegment_fields(1) imageI)
    with Cons.prems show False by simp
  qed
  from Cons own apart show ?case by (simp add: collectWalls_Cons)
qed

lemma sideName_inj: "sideName s = sideName t \<Longrightarrow> s = t"
  by (cases s; cases t) simp_all

lemma duplicateWallIssue_inj:
  assumes "duplicateWallIssue u v = duplicateWallIssue w1 w2"
  shows "seg_roomId u = seg_roomId w1" and "seg_roomId v = seg_roomId w2"
    and "seg_side u = seg_side w1" and "seg_side v = seg_side w2"
proof -
  from assms have r: "issue_roomIds (duplicateWallIssue u v) = issue_roomIds (duplicateWallIssue w1 w2)"
    and dt: "issue_details (duplicateWallIssue u v) = issue_details (duplicateWallIssue w1 w2)"
    and i: "issue_id (duplicateWallIssue u v) = issue_id (duplicateWallIssue w1 w2)"
    by simp_all
  from r show a: "seg_roomId u = seg_roomId w1" and b: "seg_roomId v = seg_roomId w2"
    by (simp_all add: duplicateWallIssue_def)
  from dt show c: "seg_side u = seg_side w1"
    by (simp add: duplicateWallIssue_def)
  from i a b c have "sideName (seg_side v) = sideName (seg_side w2)"
    by (simp add: duplicateWallIssue_def)
  then show "seg_side v = seg_side w2" by (rule sideName_inj)
qed

lemma checkWallPair_cases:
  "checkWallPair u v = [] \<or> checkWallPair u v = [duplicateWallIssue u v]"
  by (simp add: checkWallPair_def)

lemma checkWallPair_spec:
  assumes "room_id r1 \<noteq> room_id r2"
  shows "checkWallPair (getWallSegment r1 s1) (getWallSegment r2 s2)
           = (if js_duplicateWall r1 s1 r2 s2
              then [duplicateWallIssue (getWallSegment r1 s1) (getWallSegment r2 s2)]
              else [])"
  using assms
  by (simp add: checkWallPair_def getWallSegment_fields wallsOverlap_js js_duplicateWall_def)

lemma duplicateWallIssue_type:
  "issue_type (duplicateWallIssue u v) = DuplicateWall"
  "issue_severity (duplicateWallIssue u v) = Warning"
  "issue_roomIds (duplicateWallIssue u v) = [seg_roomId u, seg_roomId v]"
  by (simp_all add: duplicateWallIssue_def)

lemma detectDuplicateWalls_pair:
  assumes d: "distinct (map room_id rooms)" and ab: "a < b" and bn: "b < length rooms"
  shows "duplicateWarningsOf (detectDuplicateWalls rooms)
             (getWallSegment (rooms ! a) s1) (getWallSegment (rooms ! b) s2)
           = (if js_duplicateWall (rooms ! a) s1 (rooms ! b) s2
              then [duplicateWallIssue (getWallSegment (rooms ! a) s1)
                      (getWallSegment (rooms ! b) s2)]
              else [])"
proof -
  let ?walls = "collectWalls rooms"
  let ?w1 = "getWallSegment (rooms ! a) s1"
  let ?w2 = "getWallSegment (rooms ! b) s2"
  let ?i0 = "4 * a + sideIndex s1"
  let ?j0 = "4 * b + sideIndex s2"
  let ?Q = "\<lambda>issue. issue = duplicateWallIssue ?w1 ?w2 \<or> issue = duplicateWallIssue ?w2 ?w1"
  let ?g = "\<lambda>i j. checkWallPair (?walls ! i) (?walls ! j)"
  from ab bn have an: "a < length rooms" by simp
  have w1: "?walls ! ?i0 = ?w1" by (rule collectWalls_nth [OF an])
  have w2: "?walls ! ?j0 = ?w2" by (rule collectWalls_nth [OF bn])
  have ij0: "?i0 < ?j0" using ab sideIndex_less [of s1] by simp
  have j0n: "?j0 < length ?walls"
    using bn sideIndex_less [of s2] by (simp add: collectWalls_length)
  have i0n: "?i0 < length ?walls" using ij0 j0n by simp
  have dw: "distinct ?walls" by (rule collectWalls_distinct [OF d])
  have same: "u = w"
    if "u \<in> set ?walls" and "w \<in> set ?walls" and "seg_roomId u = seg_roomId w"
      and "seg_side u = seg_side w" for u w
    using segment_determined [OF d that] .
  have other: "filter ?Q (?g i j) = []"
    if ij: "i < j" and jn: "j < length ?walls" and ne: "(i, j) \<noteq> (?i0, ?j0)" for i j
  proof (rule ccontr)
    assume "filter ?Q (?g i j) \<noteq> []"
    then obtain x where x: "x \<in> set (?g i j)" and q: "?Q x"
      by (auto simp add: filter_empty_conv)
    from x checkWallPair_cases [of "?walls ! i" "?walls ! j"]
    have xe: "x = duplicateWallIssue (?walls ! i) (?walls ! j)" by auto
    from ij jn have "i < length ?walls" by simp
    then have mi: "?walls ! i \<in> set ?walls" and mj: "?walls ! j \<in> set ?walls"
      using jn by simp_all
    have m1: "?w1 \<in> set ?walls" using i0n w1 by (metis nth_mem)
    have m2: "?w2 \<in> set ?walls" using j0n w2 by (metis nth_mem)
    from q show False
    proof
      assume "x = duplicateWallIssue ?w1 ?w2"
      with xe have e: "duplicateWallIssue (?walls ! i) (?walls ! j) = duplicateWallIssue ?w1 ?w2"
        by simp
      have "?walls ! i = ?w1"
        by (rule same [OF mi m1 duplicateWallIssue_inj(1) [OF e] duplicateWallIssue_inj(3) [OF e]])
      moreover have "?walls ! j = ?w2"
        by (rule same [OF mj m2 duplicateWallIssue_inj(2) [OF e] duplicateWallIssue_inj(4) [OF e]])
      ultimately have "?walls ! i = ?walls ! ?i0" and "?walls ! j = ?walls ! ?j0"
        using w1 w2 by simp_all
      then have "i = ?i0" and "j = ?j0"
        using dw \<open>i < length ?walls\<close> jn i0n j0n by (simp_all add: nth_eq_iff_index_eq)
      with ne show False by simp
    next
      assume "x = duplicateWallIssue ?w2 ?w1"
      with xe have e: "duplicateWallIssue (?walls ! i) (?walls ! j) = duplicateWallIssue ?w2 ?w1"
        by simp
      have "?walls ! i = ?w2"
        by (rule same [OF mi m2 duplicateWallIssue_inj(1) [OF e] duplicateWallIssue_inj(3) [OF e]])
      moreover have "?walls ! j = ?w1"
        by (rule same [OF mj m1 duplicateWallIssue_inj(2) [OF e] duplicateWallIssue_inj(4) [OF e]])
      ultimately have "?walls ! i = ?walls ! ?j0" and "?walls ! j = ?walls ! ?i0"
        using w1 w2 by simp_all
      then have "i = ?j0" and "j = ?i0"
        using dw \<open>i < length ?walls\<close> jn i0n j0n by (simp_all add: nth_eq_iff_index_eq)
      with ij ij0 show False by simp
    qed
  qed
  have ids: "room_id (rooms ! a) \<noteq> room_id (rooms ! b)"
    using room_id_inj [OF d an bn] ab by auto
  have "filter ?Q (concat (map (\<lambda>i. concat (map (?g i) [i + 1 ..< length ?walls]))
                       [0 ..< length ?walls]))
          = filter ?Q (?g ?i0 ?j0)"
    by (rule filter_nested_loop [OF ij0 j0n other])
  also have "\<dots> = filter ?Q (checkWallPair ?w1 ?w2)" by (simp only: w1 w2)
  also have "\<dots> = (if js_duplicateWall (rooms ! a) s1 (rooms ! b) s2
              then [duplicateWallIssue ?w1 ?w2] else [])"
    by (simp add: checkWallPair_spec [OF ids])
  finally show ?thesis
    by (simp add: duplicateWarningsOf_def detectDuplicateWalls_def Let_def)
qed

lemma duplicateWarningsOf_validate:
  "floor_rooms (fp_floor floorPlan) = rooms \<Longrightarrow>
   duplicateWarningsOf (validateFloorPlan floorPlan) w1 w2
     = duplicateWarningsOf (detectDuplicateWalls rooms) w1 w2"
proof (cases "rooms = []")
  case True
  assume "floor_rooms (fp_floor floorPlan) = rooms"
  with True show ?thesis
    by (simp add: validateFloorPlan_def duplicateWarningsOf_def detectDuplicateWalls_def
        collectWalls_def)
next
  case False
  assume r: "floor_rooms (fp_floor floorPlan) = rooms"
  let ?Q = "\<lambda>issue. issue = duplicateWallIssue w1 w2 \<or> issue = duplicateWallIssue w2 w1"
  have t: "\<And>x. ?Q x \<Longrightarrow> issue_type x = DuplicateWall"
    by (auto simp add: duplicateWallIssue_type)
  have a: "filter ?Q (detectInvalidDimensions rooms) = []"
    by (rule filter_by_type(1) [where ty = DuplicateWall, OF t]) simp_all
  have b: "filter ?Q (detectOverlaps rooms) = []"
    by (rule filter_by_type(2) [where ty = DuplicateWall, OF t]) simp_all
  show ?thesis
    by (simp add: validate_nonempty [OF False r] duplicateWarningsOf_def a b)
qed

lemma duplicates_of_validate:
  "floor_rooms (fp_floor floorPlan) = rooms \<Longrightarrow>
   filter (\<lambda>issue. issue_type issue = DuplicateWall) (validateFloorPlan floorPlan)
     = detectDuplicateWalls rooms"
proof (cases "rooms = []")
  case True
  assume "floor_rooms (fp_floor floorPlan) = rooms"
  with True show ?thesis
    by (simp add: validateFloorPlan_def detectDuplicateWalls_def collectWalls_def)
next
  case False
  assume r: "floor_rooms (fp_floor floorPlan) = rooms"
  let ?P = "\<lambda>issue. issue_type issue = DuplicateWall"
  have a: "filter ?P (detectInvalidDimensions rooms) = []"
    by (rule filter_by_type(1) [where ty = DuplicateWall]) simp_all
  have b: "filter ?P (detectOverlaps rooms) = []"
    by (rule filter_by_type(2) [where ty = DuplicateWall]) simp_all
  have c: "filter ?P (detectDuplicateWalls rooms) = detectDuplicateWalls rooms"
    by (simp add: issue_types(3))
  show ?thesis
    by (simp add: validate_nonempty [OF False r] a b c)
qed

text \<open>The plan of two rooms: only the pairs of a wall of the first and a wall of the second count.\<close>

lemma detectDuplicateWalls_two:
  assumes "room_id r1 \<noteq> room_id r2"
  shows "detectDuplicateWalls [r1, r2]
           = concat (map (\<lambda>s. concat (map (\<lambda>t.
               if js_duplicateWall r1 s r2 t
               then [duplicateWallIssue (getWallSegment r1 s) (getWallSegment r2 t)]
               else []) sides)) sides)"
proof -
  have u: "[0 ..< 8] = [0, 1, 2, 3, 4, 5, 6, 7 :: nat]" "[1 ..< 8] = [1, 2, 3, 4, 5, 6, 7 :: nat]"
    "[2 ..< 8] = [2, 3, 4, 5, 6, 7 :: nat]" "[3 ..< 8] = [3, 4, 5, 6, 7 :: nat]"
    "[4 ..< 8] = [4, 5, 6, 7 :: nat]" "[5 ..< 8] = [5, 6, 7 :: nat]"
    "[6 ..< 8] = [6, 7 :: nat]" "[7 ..< 8] = [7 :: nat]" "[8 ..< 8] = ([] :: nat list)"
    by code_simp+
  have same: "checkWallPair (getWallSegment r s) (getWallSegment r t) = []" for r s t
    by (simp add: checkWallPair_def getWallSegment_fields)
  have w: "collectWalls [r1, r2]
      = [getWallSegment r1 North, getWallSegment r1 East, getWallSegment r1 South,
         getWallSegment r1 West, getWallSegment r2 North, getWallSegment r2 East,
         getWallSegment r2 South, getWallSegment r2 West]"
    by (simp add: collectWalls_def sides_def)
  show ?thesis
    unfolding detectDuplicateWalls_def Let_def w
    by (simp add: u same checkWallPair_spec [OF assms] sides_def)
qed

lemma plainRoom_fields:
  "room_id (plainRoom rid x y n e s w) = rid"
  "room_position (plainRoom rid x y n e s w) = \<lparr> pos_x = x, pos_y = y \<rparr>"
  "spec_roomWidth (plainRoom rid x y n e s w) = max n s"
  "spec_roomHeight (plainRoom rid x y n e s w) = max e w"
  "spec_exists (north (room_walls (plainRoom rid x y n e s w)))"
  "spec_exists (east (room_walls (plainRoom rid x y n e s w)))"
  "spec_exists (south (room_walls (plainRoom rid x y n e s w)))"
  "spec_exists (west (room_walls (plainRoom rid x y n e s w)))"
  by (simp_all add: plainRoom_def plainWall_def spec_roomWidth_def spec_roomHeight_def
      spec_length_def spec_exists_def)

text \<open>
  Claim C3, as stated, fails. In \<open>strip_plan\<close> the east wall of the first room and the west
  wall of the second both exist, both are vertical, their \<open>x\<close> coordinates differ by exactly
  1 and their ranges overlap by 10: the claim promises a warning. The code computes the
  \<open>x\<close> of the east wall in doubles, finds a difference of \<open>1.0000000000000002\<close> and
  emits no warning for the pair.
\<close>

theorem duplicate_wall_rounding_counterexample:
  "room_id narrow_room \<noteq> room_id shifted_room
   \<and> spec_fixedCoordinate narrow_room East - spec_fixedCoordinate shifted_room West = 1
   \<and> spec_rangeOverlap (spec_range narrow_room East) (spec_range shifted_room West) = 10
   \<and> spec_duplicateWall narrow_room East shifted_room West
   \<and> checkWallPair (getWallSegment narrow_room East) (getWallSegment shifted_room West) = []
   \<and> duplicateWarningsOf (validateFloorPlan strip_plan)
         (getWallSegment narrow_room East) (getWallSegment shifted_room West) = []"
proof -
  have r: "floor_rooms (fp_floor strip_plan) = [narrow_room, shifted_room]"
    by (simp add: strip_plan_def planOf_def)
  have n: "room_id narrow_room \<noteq> room_id shifted_room" by (simp add: strip_rooms)
  have d: "distinct (map room_id [narrow_room, shifted_room])" by (simp add: strip_rooms)
  have x: "spec_exists (east (room_walls narrow_room))"
    "spec_exists (west (room_walls shifted_room))"
    by (simp_all add: narrow_room_def shifted_room_def plainRoom_fields)
  have f: "spec_fixedCoordinate narrow_room East - spec_fixedCoordinate shifted_room West = 1"
    by (simp add: spec_fixedCoordinate_def strip_rooms)
  have o: "spec_rangeOverlap (spec_range narrow_room East) (spec_range shifted_room West) = 10"
    by (simp add: spec_rangeOverlap_def spec_range_def spec_horizontal_def strip_rooms)
  have s: "spec_duplicateWall narrow_room East shifted_room West"
    by (simp add: spec_duplicateWall_def x f o spec_horizontal_def)
  have j: "\<not> js_duplicateWall narrow_room East shifted_room West"
    by (simp add: js_duplicateWall_def js_fixedCoordinate_def strip_rooms strip_sums)
  have c: "checkWallPair (getWallSegment narrow_room East) (getWallSegment shifted_room West)
             = []"
    by (simp add: checkWallPair_spec [OF n] j)
  have v: "duplicateWarningsOf (validateFloorPlan strip_plan)
         (getWallSegment narrow_room East) (getWallSegment shifted_room West) = []"
    using detectDuplicateWalls_pair [OF d, of 0 1 East West]
    by (simp add: duplicateWarningsOf_validate [OF r] j)
  from n f o s c v show ?thesis by simp
qed

text \<open>
  Claim C3, amended: the far edge of a room is the sum of its position and its extent
  rounded to a double, and the difference of the fixed coordinates and the common part of
  the ranges are rounded differences. The duplicate-wall warnings of \<open>validateFloorPlan\<close>
  are what the loop body pushes for the pairs of collected wall segments, in the order of
  the pairs. For two rooms with different identifiers and any two of their sides, the loop
  body pushes exactly one warning when both walls exist, both segments have the same
  orientation, their fixed coordinates differ by at most 1 and their ranges on the other
  axis overlap by more than 1, these two quantities computed in doubles, and nothing
  otherwise. In a plan whose room identifiers are distinct, for the rooms at the positions
  \<open>a < b\<close> of the room list and every side \<open>s1\<close> of the first and \<open>s2\<close> of the second, the
  warnings of the validation for these two segments (in either order) are therefore that
  one warning when the condition holds and none otherwise; in particular none when one of
  the two walls has \<open>exists: false\<close>.
\<close>

theorem duplicate_wall_warnings:
  "filter (\<lambda>issue. issue_type issue = DuplicateWall) (validateFloorPlan floorPlan)
     = (let walls = collectWalls (floor_rooms (fp_floor floorPlan))
        in concat (map (\<lambda>k. concat (map (\<lambda>l. checkWallPair (walls ! k) (walls ! l))
             [k + 1 ..< length walls])) [0 ..< length walls]))
   \<and> (room_id roomA \<noteq> room_id roomB
      \<longrightarrow> checkWallPair (getWallSegment roomA sideA) (getWallSegment roomB sideB)
            = (if js_duplicateWall roomA sideA roomB sideB
               then [duplicateWallIssue (getWallSegment roomA sideA)
                       (getWallSegment roomB sideB)]
               else []))
   \<and> (distinct (map room_id (floor_rooms (fp_floor floorPlan)))
        \<and> a < b \<and> b < length (floor_rooms (fp_floor floorPlan))
      \<longrightarrow> (let ra = floor_rooms (fp_floor floorPlan) ! a;
               rb = floor_rooms (fp_floor floorPlan) ! b;
               w1 = getWallSegment ra s1;
               w2 = getWallSegment rb s2;
               warning = duplicateWallIssue w1 w2
           in duplicateWarningsOf (validateFloorPlan floorPlan) w1 w2
                = (if js_duplicateWall ra s1 rb s2 then [warning] else [])
              \<and> issue_type warning = DuplicateWall \<and> issue_severity warning = Warning
              \<and> issue_roomIds warning = [room_id ra, room_id rb]
              \<and> (\<not> spec_exists (wallOf ra s1) \<or> \<not> spec_exists (wallOf rb s2)
                   \<longrightarrow> duplicateWarningsOf (validateFloorPlan floorPlan) w1 w2 = [])))"
proof (intro conjI impI)
  show "filter (\<lambda>issue. issue_type issue = DuplicateWall) (validateFloorPlan floorPlan)
     = (let walls = collectWalls (floor_rooms (fp_floor floorPlan))
        in concat (map (\<lambda>k. concat (map (\<lambda>l. checkWallPair (walls ! k) (walls ! l))
             [k + 1 ..< length walls])) [0 ..< length walls]))"
    by (simp only: duplicates_of_validate [OF refl] detectDuplicateWalls_def)
next
  assume "room_id roomA \<noteq> room_id roomB"
  then show "checkWallPair (getWallSegment roomA sideA) (getWallSegment roomB sideB)
            = (if js_duplicateWall roomA sideA roomB sideB
               then [duplicateWallIssue (getWallSegment roomA sideA)
                       (getWallSegment roomB sideB)]
               else [])"
    by (rule checkWallPair_spec)
next
  assume h: "distinct (map room_id (floor_rooms (fp_floor floorPlan)))
     \<and> a < b \<and> b < length (floor_rooms (fp_floor floorPlan))"
  then have d: "distinct (map room_id (floor_rooms (fp_floor floorPlan)))"
    and ab: "a < b" and bn: "b < length (floor_rooms (fp_floor floorPlan))" by simp_all
  show "let ra = floor_rooms (fp_floor floorPlan) ! a;
            rb = floor_rooms (fp_floor floorPlan) ! b;
            w1 = getWallSegment ra s1;
            w2 = getWallSegment rb s2;
            warning = duplicateWallIssue w1 w2
        in duplicateWarningsOf (validateFloorPlan floorPlan) w1 w2
             = (if js_duplicateWall ra s1 rb s2 then [warning] else [])
           \<and> issue_type warning = DuplicateWall \<and> issue_severity warning = Warning
           \<and> issue_roomIds warning = [room_id ra, room_id rb]
           \<and> (\<not> spec_exists (wallOf ra s1) \<or> \<not> spec_exists (wallOf rb s2)
                \<longrightarrow> duplicateWarningsOf (validateFloorPlan floorPlan) w1 w2 = [])"
    using detectDuplicateWalls_pair [OF d ab bn, of s1 s2]
    by (auto simp add: Let_def duplicateWarningsOf_validate [OF refl] duplicateWallIssue_type
        getWallSegment_fields js_duplicateWall_def)
qed

text \<open>
  The amended claim C3 at two rooms side by side: the east wall of the first and the west
  wall of the second give the only issue of the plan, and no issue at all once the west
  wall is virtual.
\<close>

theorem duplicate_wall_warnings_witness:
  "distinct (map room_id (floor_rooms (fp_floor adjacent_plan)))
   \<and> (0 :: nat) < 1 \<and> 1 < length (floor_rooms (fp_floor adjacent_plan))
   \<and> js_duplicateWall left_room East right_room West
   \<and> room_id left_room \<noteq> room_id right_room
   \<and> checkWallPair (getWallSegment left_room East) (getWallSegment right_room West)
       = [duplicateWallIssue (getWallSegment left_room East) (getWallSegment right_room West)]
   \<and> duplicateWarningsOf (validateFloorPlan adjacent_plan)
         (getWallSegment left_room East) (getWallSegment right_room West)
       = [duplicateWallIssue (getWallSegment left_room East) (getWallSegment right_room West)]
   \<and> validateFloorPlan adjacent_plan
       = [duplicateWallIssue (getWallSegment left_room East) (getWallSegment right_room West)]
   \<and> distinct (map room_id (floor_rooms (fp_floor adjacent_virtual_plan)))
   \<and> 1 < length (floor_rooms (fp_floor adjacent_virtual_plan))
   \<and> \<not> spec_exists (wallOf right_room_virtual West)
   \<and> duplicateWarningsOf (validateFloorPlan adjacent_virtual_plan)
         (getWallSegment left_room East) (getWallSegment right_room_virtual West) = []
   \<and> validateFloorPlan adjacent_virtual_plan = []"
proof -
  have r: "floor_rooms (fp_floor adjacent_plan) = [left_room, right_room]"
    and rv: "floor_rooms (fp_floor adjacent_virtual_plan) = [left_room, right_room_virtual]"
    by (simp_all add: adjacent_plan_def adjacent_virtual_plan_def planOf_def)
  have h: "distinct (map room_id (floor_rooms (fp_floor adjacent_plan)))
     \<and> (0 :: nat) < 1 \<and> 1 < length (floor_rooms (fp_floor adjacent_plan))"
    by code_simp
  have hv: "distinct (map room_id (floor_rooms (fp_floor adjacent_virtual_plan)))
     \<and> (0 :: nat) < 1 \<and> 1 < length (floor_rooms (fp_floor adjacent_virtual_plan))"
    by code_simp
  have n: "room_id left_room \<noteq> room_id right_room"
    and nv: "room_id left_room \<noteq> room_id right_room_virtual"
    by code_simp+
  have e: "\<not> spec_exists (wallOf right_room_virtual West)"
    by code_simp
  have ex: "spec_exists (north (room_walls right_room_virtual))"
    "spec_exists (east (room_walls right_room_virtual))"
    "spec_exists (south (room_walls right_room_virtual))"
    "\<not> spec_exists (west (room_walls right_room_virtual))"
    by (simp_all add: right_room_virtual_def right_room_def plainRoom_def plainWall_def
        spec_exists_def)
  have g: "room_position right_room_virtual = \<lparr> pos_x = 300, pos_y = 0 \<rparr>"
    "spec_roomWidth right_room_virtual = 300" "spec_roomHeight right_room_virtual = 300"
    by (simp_all add: right_room_virtual_def right_room_def plainRoom_def plainWall_def
        spec_roomWidth_def spec_roomHeight_def spec_length_def)
  have dup: "js_duplicateWall left_room s right_room t = (s = East \<and> t = West)" for s t
    by (cases s; cases t;
        simp add: js_duplicateWall_def js_fixedCoordinate_def js_range_def js_rangeOverlap_def
          spec_horizontal_def left_room_def right_room_def plainRoom_fields float_ops
          rnd_numeral rnd_neg_numeral rnd_zero)
  have dupv: "\<not> js_duplicateWall left_room s right_room_virtual t" for s t
    by (cases s; cases t;
        simp add: js_duplicateWall_def js_fixedCoordinate_def js_range_def js_rangeOverlap_def
          spec_horizontal_def left_room_def plainRoom_fields ex g float_ops
          rnd_numeral rnd_neg_numeral rnd_zero)
  have s: "js_duplicateWall left_room East right_room West" by (simp add: dup)
  have i: "detectInvalidDimensions [left_room, right_room] = []"
    "detectInvalidDimensions [left_room, right_room_virtual] = []"
    by (simp_all add: detectInvalidDimensions_def Let_def getRoomBounds_spec g left_room_def
        right_room_def plainRoom_fields)
  have o: "detectOverlaps [left_room, right_room] = []"
    "detectOverlaps [left_room, right_room_virtual] = []"
    by (simp_all add: detectOverlaps_two js_boxesOverlap_def js_intersection_def Let_def g
        left_room_def right_room_def plainRoom_fields float_ops rnd_numeral rnd_zero)
  have v: "validateFloorPlan adjacent_plan
       = [duplicateWallIssue (getWallSegment left_room East) (getWallSegment right_room West)]"
    by (simp add: validate_nonempty [OF _ r] i o detectDuplicateWalls_two [OF n] dup sides_def)
  have vv: "validateFloorPlan adjacent_virtual_plan = []"
    by (simp add: validate_nonempty [OF _ rv] i o detectDuplicateWalls_two [OF nv] dupv
        sides_def)
  note t0 = duplicate_wall_warnings [where roomA = left_room and roomB = right_room
      and sideA = East and sideB = West, THEN conjunct2, THEN conjunct1, THEN mp, OF n]
  note t1 = duplicate_wall_warnings [where floorPlan = adjacent_plan and a = 0 and b = 1
      and ?s1.0 = East and ?s2.0 = West, THEN conjunct2, THEN conjunct2, THEN mp, OF h]
  note t2 = duplicate_wall_warnings [where floorPlan = adjacent_virtual_plan and a = 0 and b = 1
      and ?s1.0 = East and ?s2.0 = West, THEN conjunct2, THEN conjunct2, THEN mp, OF hv]
  from t0 s have c0: "checkWallPair (getWallSegment left_room East) (getWallSegment right_room West)
       = [duplicateWallIssue (getWallSegment left_room East) (getWallSegment right_room West)]"
    by simp
  from t1 s have c1: "duplicateWarningsOf (validateFloorPlan adjacent_plan)
         (getWallSegment left_room East) (getWallSegment right_room West)
       = [duplicateWallIssue (getWallSegment left_room East) (getWallSegment right_room West)]"
    by (simp add: Let_def r)
  from t2 e have c2: "duplicateWarningsOf (validateFloorPlan adjacent_virtual_plan)
         (getWallSegment left_room East) (getWallSegment right_room_virtual West) = []"
    by (auto simp add: Let_def rv)
  from h hv s e v vv c0 c1 c2 n show ?thesis by simp
qed

end
